theory Spec2Isabelle
  imports Main "HOL-Library.Word" "HOL-Library.Multiset"
begin

unbundle bit_operations_syntax

section \<open>Wire format\<close>

text \<open>
  A request packet is handed to the validators and executors as a \<^verbatim>\<open>void*\<close>: a region of
  memory read at byte offsets from the packet pointer. The model is the function from offsets
  to bytes; a read past the bytes the client sent yields whatever the read buffer holds
  there, as in the C code, which has no length to check against.
\<close>

type_synonym byte = "8 word"
type_synonym mem = "nat \<Rightarrow> 8 word"

definition mem_of :: "byte list \<Rightarrow> mem" where
  "mem_of xs = (\<lambda>i. if i < length xs then xs ! i else 0)"

definition slice :: "mem \<Rightarrow> nat \<Rightarrow> nat \<Rightarrow> byte list" where
  "slice m off n = map m [off ..< off + n]"

text \<open>Big-endian (network order) value of a byte string, and its inverse on \<open>k\<close> bytes.\<close>

fun be_val :: "byte list \<Rightarrow> nat" where
  "be_val [] = 0"
| "be_val (b # bs) = unat b * 256 ^ length bs + be_val bs"

fun be_bytes :: "nat \<Rightarrow> nat \<Rightarrow> byte list" where
  "be_bytes 0 v = []"
| "be_bytes (Suc k) v = of_nat (v div 256 ^ k) # be_bytes k (v mod 256 ^ k)"

text \<open>
  The host reads and writes a multi-byte field in its own byte order: \<open>le\<close> is true on a
  little-endian host. \<open>ntohs\<close>, \<open>ntohl\<close> and \<open>ntohll\<close> swap the bytes there and are the
  identity on a big-endian host; \<open>htons\<close> and \<open>htonll\<close> are the same functions.
\<close>

definition host_val :: "bool \<Rightarrow> byte list \<Rightarrow> nat" where
  "host_val le bs = (if le then be_val (rev bs) else be_val bs)"

definition host_bytes :: "bool \<Rightarrow> nat \<Rightarrow> nat \<Rightarrow> byte list" where
  "host_bytes le k v = (if le then rev (be_bytes k v) else be_bytes k v)"

definition bswap :: "nat \<Rightarrow> nat \<Rightarrow> nat" where
  "bswap k v = be_val (rev (be_bytes k v))"

definition load16 :: "bool \<Rightarrow> mem \<Rightarrow> nat \<Rightarrow> 16 word" where
  "load16 le m a = of_nat (host_val le (slice m a 2))"

definition load32 :: "bool \<Rightarrow> mem \<Rightarrow> nat \<Rightarrow> 32 word" where
  "load32 le m a = of_nat (host_val le (slice m a 4))"

definition load64 :: "bool \<Rightarrow> mem \<Rightarrow> nat \<Rightarrow> 64 word" where
  "load64 le m a = of_nat (host_val le (slice m a 8))"

definition ntohs :: "bool \<Rightarrow> 16 word \<Rightarrow> 16 word" where
  "ntohs le w = (if le then of_nat (bswap 2 (unat w)) else w)"

definition ntohl :: "bool \<Rightarrow> 32 word \<Rightarrow> 32 word" where
  "ntohl le w = (if le then of_nat (bswap 4 (unat w)) else w)"

definition ntohll :: "bool \<Rightarrow> 64 word \<Rightarrow> 64 word" where
  "ntohll le w = (if le then of_nat (bswap 8 (unat w)) else w)"

definition htons :: "bool \<Rightarrow> 16 word \<Rightarrow> 16 word" where
  "htons le w = ntohs le w"

definition htonll :: "bool \<Rightarrow> 64 word \<Rightarrow> 64 word" where
  "htonll le w = ntohll le w"

text \<open>
  Layout of the 24-byte header (\<^verbatim>\<open>protocol_binary_request_header\<close>) and of the
  sub-document extras that follow it, as offsets from the packet pointer:
  magic 0, opcode 1, keylen 2..3, extlen 4, datatype 5, vbucket 6..7, bodylen 8..11,
  opaque 12..15, cas 16..23; pathlen 24..25, subdoc_flags 26.
\<close>

definition hdr_magic :: "mem \<Rightarrow> 8 word" where "hdr_magic packet = packet 0"
definition hdr_keylen :: "bool \<Rightarrow> mem \<Rightarrow> 16 word" where "hdr_keylen le packet = load16 le packet 2"
definition hdr_extlen :: "mem \<Rightarrow> 8 word" where "hdr_extlen packet = packet 4"
definition hdr_datatype :: "mem \<Rightarrow> 8 word" where "hdr_datatype packet = packet 5"
definition hdr_vbucket :: "bool \<Rightarrow> mem \<Rightarrow> 16 word" where "hdr_vbucket le packet = load16 le packet 6"
definition hdr_bodylen :: "bool \<Rightarrow> mem \<Rightarrow> 32 word" where "hdr_bodylen le packet = load32 le packet 8"
definition hdr_cas :: "bool \<Rightarrow> mem \<Rightarrow> 64 word" where "hdr_cas le packet = load64 le packet 16"
definition extras_pathlen :: "bool \<Rightarrow> mem \<Rightarrow> 16 word" where "extras_pathlen le packet = load16 le packet 24"
definition extras_subdoc_flags :: "mem \<Rightarrow> 8 word" where "extras_subdoc_flags packet = packet 26"

text \<open>The values the fields have on the wire, whatever the host.\<close>

definition wire_keylen :: "mem \<Rightarrow> nat" where "wire_keylen packet = be_val (slice packet 2 2)"
definition wire_bodylen :: "mem \<Rightarrow> nat" where "wire_bodylen packet = be_val (slice packet 8 4)"
definition wire_cas :: "mem \<Rightarrow> nat" where "wire_cas packet = be_val (slice packet 16 8)"
definition wire_pathlen :: "mem \<Rightarrow> nat" where "wire_pathlen packet = be_val (slice packet 24 2)"

abbreviation (input) PROTOCOL_BINARY_REQ :: "8 word" where "PROTOCOL_BINARY_REQ \<equiv> 0x80"
abbreviation (input) PROTOCOL_BINARY_RAW_BYTES :: "8 word" where "PROTOCOL_BINARY_RAW_BYTES \<equiv> 0x00"
abbreviation (input) PROTOCOL_BINARY_DATATYPE_JSON :: "8 word" where "PROTOCOL_BINARY_DATATYPE_JSON \<equiv> 0x01"
abbreviation (input) PROTOCOL_BINARY_DATATYPE_COMPRESSED :: "8 word" where
  "PROTOCOL_BINARY_DATATYPE_COMPRESSED \<equiv> 0x02"
abbreviation (input) PROTOCOL_BINARY_DATATYPE_COMPRESSED_JSON :: "8 word" where
  "PROTOCOL_BINARY_DATATYPE_COMPRESSED_JSON \<equiv> 0x03"
abbreviation (input) SUBDOC_PATH_MAX_LENGTH :: nat where "SUBDOC_PATH_MAX_LENGTH \<equiv> 1024"
abbreviation (input) PROTOCOL_BINARY_SUBDOC_MULTI_MAX_PATHS :: nat where
  "PROTOCOL_BINARY_SUBDOC_MULTI_MAX_PATHS \<equiv> 16"
abbreviation (input) SUBDOC_FLAG_NONE :: "8 word" where "SUBDOC_FLAG_NONE \<equiv> 0x00"
abbreviation (input) SUBDOC_FLAG_MKDIR_P :: "8 word" where "SUBDOC_FLAG_MKDIR_P \<equiv> 0x01"

section \<open>Commands and their traits\<close>

text \<open>
  The opcodes of the protocol header \<^verbatim>\<open>memcached/protocol_binary.h\<close>, which is not among
  the sources; the numbers are those of the binary protocol.
\<close>

datatype protocol_binary_command =
    PROTOCOL_BINARY_CMD_SUBDOC_GET
  | PROTOCOL_BINARY_CMD_SUBDOC_EXISTS
  | PROTOCOL_BINARY_CMD_SUBDOC_DICT_ADD
  | PROTOCOL_BINARY_CMD_SUBDOC_DICT_UPSERT
  | PROTOCOL_BINARY_CMD_SUBDOC_DELETE
  | PROTOCOL_BINARY_CMD_SUBDOC_REPLACE
  | PROTOCOL_BINARY_CMD_SUBDOC_ARRAY_PUSH_LAST
  | PROTOCOL_BINARY_CMD_SUBDOC_ARRAY_PUSH_FIRST
  | PROTOCOL_BINARY_CMD_SUBDOC_ARRAY_INSERT
  | PROTOCOL_BINARY_CMD_SUBDOC_ARRAY_ADD_UNIQUE
  | PROTOCOL_BINARY_CMD_SUBDOC_COUNTER
  | PROTOCOL_BINARY_CMD_SUBDOC_MULTI_LOOKUP
  | PROTOCOL_BINARY_CMD_SUBDOC_MULTI_MUTATION

fun opcode_of :: "protocol_binary_command \<Rightarrow> 8 word" where
  "opcode_of PROTOCOL_BINARY_CMD_SUBDOC_GET = 0xc5"
| "opcode_of PROTOCOL_BINARY_CMD_SUBDOC_EXISTS = 0xc6"
| "opcode_of PROTOCOL_BINARY_CMD_SUBDOC_DICT_ADD = 0xc7"
| "opcode_of PROTOCOL_BINARY_CMD_SUBDOC_DICT_UPSERT = 0xc8"
| "opcode_of PROTOCOL_BINARY_CMD_SUBDOC_DELETE = 0xc9"
| "opcode_of PROTOCOL_BINARY_CMD_SUBDOC_REPLACE = 0xca"
| "opcode_of PROTOCOL_BINARY_CMD_SUBDOC_ARRAY_PUSH_LAST = 0xcb"
| "opcode_of PROTOCOL_BINARY_CMD_SUBDOC_ARRAY_PUSH_FIRST = 0xcc"
| "opcode_of PROTOCOL_BINARY_CMD_SUBDOC_ARRAY_INSERT = 0xcd"
| "opcode_of PROTOCOL_BINARY_CMD_SUBDOC_ARRAY_ADD_UNIQUE = 0xce"
| "opcode_of PROTOCOL_BINARY_CMD_SUBDOC_COUNTER = 0xcf"
| "opcode_of PROTOCOL_BINARY_CMD_SUBDOC_MULTI_LOOKUP = 0xd0"
| "opcode_of PROTOCOL_BINARY_CMD_SUBDOC_MULTI_MUTATION = 0xd1"

text \<open>
  \<^verbatim>\<open>cmd_traits<Cmd2Type<CMD>>\<close>: the per-opcode record the templates are specialised by. The
  table itself (\<^verbatim>\<open>subdocument_traits.h\<close>) is not among the sources, so every function below
  takes it as the parameter \<open>traits\<close>, and every theorem holds for any table.
\<close>

record cmd_traits =
  optype :: "8 word"
  request_has_value :: bool
  allow_empty_path :: bool
  response_has_value :: bool
  is_mutator :: bool
  valid_flags :: "8 word"

type_synonym traits_table = "protocol_binary_command \<Rightarrow> cmd_traits"

text \<open>
  A table to run the definitions on: lookups take no value and no flag, mutations may carry
  \<^verbatim>\<open>MKDIR_P\<close>, \<^verbatim>\<open>GET\<close> and \<^verbatim>\<open>COUNTER\<close> answer with a value.
\<close>

definition sample_traits :: traits_table where
  "sample_traits CMD =
     (if CMD = PROTOCOL_BINARY_CMD_SUBDOC_GET then
        \<lparr>optype = 0x00, request_has_value = False, allow_empty_path = False,
         response_has_value = True, is_mutator = False, valid_flags = SUBDOC_FLAG_NONE\<rparr>
      else if CMD = PROTOCOL_BINARY_CMD_SUBDOC_EXISTS then
        \<lparr>optype = 0x01, request_has_value = False, allow_empty_path = False,
         response_has_value = False, is_mutator = False, valid_flags = SUBDOC_FLAG_NONE\<rparr>
      else if CMD = PROTOCOL_BINARY_CMD_SUBDOC_DELETE then
        \<lparr>optype = 0x05, request_has_value = False, allow_empty_path = False,
         response_has_value = False, is_mutator = True, valid_flags = SUBDOC_FLAG_NONE\<rparr>
      else if CMD = PROTOCOL_BINARY_CMD_SUBDOC_COUNTER then
        \<lparr>optype = 0x06, request_has_value = True, allow_empty_path = False,
         response_has_value = True, is_mutator = True, valid_flags = SUBDOC_FLAG_MKDIR_P\<rparr>
      else
        \<lparr>optype = 0x02, request_has_value = True, allow_empty_path = False,
         response_has_value = False, is_mutator = True, valid_flags = SUBDOC_FLAG_MKDIR_P\<rparr>)"

section \<open>Request validators (subdocument_validators.cc)\<close>

subsection \<open>Single-path commands\<close>

text \<open>
  \<^verbatim>\<open>subdoc_validator<CMD>\<close>. \<open>valuelen\<close> is a \<^verbatim>\<open>uint32_t\<close>: the subtraction wraps around
  when the declared body is shorter than key, extras and path together.
\<close>

definition subdoc_valuelen :: "bool \<Rightarrow> mem \<Rightarrow> 32 word" where
  "subdoc_valuelen le packet =
     ntohl le (hdr_bodylen le packet) - ucast (ntohs le (hdr_keylen le packet))
       - ucast (hdr_extlen packet) - ucast (ntohs le (extras_pathlen le packet))"

definition subdoc_validator :: "bool \<Rightarrow> traits_table \<Rightarrow> protocol_binary_command \<Rightarrow> mem \<Rightarrow> int" where
  "subdoc_validator le traits CMD packet =
     (if hdr_magic packet \<noteq> PROTOCOL_BINARY_REQ
         \<or> ntohs le (hdr_keylen le packet) = 0
         \<or> hdr_extlen packet \<noteq> 3
         \<or> unat (ntohs le (extras_pathlen le packet)) > SUBDOC_PATH_MAX_LENGTH
         \<or> hdr_datatype packet \<noteq> PROTOCOL_BINARY_RAW_BYTES
      then - 1
      else if request_has_value (traits CMD) \<and> subdoc_valuelen le packet = 0 then - 1
      else if \<not> request_has_value (traits CMD) \<and> subdoc_valuelen le packet \<noteq> 0 then - 1
      else if (extras_subdoc_flags packet AND NOT (valid_flags (traits CMD))) \<noteq> 0 then - 1
      else if \<not> allow_empty_path (traits CMD) \<and> ntohs le (extras_pathlen le packet) = 0 then - 1
      else 0)"

subsection \<open>Multi-path lookup\<close>

text \<open>
  A lookup spec (\<^verbatim>\<open>protocol_binary_subdoc_multi_lookup_spec\<close>) is opcode (1 byte), flags
  (1 byte), pathlen (2 bytes), followed by the path; \<^verbatim>\<open>sizeof(*spec)\<close> is 4. The spec at
  \<^verbatim>\<open>body_ptr + body_validated\<close> starts 24 bytes (the header) further from the packet pointer.
\<close>

definition sizeof_spec :: nat where "sizeof_spec = 4"

definition spec_opcode :: "mem \<Rightarrow> nat \<Rightarrow> 8 word" where
  "spec_opcode packet body_validated = packet (24 + body_validated)"

definition spec_flags :: "mem \<Rightarrow> nat \<Rightarrow> 8 word" where
  "spec_flags packet body_validated = packet (24 + body_validated + 1)"

definition spec_pathlen :: "bool \<Rightarrow> mem \<Rightarrow> nat \<Rightarrow> 16 word" where
  "spec_pathlen le packet body_validated = htons le (load16 le packet (24 + body_validated + 2))"

text \<open>Steps 2a and 2b of the loop body: true when neither returns -1.\<close>

definition check_lookup_spec :: "bool \<Rightarrow> traits_table \<Rightarrow> mem \<Rightarrow> nat \<Rightarrow> bool" where
  "check_lookup_spec le traits packet body_validated =
     (if (spec_opcode packet body_validated \<noteq> opcode_of PROTOCOL_BINARY_CMD_SUBDOC_GET
            \<and> spec_opcode packet body_validated \<noteq> opcode_of PROTOCOL_BINARY_CMD_SUBDOC_EXISTS)
         \<or> spec_pathlen le packet body_validated = 0
         \<or> unat (spec_pathlen le packet body_validated) > SUBDOC_PATH_MAX_LENGTH
      then False
      else if spec_opcode packet body_validated = opcode_of PROTOCOL_BINARY_CMD_SUBDOC_GET then
        (spec_flags packet body_validated
            AND NOT (valid_flags (traits PROTOCOL_BINARY_CMD_SUBDOC_GET))) = 0
      else if spec_opcode packet body_validated = opcode_of PROTOCOL_BINARY_CMD_SUBDOC_EXISTS then
        (spec_flags packet body_validated
            AND NOT (valid_flags (traits PROTOCOL_BINARY_CMD_SUBDOC_EXISTS))) = 0
      else False)"

text \<open>
  The \<^verbatim>\<open>for\<close> loop over the specs: \<open>None\<close> when the body returns -1, otherwise the values of
  \<^verbatim>\<open>path_index\<close> and \<^verbatim>\<open>body_validated\<close> at loop exit. The lengths are \<^verbatim>\<open>size_t\<close>; they stay
  below \<open>65535 + 16 * 1028\<close>, so natural numbers model them exactly.
\<close>

function lookup_specs_loop ::
  "bool \<Rightarrow> traits_table \<Rightarrow> mem \<Rightarrow> nat \<Rightarrow> nat \<Rightarrow> nat \<Rightarrow> (nat \<times> nat) option" where
  "lookup_specs_loop le traits packet bodylen path_index body_validated =
     (if path_index < PROTOCOL_BINARY_SUBDOC_MULTI_MAX_PATHS \<and> body_validated < bodylen then
        (if check_lookup_spec le traits packet body_validated then
           lookup_specs_loop le traits packet bodylen (path_index + 1)
             (body_validated + (sizeof_spec + unat (spec_pathlen le packet body_validated)))
         else None)
      else Some (path_index, body_validated))"
  by pat_completeness auto
termination
  by (relation "measure (\<lambda>(le, traits, packet, bodylen, path_index, body_validated).
        PROTOCOL_BINARY_SUBDOC_MULTI_MAX_PATHS - path_index)") auto

declare lookup_specs_loop.simps [simp del]

text \<open>
  \<^verbatim>\<open>subdoc_multi_lookup_validator\<close>. The static checks read \<^verbatim>\<open>keylen\<close> and \<^verbatim>\<open>bodylen\<close> as
  the host loads them, without \<^verbatim>\<open>ntohs\<close>/\<^verbatim>\<open>ntohl\<close>; the loop uses the converted values.
\<close>

definition subdoc_multi_lookup_validator :: "bool \<Rightarrow> traits_table \<Rightarrow> mem \<Rightarrow> int" where
  "subdoc_multi_lookup_validator le traits packet =
     (if hdr_magic packet \<noteq> PROTOCOL_BINARY_REQ
         \<or> hdr_keylen le packet = 0
         \<or> hdr_extlen packet \<noteq> 0
         \<or> unat (hdr_bodylen le packet) < sizeof_spec + 1
         \<or> hdr_datatype packet \<noteq> PROTOCOL_BINARY_RAW_BYTES
      then - 1
      else
        (case lookup_specs_loop le traits packet (unat (ntohl le (hdr_bodylen le packet))) 0
                (unat (ntohs le (hdr_keylen le packet))) of
           None \<Rightarrow> - 1
         | Some (path_index, body_validated) \<Rightarrow>
             if path_index > 0 \<and> path_index \<le> PROTOCOL_BINARY_SUBDOC_MULTI_MAX_PATHS
                \<and> body_validated = unat (ntohl le (hdr_bodylen le packet))
             then 0 else - 1))"

text \<open>
  The packet as the specification describes it: after the key come \<open>n\<close> specs, one after the
  other. \<open>specs_end\<close> is the offset in the body just after \<open>n\<close> specs that start at \<open>off\<close>, and
  \<open>specs_valid\<close> says that each of them is a lookup spec the validator allows.
\<close>

definition wire_spec_pathlen :: "mem \<Rightarrow> nat \<Rightarrow> nat" where
  "wire_spec_pathlen packet off = be_val (slice packet (24 + off + 2) 2)"

definition spec_cmd_allowed :: "traits_table \<Rightarrow> mem \<Rightarrow> nat \<Rightarrow> bool" where
  "spec_cmd_allowed traits packet off =
     ((spec_opcode packet off = opcode_of PROTOCOL_BINARY_CMD_SUBDOC_GET
         \<and> (spec_flags packet off AND NOT (valid_flags (traits PROTOCOL_BINARY_CMD_SUBDOC_GET))) = 0)
      \<or> (spec_opcode packet off = opcode_of PROTOCOL_BINARY_CMD_SUBDOC_EXISTS
         \<and> (spec_flags packet off
               AND NOT (valid_flags (traits PROTOCOL_BINARY_CMD_SUBDOC_EXISTS))) = 0))"

definition spec_valid :: "traits_table \<Rightarrow> mem \<Rightarrow> nat \<Rightarrow> bool" where
  "spec_valid traits packet off =
     (spec_cmd_allowed traits packet off
      \<and> 1 \<le> wire_spec_pathlen packet off
      \<and> wire_spec_pathlen packet off \<le> SUBDOC_PATH_MAX_LENGTH)"

fun specs_end :: "mem \<Rightarrow> nat \<Rightarrow> nat \<Rightarrow> nat" where
  "specs_end packet off 0 = off"
| "specs_end packet off (Suc n) =
     specs_end packet (off + (sizeof_spec + wire_spec_pathlen packet off)) n"

fun specs_valid :: "traits_table \<Rightarrow> mem \<Rightarrow> nat \<Rightarrow> nat \<Rightarrow> bool" where
  "specs_valid traits packet off 0 = True"
| "specs_valid traits packet off (Suc n) =
     (spec_valid traits packet off
      \<and> specs_valid traits packet (off + (sizeof_spec + wire_spec_pathlen packet off)) n)"

text \<open>Encoders, to build packets: a header, and a lookup spec.\<close>

definition encode_header ::
  "8 word \<Rightarrow> 8 word \<Rightarrow> nat \<Rightarrow> 8 word \<Rightarrow> 8 word \<Rightarrow> nat \<Rightarrow> nat \<Rightarrow> nat \<Rightarrow> nat \<Rightarrow> byte list" where
  "encode_header magic opcode keylen extlen datatype vbucket bodylen opaque cas =
     [magic, opcode] @ be_bytes 2 keylen @ [extlen, datatype] @ be_bytes 2 vbucket
       @ be_bytes 4 bodylen @ be_bytes 4 opaque @ be_bytes 8 cas"

definition encode_lookup_spec :: "8 word \<Rightarrow> 8 word \<Rightarrow> byte list \<Rightarrow> byte list" where
  "encode_lookup_spec opcode flags path = [opcode, flags] @ be_bytes 2 (length path) @ path"

section \<open>Engine, collaborators and connection state\<close>

datatype ENGINE_ERROR_CODE =
    ENGINE_SUCCESS | ENGINE_KEY_ENOENT | ENGINE_KEY_EEXISTS | ENGINE_ENOMEM | ENGINE_NOT_STORED
  | ENGINE_EINVAL | ENGINE_ENOTSUP | ENGINE_EWOULDBLOCK | ENGINE_E2BIG | ENGINE_WANT_MORE
  | ENGINE_DISCONNECT | ENGINE_EACCESS | ENGINE_NOT_MY_VBUCKET | ENGINE_TMPFAIL | ENGINE_ERANGE
  | ENGINE_ROLLBACK | ENGINE_NO_BUCKET | ENGINE_EBUSY | ENGINE_FAILED

datatype protocol_binary_response_status =
    PROTOCOL_BINARY_RESPONSE_SUCCESS
  | PROTOCOL_BINARY_RESPONSE_KEY_ENOENT
  | PROTOCOL_BINARY_RESPONSE_KEY_EEXISTS
  | PROTOCOL_BINARY_RESPONSE_E2BIG
  | PROTOCOL_BINARY_RESPONSE_EINVAL
  | PROTOCOL_BINARY_RESPONSE_NOT_STORED
  | PROTOCOL_BINARY_RESPONSE_NOT_MY_VBUCKET
  | PROTOCOL_BINARY_RESPONSE_NO_BUCKET
  | PROTOCOL_BINARY_RESPONSE_ERANGE
  | PROTOCOL_BINARY_RESPONSE_ROLLBACK
  | PROTOCOL_BINARY_RESPONSE_ENOMEM
  | PROTOCOL_BINARY_RESPONSE_NOT_SUPPORTED
  | PROTOCOL_BINARY_RESPONSE_EINTERNAL
  | PROTOCOL_BINARY_RESPONSE_EBUSY
  | PROTOCOL_BINARY_RESPONSE_ETMPFAIL
  | PROTOCOL_BINARY_RESPONSE_SUBDOC_PATH_ENOENT
  | PROTOCOL_BINARY_RESPONSE_SUBDOC_PATH_MISMATCH
  | PROTOCOL_BINARY_RESPONSE_SUBDOC_PATH_EINVAL
  | PROTOCOL_BINARY_RESPONSE_SUBDOC_PATH_E2BIG
  | PROTOCOL_BINARY_RESPONSE_SUBDOC_DOC_E2DEEP
  | PROTOCOL_BINARY_RESPONSE_SUBDOC_VALUE_CANTINSERT
  | PROTOCOL_BINARY_RESPONSE_SUBDOC_DOC_NOTJSON
  | PROTOCOL_BINARY_RESPONSE_SUBDOC_NUM_ERANGE
  | PROTOCOL_BINARY_RESPONSE_SUBDOC_DELTA_ERANGE
  | PROTOCOL_BINARY_RESPONSE_SUBDOC_PATH_EEXISTS
  | PROTOCOL_BINARY_RESPONSE_SUBDOC_VALUE_ETOODEEP

text \<open>
  Modelled from the spec: \<^verbatim>\<open>engine_error_2_protocol_error\<close> is not among the sources. The
  specification has the executor translate engine error codes to the protocol status through
  a single table, answer \<^verbatim>\<open>TMPFAIL\<close> when the retries are exhausted and surface
  \<^verbatim>\<open>KEY_EEXISTS\<close> directly; codes without a protocol counterpart are internal errors.
\<close>

fun engine_error_2_protocol_error :: "ENGINE_ERROR_CODE \<Rightarrow> protocol_binary_response_status" where
  "engine_error_2_protocol_error ENGINE_SUCCESS = PROTOCOL_BINARY_RESPONSE_SUCCESS"
| "engine_error_2_protocol_error ENGINE_KEY_ENOENT = PROTOCOL_BINARY_RESPONSE_KEY_ENOENT"
| "engine_error_2_protocol_error ENGINE_KEY_EEXISTS = PROTOCOL_BINARY_RESPONSE_KEY_EEXISTS"
| "engine_error_2_protocol_error ENGINE_ENOMEM = PROTOCOL_BINARY_RESPONSE_ENOMEM"
| "engine_error_2_protocol_error ENGINE_TMPFAIL = PROTOCOL_BINARY_RESPONSE_ETMPFAIL"
| "engine_error_2_protocol_error ENGINE_NOT_STORED = PROTOCOL_BINARY_RESPONSE_NOT_STORED"
| "engine_error_2_protocol_error ENGINE_EINVAL = PROTOCOL_BINARY_RESPONSE_EINVAL"
| "engine_error_2_protocol_error ENGINE_ENOTSUP = PROTOCOL_BINARY_RESPONSE_NOT_SUPPORTED"
| "engine_error_2_protocol_error ENGINE_E2BIG = PROTOCOL_BINARY_RESPONSE_E2BIG"
| "engine_error_2_protocol_error ENGINE_NOT_MY_VBUCKET = PROTOCOL_BINARY_RESPONSE_NOT_MY_VBUCKET"
| "engine_error_2_protocol_error ENGINE_ERANGE = PROTOCOL_BINARY_RESPONSE_ERANGE"
| "engine_error_2_protocol_error ENGINE_ROLLBACK = PROTOCOL_BINARY_RESPONSE_ROLLBACK"
| "engine_error_2_protocol_error ENGINE_NO_BUCKET = PROTOCOL_BINARY_RESPONSE_NO_BUCKET"
| "engine_error_2_protocol_error ENGINE_EBUSY = PROTOCOL_BINARY_RESPONSE_EBUSY"
| "engine_error_2_protocol_error _ = PROTOCOL_BINARY_RESPONSE_EINTERNAL"

text \<open>
  The JSON operation library (\<^verbatim>\<open>Subdoc::Operation\<close>) is a black box: its error codes, and
  the result it leaves in the command context.
\<close>

datatype Subdoc_Error =
    Subdoc_SUCCESS | PATH_ENOENT | PATH_MISMATCH | DOC_ETOODEEP | PATH_EINVAL | DOC_EEXISTS
  | PATH_E2BIG | NUM_E2BIG | DELTA_E2BIG | VALUE_CANTINSERT | VALUE_ETOODEEP
  | Subdoc_other nat

record Subdoc_Result =
  newdoc :: "byte list list"
  matchloc :: "byte list"

abbreviation (input) Subdoc_FLAG_MKDIR_P :: "8 word" where "Subdoc_FLAG_MKDIR_P \<equiv> 0x80"

text \<open>
  An \<^verbatim>\<open>item*\<close> is an opaque handle. \<^verbatim>\<open>item_info\<close> is what \<^verbatim>\<open>get_item_info\<close> fills in:
  \<^verbatim>\<open>nvalue\<close> is the number of iovec segments, here the length of \<open>info_value\<close>, whose
  elements are the bytes the segments point to.
\<close>

type_synonym item = nat

record item_info =
  info_cas :: "64 word"
  info_datatype :: "8 word"
  info_value :: "byte list list"

datatype ENGINE_STORE_OPERATION =
    OPERATION_ADD | OPERATION_SET | OPERATION_REPLACE | OPERATION_APPEND | OPERATION_PREPEND
  | OPERATION_CAS

text \<open>
  Every call into the engine is recorded, with its arguments and what the engine answered.
  \<open>Write_value\<close> records the bytes the executor has copied into an item's value buffer, which
  is engine memory.
\<close>

datatype engine_call =
    Call_get "byte list" "16 word" ENGINE_ERROR_CODE item
  | Call_allocate "byte list" nat "8 word" ENGINE_ERROR_CODE item
  | Call_item_set_cas item "64 word"
  | Call_get_item_info item
  | Write_value item "byte list"
  | Call_store item ENGINE_STORE_OPERATION "16 word" ENGINE_ERROR_CODE "64 word"
  | Call_release item

text \<open>The connection's dynamic buffer: the bytes in use (up to the offset) and its capacity.\<close>

record DynamicBuffer =
  dyn_bytes :: "byte list"
  dyn_size :: nat

definition moveOffset :: "DynamicBuffer \<Rightarrow> byte list \<Rightarrow> DynamicBuffer" where
  "moveOffset dbuf written = dbuf\<lparr>dyn_bytes := dyn_bytes dbuf @ written\<rparr>"

record rsp_header =
  rsp_status :: protocol_binary_response_status
  rsp_extlen :: "8 word"
  rsp_keylen :: "16 word"
  rsp_bodylen :: "32 word"
  rsp_datatype :: "8 word"
  rsp_cas :: "byte list"

datatype response =
    Status_response protocol_binary_response_status
  | Subdoc_response rsp_header "byte list list"

text \<open>
  The external collaborators, whose code is not part of the executor. The storage engine
  answers as a function of the calls made so far; \<^verbatim>\<open>release\<close> and \<^verbatim>\<open>item_set_cas\<close> return
  nothing and are only recorded. \<open>snappy_uncompressed_length\<close> and \<open>snappy_uncompress\<close> are
  \<open>None\<close> when the library does not return \<^verbatim>\<open>SNAPPY_OK\<close>, \<open>growDynamicBuffer\<close> is \<open>None\<close>
  when it returns false, \<open>add_bin_header_ok\<close> is false when \<^verbatim>\<open>add_bin_header\<close> returns -1.
  \<open>op_exec\<close> takes the command code, the document, the value (when the request has one) and
  the path.
\<close>

record collaborators =
  eng_get :: "engine_call list \<Rightarrow> byte list \<Rightarrow> 16 word \<Rightarrow> ENGINE_ERROR_CODE \<times> item"
  eng_allocate :: "engine_call list \<Rightarrow> byte list \<Rightarrow> nat \<Rightarrow> 8 word \<Rightarrow> ENGINE_ERROR_CODE \<times> item"
  eng_store ::
    "engine_call list \<Rightarrow> item \<Rightarrow> ENGINE_STORE_OPERATION \<Rightarrow> 16 word \<Rightarrow> ENGINE_ERROR_CODE \<times> 64 word"
  eng_get_item_info :: "engine_call list \<Rightarrow> item \<Rightarrow> item_info option"
  snappy_uncompressed_length :: "byte list \<Rightarrow> nat option"
  snappy_uncompress :: "byte list \<Rightarrow> byte list option"
  growDynamicBuffer :: "DynamicBuffer \<Rightarrow> nat \<Rightarrow> DynamicBuffer option"
  op_exec :: "8 word \<Rightarrow> byte list \<Rightarrow> byte list option \<Rightarrow> byte list \<Rightarrow> Subdoc_Error \<times> Subdoc_Result"
  add_bin_header_ok :: "response list \<Rightarrow> bool"

text \<open>\<^verbatim>\<open>SubdocCmdContext\<close> (subdocument_context.h). \<open>in_doc\<close> is \<open>None\<close> while \<^verbatim>\<open>in_doc.buf\<close> is NULL.\<close>

record SubdocCmdContext =
  in_doc :: "byte list option"
  in_cas :: "64 word"
  result :: Subdoc_Result
  out_doc :: "item option"

definition new_SubdocCmdContext :: SubdocCmdContext where
  "new_SubdocCmdContext =
     \<lparr>in_doc = None, in_cas = 0, result = \<lparr>newdoc = [], matchloc = []\<rparr>, out_doc = None\<rparr>"

datatype conn_state = conn_new_cmd | conn_nread | conn_mwrite | conn_closing

record Connection =
  c_item :: "item option"
  c_commandContext :: "SubdocCmdContext option"
  c_aiostat :: ENGINE_ERROR_CODE
  c_ewouldblock :: bool
  c_state :: conn_state
  c_cas :: "64 word"
  c_dynamicBuffer :: DynamicBuffer
  c_responses :: "response list"
  c_history :: "engine_call list"
  c_cmd_set :: nat
  c_get_hits :: nat
  c_topkeys :: "byte list list"

text \<open>
  Modelled from the spec: \<^verbatim>\<open>write_bin_packet\<close> is not among the sources; it is the codec's
  helper that forms a response without a body, carrying only the status.
\<close>

definition write_bin_packet :: "Connection \<Rightarrow> protocol_binary_response_status \<Rightarrow> Connection" where
  "write_bin_packet c status = c\<lparr>c_responses := c_responses c @ [Status_response status]\<rparr>"

definition log_call :: "Connection \<Rightarrow> engine_call \<Rightarrow> Connection" where
  "log_call c call = c\<lparr>c_history := c_history c @ [call]\<rparr>"

text \<open>
  The reference-count probe: the items handed out by a successful \<^verbatim>\<open>get\<close> or \<^verbatim>\<open>allocate\<close>
  and not yet given back by \<^verbatim>\<open>release\<close>.
\<close>

fun checked_out_step :: "item multiset \<Rightarrow> engine_call \<Rightarrow> item multiset" where
  "checked_out_step held (Call_get key vbucket ret it) =
     (if ret = ENGINE_SUCCESS then add_mset it held else held)"
| "checked_out_step held (Call_allocate key nbytes datatype ret it) =
     (if ret = ENGINE_SUCCESS then add_mset it held else held)"
| "checked_out_step held (Call_release it) = held - {#it#}"
| "checked_out_step held _ = held"

definition checked_out :: "engine_call list \<Rightarrow> item multiset" where
  "checked_out calls = foldl checked_out_step {#} calls"

section \<open>Command context lifetime (subdocument_context.h)\<close>

text \<open>The destructor \<^verbatim>\<open>~SubdocCmdContext\<close>: the output item, when there is one, is released.\<close>

definition destroy_SubdocCmdContext :: "Connection \<Rightarrow> SubdocCmdContext \<Rightarrow> Connection" where
  "destroy_SubdocCmdContext c context =
     (case out_doc context of
        None \<Rightarrow> c
      | Some doc \<Rightarrow> log_call c (Call_release doc))"

text \<open>
  Modelled from the spec: \<^verbatim>\<open>Connection::resetCommandContext\<close> is not among the sources. The
  connection owns its command context; resetting it destroys the context it held.
\<close>

definition resetCommandContext :: "Connection \<Rightarrow> Connection" where
  "resetCommandContext c =
     (case c_commandContext c of
        None \<Rightarrow> c
      | Some context \<Rightarrow> (destroy_SubdocCmdContext c context)\<lparr>c_commandContext := None\<rparr>)"


section \<open>Sub-document executor (subdocument.cc)\<close>

subsection \<open>Document materialisation\<close>

text \<open>
  \<^verbatim>\<open>get_document_for_searching\<close>. \<open>document\<close> and \<open>cas\<close> are the reference parameters: the
  function returns them as they came in wherever the code does not assign them. The returned
  connection carries the record of the \<^verbatim>\<open>get_item_info\<close> call and the dynamic buffer.
\<close>

definition get_document_for_searching ::
  "collaborators \<Rightarrow> Connection \<Rightarrow> item \<Rightarrow> byte list \<Rightarrow> 64 word \<Rightarrow> 64 word
     \<Rightarrow> protocol_binary_response_status \<times> byte list \<times> 64 word \<times> Connection" where
  "get_document_for_searching env c it document in_cas' cas =
     (case eng_get_item_info env (c_history c) it of
        None \<Rightarrow>
          (PROTOCOL_BINARY_RESPONSE_EINTERNAL, document, cas, log_call c (Call_get_item_info it))
      | Some info \<Rightarrow>
          (let c1 = log_call c (Call_get_item_info it) in
           if length (info_value info) \<noteq> 1 then
             (PROTOCOL_BINARY_RESPONSE_EINTERNAL, document, cas, c1)
           else if in_cas' \<noteq> 0 \<and> in_cas' \<noteq> info_cas info then
             (PROTOCOL_BINARY_RESPONSE_KEY_EEXISTS, document, cas, c1)
           else if info_datatype info = PROTOCOL_BINARY_DATATYPE_JSON then
             (PROTOCOL_BINARY_RESPONSE_SUCCESS, hd (info_value info), info_cas info, c1)
           else if info_datatype info = PROTOCOL_BINARY_DATATYPE_COMPRESSED_JSON then
             (case snappy_uncompressed_length env (hd (info_value info)) of
                None \<Rightarrow> (PROTOCOL_BINARY_RESPONSE_EINTERNAL, document, info_cas info, c1)
              | Some uncompressed_len \<Rightarrow>
                  (case growDynamicBuffer env (c_dynamicBuffer c1) uncompressed_len of
                     None \<Rightarrow> (PROTOCOL_BINARY_RESPONSE_E2BIG, document, info_cas info, c1)
                   | Some dbuf \<Rightarrow>
                       (case snappy_uncompress env (hd (info_value info)) of
                          None \<Rightarrow>
                            (PROTOCOL_BINARY_RESPONSE_EINTERNAL, document, info_cas info,
                             c1\<lparr>c_dynamicBuffer := dbuf\<rparr>)
                        | Some uncompressed \<Rightarrow>
                            (PROTOCOL_BINARY_RESPONSE_SUCCESS, uncompressed, info_cas info,
                             c1\<lparr>c_dynamicBuffer := moveOffset dbuf uncompressed\<rparr>))))
           else if info_datatype info = PROTOCOL_BINARY_RAW_BYTES
                   \<or> info_datatype info = PROTOCOL_BINARY_DATATYPE_COMPRESSED then
             (PROTOCOL_BINARY_RESPONSE_SUBDOC_DOC_NOTJSON, document, info_cas info, c1)
           else (PROTOCOL_BINARY_RESPONSE_EINTERNAL, document, info_cas info, c1)))"

subsection \<open>Fetch\<close>

text \<open>
  \<^verbatim>\<open>subdoc_fetch\<close>. \<open>None\<close> is a failed \<^verbatim>\<open>cb_assert\<close>; otherwise the boolean is the function's
  result. The engine is asked only when \<^verbatim>\<open>ret\<close> is \<^verbatim>\<open>ENGINE_SUCCESS\<close>.
\<close>

definition subdoc_fetch ::
  "collaborators \<Rightarrow> Connection \<Rightarrow> ENGINE_ERROR_CODE \<Rightarrow> byte list \<Rightarrow> 16 word
     \<Rightarrow> (bool \<times> Connection) option" where
  "subdoc_fetch env c ret key vbucket =
     (case c_item c of
        None \<Rightarrow>
          (if ret = ENGINE_SUCCESS then
             (case eng_get env (c_history c) key vbucket of
                (ret', initial_item) \<Rightarrow>
                  (let c1 = log_call c (Call_get key vbucket ret' initial_item) in
                   if ret' = ENGINE_SUCCESS then
                     (if c_commandContext c1 \<noteq> None then None
                      else Some (True, c1\<lparr>c_item := Some initial_item,
                                          c_commandContext := Some new_SubdocCmdContext\<rparr>))
                   else if ret' = ENGINE_EWOULDBLOCK then Some (False, c1\<lparr>c_ewouldblock := True\<rparr>)
                   else if ret' = ENGINE_DISCONNECT then Some (False, c1\<lparr>c_state := conn_closing\<rparr>)
                   else Some (False, write_bin_packet c1 (engine_error_2_protocol_error ret'))))
           else if ret = ENGINE_EWOULDBLOCK then Some (False, c\<lparr>c_ewouldblock := True\<rparr>)
           else if ret = ENGINE_DISCONNECT then Some (False, c\<lparr>c_state := conn_closing\<rparr>)
           else Some (False, write_bin_packet c (engine_error_2_protocol_error ret)))
      | Some it \<Rightarrow> Some (True, c))"

subsection \<open>Operate\<close>

text \<open>The \<^verbatim>\<open>switch\<close> on the library's result: \<open>None\<close> for success, else the status sent.\<close>

fun subdoc_error_status :: "Subdoc_Error \<Rightarrow> protocol_binary_response_status option" where
  "subdoc_error_status Subdoc_SUCCESS = None"
| "subdoc_error_status PATH_ENOENT = Some PROTOCOL_BINARY_RESPONSE_SUBDOC_PATH_ENOENT"
| "subdoc_error_status PATH_MISMATCH = Some PROTOCOL_BINARY_RESPONSE_SUBDOC_PATH_MISMATCH"
| "subdoc_error_status DOC_ETOODEEP = Some PROTOCOL_BINARY_RESPONSE_SUBDOC_DOC_E2DEEP"
| "subdoc_error_status PATH_EINVAL = Some PROTOCOL_BINARY_RESPONSE_SUBDOC_PATH_EINVAL"
| "subdoc_error_status DOC_EEXISTS = Some PROTOCOL_BINARY_RESPONSE_SUBDOC_PATH_EEXISTS"
| "subdoc_error_status PATH_E2BIG = Some PROTOCOL_BINARY_RESPONSE_SUBDOC_PATH_E2BIG"
| "subdoc_error_status NUM_E2BIG = Some PROTOCOL_BINARY_RESPONSE_SUBDOC_NUM_ERANGE"
| "subdoc_error_status DELTA_E2BIG = Some PROTOCOL_BINARY_RESPONSE_SUBDOC_DELTA_ERANGE"
| "subdoc_error_status VALUE_CANTINSERT = Some PROTOCOL_BINARY_RESPONSE_SUBDOC_VALUE_CANTINSERT"
| "subdoc_error_status VALUE_ETOODEEP = Some PROTOCOL_BINARY_RESPONSE_SUBDOC_VALUE_ETOODEEP"
| "subdoc_error_status (Subdoc_other n) = Some PROTOCOL_BINARY_RESPONSE_EINTERNAL"

definition subdoc_opcode :: "traits_table \<Rightarrow> protocol_binary_command \<Rightarrow> 8 word \<Rightarrow> 8 word" where
  "subdoc_opcode traits CMD flags =
     (if (flags AND SUBDOC_FLAG_MKDIR_P) = SUBDOC_FLAG_MKDIR_P
      then optype (traits CMD) OR Subdoc_FLAG_MKDIR_P
      else optype (traits CMD))"

text \<open>
  \<^verbatim>\<open>subdoc_operate\<close>. The library writes its result into \<^verbatim>\<open>context->result\<close> whatever the
  outcome; \<^verbatim>\<open>in_doc\<close> and \<^verbatim>\<open>in_cas\<close> are saved on success only. \<^verbatim>\<open>doc\<close> and \<^verbatim>\<open>doc_cas\<close>
  are uninitialised locals that are read only after a successful materialisation, which
  assigns both; the model starts them at the empty buffer and 0. A null \<^verbatim>\<open>c->item\<close> cannot be
  handed to the engine: like the failed assertion, it is \<open>None\<close>.
\<close>

definition subdoc_operate ::
  "collaborators \<Rightarrow> traits_table \<Rightarrow> protocol_binary_command \<Rightarrow> Connection \<Rightarrow> byte list \<Rightarrow> byte list
     \<Rightarrow> 8 word \<Rightarrow> 64 word \<Rightarrow> (bool \<times> Connection) option" where
  "subdoc_operate env traits CMD c path val flags in_cas' =
     (case c_commandContext c of
        None \<Rightarrow> None
      | Some context \<Rightarrow>
          (if in_doc context = None then
             (case c_item c of
                None \<Rightarrow> None
              | Some it \<Rightarrow>
                  (case get_document_for_searching env c it [] in_cas' 0 of
                     (status, doc, doc_cas, c1) \<Rightarrow>
                       if status \<noteq> PROTOCOL_BINARY_RESPONSE_SUCCESS then
                         Some (False, write_bin_packet c1 status)
                       else
                         (case op_exec env (subdoc_opcode traits CMD flags) doc
                                 (if request_has_value (traits CMD) then Some val else None) path of
                            (subdoc_res, res) \<Rightarrow>
                              (case subdoc_error_status subdoc_res of
                                 None \<Rightarrow>
                                   Some (True, c1\<lparr>c_commandContext :=
                                     Some (context\<lparr>result := res, in_doc := Some doc,
                                                    in_cas := doc_cas\<rparr>)\<rparr>)
                               | Some status' \<Rightarrow>
                                   Some (False, write_bin_packet
                                     (c1\<lparr>c_commandContext := Some (context\<lparr>result := res\<rparr>)\<rparr>)
                                     status')))))
           else Some (True, c)))"

subsection \<open>Update\<close>

text \<open>
  \<^verbatim>\<open>memcpy\<close> of \<open>src\<close> into \<open>buf\<close> at offset \<open>at\<close>, and the loop that copies the fragments
  one after the other, advancing \<^verbatim>\<open>write_ptr\<close>. The buffer is the first iovec of the new
  item, which the engine sized from the allocate call; bytes that would fall past its end
  (undefined behaviour in C) are appended.
\<close>

definition memcpy :: "byte list \<Rightarrow> nat \<Rightarrow> byte list \<Rightarrow> byte list" where
  "memcpy buf at src = take at buf @ src @ drop (at + length src) buf"

fun copy_newdoc :: "byte list \<Rightarrow> nat \<Rightarrow> byte list list \<Rightarrow> byte list" where
  "copy_newdoc buf write_ptr [] = buf"
| "copy_newdoc buf write_ptr (loc # locs) =
     copy_newdoc (memcpy buf write_ptr loc) (write_ptr + length loc) locs"

text \<open>The first loop of \<^verbatim>\<open>subdoc_update\<close>: the updated document length.\<close>

fun new_doc_len :: "byte list list \<Rightarrow> nat" where
  "new_doc_len [] = 0"
| "new_doc_len (loc # locs) = length loc + new_doc_len locs"

text \<open>
  The block guarded by \<^verbatim>\<open>context->out_doc == NULL\<close>: \<open>Inl\<close> is an early return with its
  result, \<open>Inr\<close> continues to the store with the new item in \<^verbatim>\<open>context->out_doc\<close>. The item
  info's \<^verbatim>\<open>value[0]\<close> is read without a look at \<^verbatim>\<open>nvalue\<close>; with no segment the model
  takes the empty buffer.
\<close>

definition subdoc_allocate ::
  "collaborators \<Rightarrow> Connection \<Rightarrow> SubdocCmdContext \<Rightarrow> ENGINE_ERROR_CODE \<Rightarrow> byte list
     \<Rightarrow> (ENGINE_ERROR_CODE \<times> Connection) + (item \<times> Connection)" where
  "subdoc_allocate env c context ret key =
     (if ret = ENGINE_SUCCESS then
        (case eng_allocate env (c_history c) key (new_doc_len (newdoc (result context)))
                PROTOCOL_BINARY_DATATYPE_JSON of
           (ret', new_doc) \<Rightarrow>
             (let c1 = log_call c (Call_allocate key (new_doc_len (newdoc (result context)))
                          PROTOCOL_BINARY_DATATYPE_JSON ret' new_doc) in
              if ret' = ENGINE_SUCCESS then
                (let c2 = log_call (c1\<lparr>c_commandContext := Some (context\<lparr>out_doc := Some new_doc\<rparr>)\<rparr>)
                            (Call_item_set_cas new_doc (in_cas context)) in
                 case eng_get_item_info env (c_history c2) new_doc of
                   None \<Rightarrow>
                     Inl (ENGINE_FAILED,
                          write_bin_packet (log_call c2 (Call_get_item_info new_doc))
                            PROTOCOL_BINARY_RESPONSE_EINTERNAL)
                 | Some new_doc_info \<Rightarrow>
                     Inr (new_doc,
                          log_call (log_call c2 (Call_get_item_info new_doc))
                            (Write_value new_doc
                               (copy_newdoc
                                  (case info_value new_doc_info of [] \<Rightarrow> [] | v # vs \<Rightarrow> v)
                                  0 (newdoc (result context))))))
              else if ret' = ENGINE_EWOULDBLOCK then Inl (ret', c1\<lparr>c_ewouldblock := True\<rparr>)
              else if ret' = ENGINE_DISCONNECT then Inl (ret', c1\<lparr>c_state := conn_closing\<rparr>)
              else Inl (ret', write_bin_packet c1 (engine_error_2_protocol_error ret'))))
      else if ret = ENGINE_EWOULDBLOCK then Inl (ret, c\<lparr>c_ewouldblock := True\<rparr>)
      else if ret = ENGINE_DISCONNECT then Inl (ret, c\<lparr>c_state := conn_closing\<rparr>)
      else Inl (ret, write_bin_packet c (engine_error_2_protocol_error ret)))"

text \<open>The final part: store the new document with \<^verbatim>\<open>OPERATION_REPLACE\<close>.\<close>

definition subdoc_store ::
  "collaborators \<Rightarrow> Connection \<Rightarrow> item \<Rightarrow> 16 word \<Rightarrow> ENGINE_ERROR_CODE \<times> Connection" where
  "subdoc_store env c doc vbucket =
     (case eng_store env (c_history c) doc OPERATION_REPLACE vbucket of
        (ret, new_cas) \<Rightarrow>
          (let c1 = log_call c (Call_store doc OPERATION_REPLACE vbucket ret new_cas) in
           if ret = ENGINE_SUCCESS then (ret, c1\<lparr>c_cas := new_cas\<rparr>)
           else if ret = ENGINE_KEY_EEXISTS then (ret, c1)
           else if ret = ENGINE_EWOULDBLOCK then (ret, c1\<lparr>c_ewouldblock := True\<rparr>)
           else if ret = ENGINE_DISCONNECT then (ret, c1\<lparr>c_state := conn_closing\<rparr>)
           else (ret, write_bin_packet c1 (engine_error_2_protocol_error ret))))"

text \<open>\<^verbatim>\<open>subdoc_update<CMD>\<close>; \<open>None\<close> is the failed \<^verbatim>\<open>cb_assert(context != NULL)\<close>.\<close>

definition subdoc_update ::
  "collaborators \<Rightarrow> traits_table \<Rightarrow> protocol_binary_command \<Rightarrow> Connection \<Rightarrow> ENGINE_ERROR_CODE
     \<Rightarrow> byte list \<Rightarrow> 16 word \<Rightarrow> (ENGINE_ERROR_CODE \<times> Connection) option" where
  "subdoc_update env traits CMD c ret key vbucket =
     (case c_commandContext c of
        None \<Rightarrow> None
      | Some context \<Rightarrow>
          (if \<not> is_mutator (traits CMD) then
             Some (ENGINE_SUCCESS, c\<lparr>c_cas := in_cas context\<rparr>)
           else
             (case out_doc context of
                None \<Rightarrow>
                  (case subdoc_allocate env c context ret key of
                     Inl early \<Rightarrow> Some early
                   | Inr (new_doc, c1) \<Rightarrow> Some (subdoc_store env c1 new_doc vbucket))
              | Some doc \<Rightarrow> Some (subdoc_store env c doc vbucket))))"

subsection \<open>Respond\<close>

text \<open>
  \<^verbatim>\<open>subdoc_response<CMD>\<close>. The header is formed by \<^verbatim>\<open>add_bin_header(c, 0, 0, 0, vallen,
  PROTOCOL_BINARY_RAW_BYTES)\<close>; its CAS field is then written with \<^verbatim>\<open>htonll(c->getCAS())\<close>,
  and \<open>rsp_cas\<close> is the eight bytes the host stores for that value.
\<close>

definition subdoc_response ::
  "collaborators \<Rightarrow> bool \<Rightarrow> traits_table \<Rightarrow> protocol_binary_command \<Rightarrow> Connection
     \<Rightarrow> Connection option" where
  "subdoc_response env le traits CMD c =
     (case c_commandContext c of
        None \<Rightarrow> None
      | Some context \<Rightarrow>
          (let vallen = (if response_has_value (traits CMD)
                         then length (matchloc (result context)) else 0) in
           if \<not> add_bin_header_ok env (c_responses c) then Some (c\<lparr>c_state := conn_closing\<rparr>)
           else
             Some (c\<lparr>c_responses := c_responses c @
                       [Subdoc_response
                          \<lparr>rsp_status = PROTOCOL_BINARY_RESPONSE_SUCCESS, rsp_extlen = 0,
                           rsp_keylen = 0, rsp_bodylen = of_nat vallen,
                           rsp_datatype = PROTOCOL_BINARY_RAW_BYTES,
                           rsp_cas = host_bytes le 8 (unat (htonll le (c_cas c)))\<rparr>
                          (if response_has_value (traits CMD)
                           then [matchloc (result context)] else [])],
                     c_state := conn_mwrite\<rparr>)))"

subsection \<open>The executor\<close>

text \<open>Step 0 of \<^verbatim>\<open>subdoc_executor\<close>: the fields and regions of the request.\<close>

record subdoc_request =
  req_key :: "byte list"
  req_path :: "byte list"
  req_value :: "byte list"
  req_flags :: "8 word"
  req_vbucket :: "16 word"
  req_cas :: "64 word"

definition parse_request :: "bool \<Rightarrow> mem \<Rightarrow> subdoc_request" where
  "parse_request le packet =
     (let extlen = unat (hdr_extlen packet);
          keylen = unat (ntohs le (hdr_keylen le packet));
          pathlen = unat (ntohs le (extras_pathlen le packet));
          vallen = unat (subdoc_valuelen le packet)
      in \<lparr>req_key = slice packet (24 + extlen) keylen,
          req_path = slice packet (24 + extlen + keylen) pathlen,
          req_value = slice packet (24 + extlen + keylen + pathlen) vallen,
          req_flags = extras_subdoc_flags packet,
          req_vbucket = ntohs le (hdr_vbucket le packet),
          req_cas = ntohll le (hdr_cas le packet)\<rparr>)"

definition MAXIMUM_ATTEMPTS :: nat where
  "MAXIMUM_ATTEMPTS = 100"

text \<open>
  The retry branch: the fetched item is released, then the command context is reset.
\<close>

definition retry_reset :: "Connection \<Rightarrow> Connection" where
  "retry_reset c =
     resetCommandContext
       (case c_item c of
          None \<Rightarrow> c
        | Some it \<Rightarrow> (log_call c (Call_release it))\<lparr>c_item := None\<rparr>)"

text \<open>
  Modelled from the spec: the statistics macros and \<^verbatim>\<open>update_topkeys\<close> are not among the
  sources. A mutation counts as \<^verbatim>\<open>cmd_set\<close>, an access as a \<^verbatim>\<open>get\<close> hit, and the key
  operated on is recorded in the top keys.
\<close>

definition update_stats :: "traits_table \<Rightarrow> protocol_binary_command \<Rightarrow> byte list \<Rightarrow> Connection \<Rightarrow> Connection" where
  "update_stats traits CMD key c =
     (if is_mutator (traits CMD) then c\<lparr>c_cmd_set := c_cmd_set c + 1\<rparr>
      else c\<lparr>c_get_hits := c_get_hits c + 1\<rparr>)\<lparr>c_topkeys := key # c_topkeys c\<rparr>"

text \<open>
  Steps 1 to 3 of the loop body. \<open>Returned\<close>: the executor returns at once (fetch or operate
  said false). \<open>Updated\<close>: \<^verbatim>\<open>subdoc_update\<close> ran and gave this result. \<^verbatim>\<open>ret\<close> is passed to
  \<^verbatim>\<open>subdoc_fetch\<close> by value, so \<^verbatim>\<open>subdoc_update\<close> gets the same \<^verbatim>\<open>ret\<close>.
\<close>

datatype attempt_result = Returned Connection | Updated ENGINE_ERROR_CODE Connection

definition subdoc_attempt ::
  "collaborators \<Rightarrow> traits_table \<Rightarrow> protocol_binary_command \<Rightarrow> subdoc_request
     \<Rightarrow> ENGINE_ERROR_CODE \<Rightarrow> Connection \<Rightarrow> attempt_result option" where
  "subdoc_attempt env traits CMD req ret c =
     (case subdoc_fetch env c ret (req_key req) (req_vbucket req) of
        None \<Rightarrow> None
      | Some (False, c1) \<Rightarrow> Some (Returned c1)
      | Some (True, c1) \<Rightarrow>
          (case subdoc_operate env traits CMD c1 (req_path req) (req_value req) (req_flags req)
                  (req_cas req) of
             None \<Rightarrow> None
           | Some (False, c2) \<Rightarrow> Some (Returned c2)
           | Some (True, c2) \<Rightarrow>
               (case subdoc_update env traits CMD c2 ret (req_key req) (req_vbucket req) of
                  None \<Rightarrow> None
                | Some (ret', c3) \<Rightarrow> Some (Updated ret' c3))))"

text \<open>
  The \<^verbatim>\<open>do ... while (auto_retry && attempts < MAXIMUM_ATTEMPTS)\<close> loop and what follows it.
  \<open>attempts\<close> is the counter before the increment at the top of the body; the result is the
  connection when the executor returns, with the number of attempts made. \<^verbatim>\<open>continue\<close>
  jumps to the loop condition.
\<close>

function subdoc_executor_loop ::
  "collaborators \<Rightarrow> bool \<Rightarrow> traits_table \<Rightarrow> protocol_binary_command \<Rightarrow> subdoc_request
     \<Rightarrow> nat \<Rightarrow> ENGINE_ERROR_CODE \<Rightarrow> Connection \<Rightarrow> (Connection \<times> nat) option" where
  "subdoc_executor_loop env le traits CMD req attempts ret c =
     (case subdoc_attempt env traits CMD req ret c of
        None \<Rightarrow> None
      | Some (Returned c1) \<Rightarrow> Some (c1, Suc attempts)
      | Some (Updated ret' c3) \<Rightarrow>
          (if ret' = ENGINE_KEY_EEXISTS then
             (if req_cas req = 0 then
                (if req_cas req = 0 \<and> Suc attempts < MAXIMUM_ATTEMPTS then
                   subdoc_executor_loop env le traits CMD req (Suc attempts) ENGINE_SUCCESS
                     (retry_reset c3)
                 else
                   Some (write_bin_packet (retry_reset c3)
                           (engine_error_2_protocol_error ENGINE_TMPFAIL), Suc attempts))
              else Some (write_bin_packet c3 (engine_error_2_protocol_error ret'), Suc attempts))
           else if ret' \<noteq> ENGINE_SUCCESS then Some (c3, Suc attempts)
           else
             (case subdoc_response env le traits CMD (update_stats traits CMD (req_key req) c3) of
                None \<Rightarrow> None
              | Some c4 \<Rightarrow> Some (c4, Suc attempts))))"
  by pat_completeness auto
termination
  by (relation "measure (\<lambda>(env, le, traits, CMD, req, attempts, ret, c). MAXIMUM_ATTEMPTS - attempts)")
     auto

declare subdoc_executor_loop.simps [simp del]

text \<open>\<^verbatim>\<open>subdoc_executor<CMD>\<close>: \<^verbatim>\<open>ret\<close> starts as the connection's aiostat, which is cleared.\<close>

definition subdoc_executor ::
  "collaborators \<Rightarrow> bool \<Rightarrow> traits_table \<Rightarrow> protocol_binary_command \<Rightarrow> Connection \<Rightarrow> mem
     \<Rightarrow> (Connection \<times> nat) option" where
  "subdoc_executor env le traits CMD c packet =
     subdoc_executor_loop env le traits CMD (parse_request le packet) 0 (c_aiostat c)
       (c\<lparr>c_aiostat := ENGINE_SUCCESS\<rparr>)"

section \<open>Example packets\<close>

text \<open>
  A \<^verbatim>\<open>DICT_ADD\<close> request whose declared body (5 bytes) is shorter than its key (1), extras
  (3) and declared path (10) together.
\<close>

definition short_body_packet :: "byte list" where
  "short_body_packet =
     encode_header PROTOCOL_BINARY_REQ (opcode_of PROTOCOL_BINARY_CMD_SUBDOC_DICT_ADD) 1 3
       PROTOCOL_BINARY_RAW_BYTES 0 5 0 0 @ be_bytes 2 10 @ [SUBDOC_FLAG_NONE] @ [0x6b] @ [0x61]"

text \<open>
  Multi-lookup requests for the two-byte key \<^verbatim>\<open>k1\<close>, with a declared body length and a list
  of encoded specs; a spec \<^verbatim>\<open>EXISTS "[0]"\<close> and a spec \<^verbatim>\<open>DICT_ADD "[0]"\<close>.
\<close>

definition lookup_packet :: "nat \<Rightarrow> byte list list \<Rightarrow> byte list" where
  "lookup_packet bodylen specs =
     encode_header PROTOCOL_BINARY_REQ (opcode_of PROTOCOL_BINARY_CMD_SUBDOC_MULTI_LOOKUP) 2 0
       PROTOCOL_BINARY_RAW_BYTES 0 bodylen 0 0 @ [0x6b, 0x31] @ concat specs"

definition exists_spec :: "byte list" where
  "exists_spec = encode_lookup_spec (opcode_of PROTOCOL_BINARY_CMD_SUBDOC_EXISTS) SUBDOC_FLAG_NONE
                   [0x5b, 0x30, 0x5d]"

definition dict_add_spec :: "byte list" where
  "dict_add_spec = encode_lookup_spec (opcode_of PROTOCOL_BINARY_CMD_SUBDOC_DICT_ADD) SUBDOC_FLAG_NONE
                   [0x5b, 0x30, 0x5d]"

section \<open>Example collaborators and connection\<close>

text \<open>
  An engine that always finds item 10 with the given item info, allocates item 20 with a
  single segment of the size asked for, and answers every store with the given code; a JSON
  library that succeeds and returns the document as match and, in two fragments, as new
  document; no
  compression; a dynamic buffer and a write buffer that can always grow.
\<close>

definition sample_env :: "item_info \<Rightarrow> ENGINE_ERROR_CODE \<Rightarrow> collaborators" where
  "sample_env info store_ret =
     \<lparr>eng_get = (\<lambda>calls key vbucket. (ENGINE_SUCCESS, 10)),
      eng_allocate = (\<lambda>calls key nbytes datatype. (ENGINE_SUCCESS, 20)),
      eng_store = (\<lambda>calls it operation vbucket. (store_ret, 99)),
      eng_get_item_info = (\<lambda>calls it.
         if it = 10 then Some info
         else Some \<lparr>info_cas = 0, info_datatype = PROTOCOL_BINARY_DATATYPE_JSON,
                    info_value = [replicate (length (concat (info_value info))) 0]\<rparr>),
      snappy_uncompressed_length = (\<lambda>compressed. None),
      snappy_uncompress = (\<lambda>compressed. None),
      growDynamicBuffer = (\<lambda>dbuf needed. Some (dbuf\<lparr>dyn_size := dyn_size dbuf + needed\<rparr>)),
      op_exec = (\<lambda>code doc val path.
         (Subdoc_SUCCESS, \<lparr>newdoc = [take 1 doc, drop 1 doc], matchloc = doc\<rparr>)),
      add_bin_header_ok = (\<lambda>written. True)\<rparr>"

definition sample_info :: "8 word \<Rightarrow> 64 word \<Rightarrow> byte list list \<Rightarrow> item_info" where
  "sample_info datatype cas segments =
     \<lparr>info_cas = cas, info_datatype = datatype, info_value = segments\<rparr>"

definition fresh_connection :: Connection where
  "fresh_connection =
     \<lparr>c_item = None, c_commandContext = None, c_aiostat = ENGINE_SUCCESS, c_ewouldblock = False,
      c_state = conn_nread, c_cas = 0, c_dynamicBuffer = \<lparr>dyn_bytes = [], dyn_size = 0\<rparr>,
      c_responses = [], c_history = [], c_cmd_set = 0, c_get_hits = 0, c_topkeys = []\<rparr>"

text \<open>The ownership invariant: the connection and its command context hold exactly the
  items that are checked out of the engine, and a fetched item goes with a context.\<close>

definition owned :: "Connection \<Rightarrow> item multiset" where
  "owned c =
     (case c_item c of None \<Rightarrow> {#} | Some it \<Rightarrow> {#it#})
     + (case c_commandContext c of
          None \<Rightarrow> {#}
        | Some context \<Rightarrow> (case out_doc context of None \<Rightarrow> {#} | Some doc \<Rightarrow> {#doc#}))"

definition conn_wf :: "Connection \<Rightarrow> bool" where
  "conn_wf c = ((c_item c = None) = (c_commandContext c = None)
                \<and> checked_out (c_history c) = owned c)"

text \<open>The connection after a successful fetch of item 10 for the key \<^verbatim>\<open>k\<close>.\<close>

definition fetched_connection :: Connection where
  "fetched_connection =
     fresh_connection\<lparr>c_item := Some 10, c_commandContext := Some new_SubdocCmdContext,
                       c_history := [Call_get [0x6b] 0 ENGINE_SUCCESS 10]\<rparr>"

text \<open>A JSON document \<^verbatim>\<open>{}\<close> with CAS 7, in one segment.\<close>

definition json_info :: item_info where
  "json_info = sample_info PROTOCOL_BINARY_DATATYPE_JSON 7 [[0x7b, 0x7d]]"

text \<open>
  The same collaborators with a compression library that knows the uncompressed length (2)
  and inflates every value to \<^verbatim>\<open>{}\<close>, and a dynamic buffer that grows or not.
\<close>

definition snappy_env :: "item_info \<Rightarrow> bool \<Rightarrow> collaborators" where
  "snappy_env info can_grow =
     (sample_env info ENGINE_SUCCESS)
       \<lparr>snappy_uncompressed_length := (\<lambda>compressed. Some 2),
        snappy_uncompress := (\<lambda>compressed. Some [0x7b, 0x7d]),
        growDynamicBuffer := (\<lambda>dbuf needed.
           if can_grow then Some (dbuf\<lparr>dyn_size := dyn_size dbuf + needed\<rparr>) else None)\<rparr>"

text \<open>
  The connection after a successful operation on the fetched document: the context holds the
  document, its CAS 7 and the library's result. And collaborators whose write buffer is full.
\<close>

definition operated_connection :: Connection where
  "operated_connection =
     fetched_connection
       \<lparr>c_commandContext := Some (new_SubdocCmdContext
           \<lparr>result := \<lparr>newdoc = [[0x7b], [0x7d]], matchloc = [0x7b, 0x7d]\<rparr>,
            in_doc := Some [0x7b, 0x7d], in_cas := 7\<rparr>),
        c_history := [Call_get [0x6b] 0 ENGINE_SUCCESS 10, Call_get_item_info 10]\<rparr>"

definition full_buffer_env :: collaborators where
  "full_buffer_env = (sample_env json_info ENGINE_SUCCESS)\<lparr>add_bin_header_ok := (\<lambda>written. False)\<rparr>"

text \<open>
  A \<^verbatim>\<open>SUBDOC_GET\<close> and a \<^verbatim>\<open>SUBDOC_DICT_ADD\<close> request for the key \<^verbatim>\<open>k\<close> and the path \<^verbatim>\<open>a\<close>, with
  the given client CAS; the second carries the value \<^verbatim>\<open>1\<close>.
\<close>

definition get_packet :: "nat \<Rightarrow> byte list" where
  "get_packet cas =
     encode_header PROTOCOL_BINARY_REQ (opcode_of PROTOCOL_BINARY_CMD_SUBDOC_GET) 1 3
       PROTOCOL_BINARY_RAW_BYTES 0 5 0 cas @ be_bytes 2 1 @ [SUBDOC_FLAG_NONE] @ [0x6b] @ [0x61]"

definition dict_add_packet :: "nat \<Rightarrow> byte list" where
  "dict_add_packet cas =
     encode_header PROTOCOL_BINARY_REQ (opcode_of PROTOCOL_BINARY_CMD_SUBDOC_DICT_ADD) 1 3
       PROTOCOL_BINARY_RAW_BYTES 0 6 0 cas @ be_bytes 2 1 @ [SUBDOC_FLAG_NONE] @ [0x6b] @ [0x61]
       @ [0x31]"

section \<open>Byte order\<close>

lemma unat_byte_less: "unat (b :: byte) < 256"
  using unsigned_less [of b, where 'a = nat] by simp

lemma be_val_bound: "be_val bs < 256 ^ length bs"
proof (induction bs)
  case Nil
  show ?case by simp
next
  case (Cons b bs)
  have "unat b < 256" by (rule unat_byte_less)
  then have "unat b * 256 ^ length bs \<le> 255 * 256 ^ length bs" by simp
  moreover have "be_val bs < 256 ^ length bs" by (rule Cons.IH)
  ultimately have "unat b * 256 ^ length bs + be_val bs < 255 * 256 ^ length bs + 256 ^ length bs"
    by (rule add_le_less_mono)
  then show ?case by simp
qed

lemma length_be_bytes [simp]: "length (be_bytes k v) = k"
  by (induction k arbitrary: v) simp_all

lemma be_bytes_be_val: "length bs = k \<Longrightarrow> be_bytes k (be_val bs) = bs"
proof (induction bs arbitrary: k)
  case Nil
  then show ?case by simp
next
  case (Cons b bs)
  then obtain j where k: "k = Suc j" and j: "length bs = j" by (cases k) auto
  have lt: "be_val bs < 256 ^ j" using be_val_bound [of bs] j by simp
  have d: "(unat b * 256 ^ j + be_val bs) div 256 ^ j = unat b" using lt by simp
  have "be_val bs mod 256 ^ j = be_val bs" using lt by simp
  then show ?case using Cons.IH [OF j] by (simp add: k j d)
qed

lemma be_val_be_bytes: "v < 256 ^ k \<Longrightarrow> be_val (be_bytes k v) = v"
proof (induction k arbitrary: v)
  case 0
  then show ?case by simp
next
  case (Suc k)
  have "v div 256 ^ k < 256" using Suc.prems by (simp add: less_mult_imp_div_less)
  then have u: "unat (of_nat (v div 256 ^ k) :: byte) = v div 256 ^ k"
    by (simp add: unat_of_nat)
  have "be_val (be_bytes k (v mod 256 ^ k)) = v mod 256 ^ k"
    by (rule Suc.IH) simp
  moreover have "v div 256 ^ k * 256 ^ k + v mod 256 ^ k = v" by (rule div_mult_mod_eq)
  ultimately show ?case using u by simp
qed

lemma bswap_host_val: "length bs = k \<Longrightarrow> bswap k (be_val (rev bs)) = be_val bs"
  by (simp add: bswap_def be_bytes_be_val)

lemma length_slice [simp]: "length (slice m a n) = n"
  by (simp add: slice_def)

lemma ntohs_load16: "ntohs le (load16 le m a) = of_nat (be_val (slice m a 2))"
proof (cases le)
  case False
  then show ?thesis by (simp add: ntohs_def load16_def host_val_def)
next
  case True
  have "be_val (rev (slice m a 2)) < 256 ^ 2"
    using be_val_bound [of "rev (slice m a 2)"] by simp
  then have "unat (of_nat (be_val (rev (slice m a 2))) :: 16 word) = be_val (rev (slice m a 2))"
    by (simp add: unat_of_nat)
  then show ?thesis using True
    by (simp add: ntohs_def load16_def host_val_def bswap_host_val)
qed

lemma ntohl_load32: "ntohl le (load32 le m a) = of_nat (be_val (slice m a 4))"
proof (cases le)
  case False
  then show ?thesis by (simp add: ntohl_def load32_def host_val_def)
next
  case True
  have "be_val (rev (slice m a 4)) < 256 ^ 4"
    using be_val_bound [of "rev (slice m a 4)"] by simp
  then have "unat (of_nat (be_val (rev (slice m a 4))) :: 32 word) = be_val (rev (slice m a 4))"
    by (simp add: unat_of_nat)
  then show ?thesis using True
    by (simp add: ntohl_def load32_def host_val_def bswap_host_val)
qed

lemma ntohll_load64: "ntohll le (load64 le m a) = of_nat (be_val (slice m a 8))"
proof (cases le)
  case False
  then show ?thesis by (simp add: ntohll_def load64_def host_val_def)
next
  case True
  have "be_val (rev (slice m a 8)) < 256 ^ 8"
    using be_val_bound [of "rev (slice m a 8)"] by simp
  then have "unat (of_nat (be_val (rev (slice m a 8))) :: 64 word) = be_val (rev (slice m a 8))"
    by (simp add: unat_of_nat)
  then show ?thesis using True
    by (simp add: ntohll_def load64_def host_val_def bswap_host_val)
qed

lemma wire_keylen_less: "wire_keylen p < 65536"
  using be_val_bound [of "slice p 2 2"] by (simp add: wire_keylen_def)

lemma wire_pathlen_less: "wire_pathlen p < 65536"
  using be_val_bound [of "slice p 24 2"] by (simp add: wire_pathlen_def)

lemma wire_bodylen_less: "wire_bodylen p < 4294967296"
  using be_val_bound [of "slice p 8 4"] by (simp add: wire_bodylen_def)

lemma wire_spec_pathlen_less: "wire_spec_pathlen p off < 65536"
  using be_val_bound [of "slice p (24 + off + 2) 2"] by (simp add: wire_spec_pathlen_def)

lemma unat_keylen: "unat (ntohs le (hdr_keylen le p)) = wire_keylen p"
  using wire_keylen_less [of p]
  by (simp add: hdr_keylen_def ntohs_load16 wire_keylen_def unat_of_nat)

lemma unat_pathlen: "unat (ntohs le (extras_pathlen le p)) = wire_pathlen p"
  using wire_pathlen_less [of p]
  by (simp add: extras_pathlen_def ntohs_load16 wire_pathlen_def unat_of_nat)

lemma unat_bodylen: "unat (ntohl le (hdr_bodylen le p)) = wire_bodylen p"
  using wire_bodylen_less [of p]
  by (simp add: hdr_bodylen_def ntohl_load32 wire_bodylen_def unat_of_nat)

lemma unat_spec_pathlen: "unat (spec_pathlen le p off) = wire_spec_pathlen p off"
  using wire_spec_pathlen_less [of p off]
  by (simp add: spec_pathlen_def htons_def ntohs_load16 wire_spec_pathlen_def unat_of_nat)


lemma ucast_ntohs_keylen: "(ucast (ntohs le (hdr_keylen le p)) :: 32 word) = of_nat (wire_keylen p)"
proof -
  have "(ucast (ntohs le (hdr_keylen le p)) :: 32 word) = of_nat (unat (ntohs le (hdr_keylen le p)))"
    by (simp only: of_nat_unat)
  then show ?thesis by (simp only: unat_keylen)
qed

lemma ucast_ntohs_pathlen: "(ucast (ntohs le (extras_pathlen le p)) :: 32 word) = of_nat (wire_pathlen p)"
proof -
  have "(ucast (ntohs le (extras_pathlen le p)) :: 32 word)
          = of_nat (unat (ntohs le (extras_pathlen le p)))"
    by (simp only: of_nat_unat)
  then show ?thesis by (simp only: unat_pathlen)
qed

lemma ntohl_bodylen: "ntohl le (hdr_bodylen le p) = of_nat (wire_bodylen p)"
  by (simp add: hdr_bodylen_def ntohl_load32 wire_bodylen_def)

lemma subdoc_valuelen_wire:
  "subdoc_valuelen le p =
     of_nat (wire_bodylen p) - of_nat (wire_keylen p + unat (hdr_extlen p) + wire_pathlen p)"
proof -
  have e: "(ucast (hdr_extlen p) :: 32 word) = of_nat (unat (hdr_extlen p))"
    by (simp only: of_nat_unat)
  show ?thesis
    unfolding subdoc_valuelen_def ucast_ntohs_keylen ucast_ntohs_pathlen ntohl_bodylen e
    by (simp del: of_nat_unat)
qed

lemma subdoc_valuelen_zero_iff:
  "subdoc_valuelen le p = 0 \<longleftrightarrow>
     wire_bodylen p = wire_keylen p + unat (hdr_extlen p) + wire_pathlen p"
proof -
  let ?s = "wire_keylen p + unat (hdr_extlen p) + wire_pathlen p"
  have s: "?s < 4294967296"
    using wire_keylen_less [of p] wire_pathlen_less [of p] unat_byte_less [of "hdr_extlen p"]
    by simp
  have b: "wire_bodylen p < 4294967296" by (rule wire_bodylen_less)
  have "subdoc_valuelen le p = 0 \<longleftrightarrow> (of_nat (wire_bodylen p) :: 32 word) = of_nat ?s"
    unfolding subdoc_valuelen_wire by simp
  also have "\<dots> \<longleftrightarrow> unat (of_nat (wire_bodylen p) :: 32 word) = unat (of_nat ?s :: 32 word)"
    by (simp add: word_unat_eq_iff)
  also have "\<dots> \<longleftrightarrow> wire_bodylen p = ?s"
    using s b by (simp only: unat_of_nat mod_less len_of_numeral_defs) simp
  finally show ?thesis .
qed

lemma be_bytes_2: "be_bytes 2 v = [of_nat (v div 256), of_nat (v mod 256)]"
proof -
  have h: "(2::nat) = Suc (Suc 0)" by simp
  show ?thesis unfolding h by simp
qed

lemma be_bytes_4:
  "be_bytes 4 v = [of_nat (v div 16777216), of_nat (v mod 16777216 div 65536),
                   of_nat (v mod 16777216 mod 65536 div 256), of_nat (v mod 16777216 mod 65536 mod 256)]"
proof -
  have h: "(4::nat) = Suc (Suc (Suc (Suc 0)))" by simp
  show ?thesis unfolding h by simp
qed

lemma be_bytes_8:
  "be_bytes 8 v = [of_nat (v div 72057594037927936),
                   of_nat (v mod 72057594037927936 div 281474976710656),
                   of_nat (v mod 72057594037927936 mod 281474976710656 div 1099511627776),
                   of_nat (v mod 72057594037927936 mod 281474976710656 mod 1099511627776 div 4294967296),
                   of_nat (v mod 72057594037927936 mod 281474976710656 mod 1099511627776
                             mod 4294967296 div 16777216),
                   of_nat (v mod 72057594037927936 mod 281474976710656 mod 1099511627776
                             mod 4294967296 mod 16777216 div 65536),
                   of_nat (v mod 72057594037927936 mod 281474976710656 mod 1099511627776
                             mod 4294967296 mod 16777216 mod 65536 div 256),
                   of_nat (v mod 72057594037927936 mod 281474976710656 mod 1099511627776
                             mod 4294967296 mod 16777216 mod 65536 mod 256)]"
proof -
  have h: "(8::nat) = Suc (Suc (Suc (Suc (Suc (Suc (Suc (Suc 0)))))))" by simp
  show ?thesis unfolding h by simp
qed

lemma slice_2: "slice m a 2 = [m a, m (Suc a)]"
  by (simp add: slice_def upt_rec)

lemma slice_4: "slice m a 4 = [m a, m (Suc a), m (Suc (Suc a)), m (Suc (Suc (Suc a)))]"
  by (simp add: slice_def upt_rec)


section \<open>The single-path validator\<close>

lemma ntohs_keylen_zero_iff: "ntohs le (hdr_keylen le p) = 0 \<longleftrightarrow> wire_keylen p = 0"
  using unat_keylen [of le p] by (simp add: unat_eq_0 [symmetric] del: unat_eq_0)

lemma ntohs_pathlen_zero_iff: "ntohs le (extras_pathlen le p) = 0 \<longleftrightarrow> wire_pathlen p = 0"
  using unat_pathlen [of le p] by (simp add: unat_eq_0 [symmetric] del: unat_eq_0)

lemma subdoc_validator_accepts_iff:
  "subdoc_validator le traits CMD p = 0 \<longleftrightarrow>
     hdr_magic p = PROTOCOL_BINARY_REQ
     \<and> wire_keylen p \<noteq> 0
     \<and> hdr_extlen p = 3
     \<and> hdr_datatype p = PROTOCOL_BINARY_RAW_BYTES
     \<and> wire_pathlen p \<le> SUBDOC_PATH_MAX_LENGTH
     \<and> (wire_pathlen p \<noteq> 0 \<or> allow_empty_path (traits CMD))
     \<and> (extras_subdoc_flags p AND NOT (valid_flags (traits CMD))) = 0
     \<and> (request_has_value (traits CMD) \<longleftrightarrow> wire_bodylen p \<noteq> wire_keylen p + 3 + wire_pathlen p)"
  by (auto simp add: subdoc_validator_def subdoc_valuelen_zero_iff ntohs_keylen_zero_iff
      ntohs_pathlen_zero_iff unat_pathlen)

lemma subdoc_validator_range: "subdoc_validator le traits CMD p = 0 \<or> subdoc_validator le traits CMD p = - 1"
  by (simp add: subdoc_validator_def)

lemma short_body_packet_bytes:
  "short_body_packet = [0x80, 0xc7, 0, 1, 3, 0, 0, 0, 0, 0, 0, 5, 0, 0, 0, 0, 0, 0, 0, 0, 0, 0, 0, 0,
                 0, 10, 0, 0x6b, 0x61]"
  by (simp add: short_body_packet_def encode_header_def be_bytes_2 be_bytes_4 be_bytes_8)

lemma short_body_fields:
  "hdr_magic (mem_of short_body_packet) = 0x80"
  "wire_keylen (mem_of short_body_packet) = 1"
  "hdr_extlen (mem_of short_body_packet) = 3"
  "hdr_datatype (mem_of short_body_packet) = 0"
  "wire_pathlen (mem_of short_body_packet) = 10"
  "wire_bodylen (mem_of short_body_packet) = 5"
  "extras_subdoc_flags (mem_of short_body_packet) = 0"
  by (simp_all add: short_body_packet_bytes hdr_magic_def wire_keylen_def hdr_extlen_def hdr_datatype_def
      wire_pathlen_def wire_bodylen_def extras_subdoc_flags_def mem_of_def slice_2 slice_4)

lemma subdoc_validator_accepts_iff_no_wrap:
  assumes "wire_keylen p + unat (hdr_extlen p) + wire_pathlen p \<le> wire_bodylen p"
  shows "subdoc_validator le traits CMD p = 0 \<longleftrightarrow>
     hdr_magic p = PROTOCOL_BINARY_REQ
     \<and> wire_keylen p \<noteq> 0
     \<and> hdr_extlen p = 3
     \<and> hdr_datatype p = PROTOCOL_BINARY_RAW_BYTES
     \<and> wire_pathlen p \<le> SUBDOC_PATH_MAX_LENGTH
     \<and> (wire_pathlen p \<noteq> 0 \<or> allow_empty_path (traits CMD))
     \<and> (extras_subdoc_flags p AND NOT (valid_flags (traits CMD))) = 0
     \<and> (request_has_value (traits CMD) \<longleftrightarrow> wire_keylen p + 3 + wire_pathlen p < wire_bodylen p)"
proof (cases "hdr_extlen p = 3")
  case True
  then have "wire_keylen p + 3 + wire_pathlen p \<le> wire_bodylen p" using assms by simp
  then have "wire_bodylen p \<noteq> wire_keylen p + 3 + wire_pathlen p
               \<longleftrightarrow> wire_keylen p + 3 + wire_pathlen p < wire_bodylen p" by arith
  then show ?thesis by (simp only: subdoc_validator_accepts_iff)
next
  case False
  then show ?thesis by (simp add: subdoc_validator_accepts_iff)
qed

text \<open>
  Claim C3. The claim: for every single-path opcode the validator accepts a packet if and only
  if the magic is REQ, the key is not empty, the extras length is 3, the datatype is RAW, the
  path length is at most 1024 (and not zero unless the traits allow it), no invalid flag is
  set, the declared body length accounts for key, extras, path and value, and a value is
  present exactly when the traits say so. The code computes the value length as the 32-bit
  difference \<^verbatim>\<open>bodylen - keylen - extlen - pathlen\<close> and only tests it against zero. The
  packet below declares a body of 5 bytes for a key of 1 byte, extras of 3 bytes and a path of
  10 bytes: the difference wraps around to a non-zero number and the validator accepts the
  packet, on either byte order of the host, although its body is shorter than the parts it
  must account for.
\<close>

theorem subdoc_validator_accepts_short_body:
  "subdoc_validator le sample_traits PROTOCOL_BINARY_CMD_SUBDOC_DICT_ADD (mem_of short_body_packet) = 0
   \<and> wire_bodylen (mem_of short_body_packet)
        < wire_keylen (mem_of short_body_packet) + unat (hdr_extlen (mem_of short_body_packet))
            + wire_pathlen (mem_of short_body_packet)
   \<and> unat (subdoc_valuelen le (mem_of short_body_packet)) = 4294967287"
proof -
  have "subdoc_validator le sample_traits PROTOCOL_BINARY_CMD_SUBDOC_DICT_ADD
          (mem_of short_body_packet) = 0"
    unfolding subdoc_validator_accepts_iff short_body_fields
    by (simp add: sample_traits_def)
  moreover have "subdoc_valuelen le (mem_of short_body_packet) = 4294967287"
    unfolding subdoc_valuelen_wire short_body_fields by simp
  ultimately show ?thesis by (simp add: short_body_fields)
qed

theorem subdoc_validator_accepts_short_body_witness:
  "subdoc_validator True sample_traits PROTOCOL_BINARY_CMD_SUBDOC_DICT_ADD (mem_of short_body_packet) = 0
   \<and> wire_bodylen (mem_of short_body_packet) = 5
   \<and> wire_keylen (mem_of short_body_packet) + unat (hdr_extlen (mem_of short_body_packet))
        + wire_pathlen (mem_of short_body_packet) = 14"
  using subdoc_validator_accepts_short_body [of True] by (simp add: short_body_fields)

section \<open>The multi-path lookup validator\<close>

lemma spec_pathlen_zero_iff: "spec_pathlen le p off = 0 \<longleftrightarrow> wire_spec_pathlen p off = 0"
  using unat_spec_pathlen [of le p off] by (simp add: unat_eq_0 [symmetric] del: unat_eq_0)

lemma check_lookup_spec_iff: "check_lookup_spec le traits p off = spec_valid traits p off"
  by (auto simp add: check_lookup_spec_def spec_valid_def spec_cmd_allowed_def
      spec_pathlen_zero_iff unat_spec_pathlen)

lemma specs_end_lower: "off + n * sizeof_spec \<le> specs_end p off n"
proof (induction n arbitrary: off)
  case 0
  show ?case by simp
next
  case (Suc n)
  have "off + (sizeof_spec + wire_spec_pathlen p off) + n * sizeof_spec
          \<le> specs_end p (off + (sizeof_spec + wire_spec_pathlen p off)) n"
    by (rule Suc.IH)
  then show ?case by simp
qed

lemma specs_end_add: "specs_end p off (m + n) = specs_end p (specs_end p off m) n"
  by (induction m arbitrary: off) simp_all

lemma specs_end_strict_mono:
  assumes "m < n"
  shows "specs_end p off m < specs_end p off n"
proof -
  from assms obtain d where n: "n = m + Suc d" by (auto dest: less_imp_Suc_add)
  have "specs_end p off m + Suc d * sizeof_spec \<le> specs_end p (specs_end p off m) (Suc d)"
    by (rule specs_end_lower)
  also have "\<dots> = specs_end p off n" by (simp only: n specs_end_add)
  finally show ?thesis by (simp add: sizeof_spec_def)
qed

lemma specs_end_inj: "specs_end p off m = specs_end p off n \<Longrightarrow> m = n"
  using specs_end_strict_mono [of m n p off] specs_end_strict_mono [of n m p off]
  by (cases m n rule: linorder_cases) auto

lemma specs_valid_bounds:
  "specs_valid traits p off n \<Longrightarrow>
     off + n * 5 \<le> specs_end p off n \<and> specs_end p off n \<le> off + n * 1028"
proof (induction n arbitrary: off)
  case 0
  show ?case by simp
next
  case (Suc n)
  let ?off = "off + (sizeof_spec + wire_spec_pathlen p off)"
  from Suc.prems have v: "spec_valid traits p off" and r: "specs_valid traits p ?off n" by simp_all
  from v have l: "1 \<le> wire_spec_pathlen p off" "wire_spec_pathlen p off \<le> 1024"
    by (simp_all add: spec_valid_def)
  from Suc.IH [OF r] l show ?case by (simp add: sizeof_spec_def)
qed

lemma specs_valid_add:
  "specs_valid traits p off (m + n) \<longleftrightarrow>
     specs_valid traits p off m \<and> specs_valid traits p (specs_end p off m) n"
  by (induction m arbitrary: off) simp_all

lemma lookup_specs_loop_complete:
  "specs_valid traits p bv n \<Longrightarrow> specs_end p bv n = bodylen \<Longrightarrow> path_index + n \<le> 16 \<Longrightarrow>
     lookup_specs_loop le traits p bodylen path_index bv = Some (path_index + n, bodylen)"
proof (induction n arbitrary: path_index bv)
  case 0
  then show ?case by (subst lookup_specs_loop.simps) simp
next
  case (Suc n)
  let ?bv = "bv + (sizeof_spec + wire_spec_pathlen p bv)"
  from Suc.prems have v: "spec_valid traits p bv" and r: "specs_valid traits p ?bv n"
    and e: "specs_end p ?bv n = bodylen" and i: "Suc path_index + n \<le> 16" by simp_all
  have "?bv \<le> specs_end p ?bv n" using specs_end_lower [of ?bv n p] by simp
  then have lt: "bv < bodylen" using e by (simp add: sizeof_spec_def)
  have pi: "path_index < 16" using i by simp
  have "lookup_specs_loop le traits p bodylen path_index bv
          = lookup_specs_loop le traits p bodylen (path_index + 1) ?bv"
    using lt pi v by (subst lookup_specs_loop.simps) (simp add: check_lookup_spec_iff unat_spec_pathlen)
  also have "\<dots> = Some (Suc path_index + n, bodylen)"
    using Suc.IH [OF r e i] by simp
  finally show ?case by simp
qed

lemma lookup_specs_loop_sound:
  "lookup_specs_loop le traits p bodylen path_index bv = Some (path_index', bv') \<Longrightarrow>
     \<exists>n. path_index' = path_index + n \<and> specs_valid traits p bv n \<and> bv' = specs_end p bv n
         \<and> (path_index' = 16 \<or> bodylen \<le> bv' \<or> 16 < path_index)"
proof (induction le traits p bodylen path_index bv rule: lookup_specs_loop.induct)
  case (1 le traits packet bodylen path_index body_validated)
  show ?case
  proof (cases "path_index < 16 \<and> body_validated < bodylen")
    case False
    with "1.prems" have "path_index' = path_index \<and> bv' = body_validated"
      by (subst (asm) lookup_specs_loop.simps) simp
    then have "path_index' = path_index" "bv' = body_validated" by simp_all
    moreover have "specs_valid traits packet body_validated 0" by simp
    ultimately show ?thesis using False by (intro exI [of _ 0]) auto
  next
    case True
    let ?bv = "body_validated + (sizeof_spec + unat (spec_pathlen le packet body_validated))"
    from True "1.prems" have c: "check_lookup_spec le traits packet body_validated"
      by (subst (asm) lookup_specs_loop.simps) (simp split: if_splits)
    with True "1.prems" have
      "lookup_specs_loop le traits packet bodylen (path_index + 1) ?bv = Some (path_index', bv')"
      by (subst (asm) lookup_specs_loop.simps) simp
    from "1.IH" [OF True c this] obtain n where
      n: "path_index' = path_index + 1 + n" "specs_valid traits packet ?bv n"
         "bv' = specs_end packet ?bv n" "path_index' = 16 \<or> bodylen \<le> bv' \<or> 16 < path_index + 1"
      by blast
    have "specs_valid traits packet body_validated (Suc n)"
      using c n(2) by (simp add: check_lookup_spec_iff unat_spec_pathlen)
    moreover have "bv' = specs_end packet body_validated (Suc n)"
      using n(3) by (simp add: unat_spec_pathlen)
    moreover have "path_index' = path_index + Suc n" using n(1) by simp
    moreover have "path_index' = 16 \<or> bodylen \<le> bv' \<or> 16 < path_index"
      using n(4) True n(1) by auto
    ultimately show ?thesis by blast
  qed
qed

lemma hdr_keylen_zero_iff: "hdr_keylen le p = 0 \<longleftrightarrow> wire_keylen p = 0"
proof -
  have b: "unat (p 2) < 256" "unat (p (Suc 2)) < 256" by (rule unat_byte_less)+
  have "host_val le (slice p 2 2) < 65536"
    using b by (simp add: host_val_def slice_2)
  then have "hdr_keylen le p = 0 \<longleftrightarrow> host_val le (slice p 2 2) = 0"
    by (simp add: hdr_keylen_def load16_def unat_eq_0 [symmetric] unat_of_nat del: unat_eq_0)
  also have "\<dots> \<longleftrightarrow> wire_keylen p = 0"
    by (auto simp add: host_val_def slice_2 wire_keylen_def)
  finally show ?thesis .
qed

lemma raw_bodylen_not_small:
  assumes "5 \<le> wire_bodylen p" and "wire_bodylen p < 16777216"
  shows "5 \<le> unat (hdr_bodylen le p)"
proof -
  let ?a = "unat (p 8)" and ?b = "unat (p (Suc 8))" and ?c = "unat (p (Suc (Suc 8)))"
    and ?d = "unat (p (Suc (Suc (Suc 8))))"
  have bs: "?a < 256" "?b < 256" "?c < 256" "?d < 256" by (rule unat_byte_less)+
  have w: "wire_bodylen p = ?a * 16777216 + ?b * 65536 + ?c * 256 + ?d"
    by (simp add: wire_bodylen_def slice_4)
  have h: "host_val le (slice p 8 4) =
             (if le then ?d * 16777216 + ?c * 65536 + ?b * 256 + ?a
              else ?a * 16777216 + ?b * 65536 + ?c * 256 + ?d)"
    by (simp add: host_val_def slice_4)
  have "host_val le (slice p 8 4) < 4294967296" using bs unfolding h by simp
  then have u: "unat (hdr_bodylen le p) = host_val le (slice p 8 4)"
    by (simp add: hdr_bodylen_def load32_def unat_of_nat)
  have a0: "?a = 0" using assms(2) bs unfolding w by simp
  show ?thesis
  proof (cases le)
    case False
    then show ?thesis using assms(1) unfolding u h w by simp
  next
    case True
    have "?b + ?c + ?d \<noteq> 0" using assms(1) a0 unfolding w by auto
    then have "5 \<le> ?d * 16777216 + ?c * 65536 + ?b * 256 + ?a" by arith
    then show ?thesis using True unfolding u h by simp
  qed
qed

lemma multi_lookup_validator_range:
  "subdoc_multi_lookup_validator le traits p = 0 \<or> subdoc_multi_lookup_validator le traits p = - 1"
  by (simp add: subdoc_multi_lookup_validator_def split: option.splits prod.splits)

lemma multi_lookup_accepts_iff:
  "subdoc_multi_lookup_validator le traits p = 0 \<longleftrightarrow>
     hdr_magic p = PROTOCOL_BINARY_REQ \<and> wire_keylen p \<noteq> 0 \<and> hdr_extlen p = 0
     \<and> hdr_datatype p = PROTOCOL_BINARY_RAW_BYTES
     \<and> (\<exists>n. 1 \<le> n \<and> n \<le> 16 \<and> specs_valid traits p (wire_keylen p) n
             \<and> specs_end p (wire_keylen p) n = wire_bodylen p)"
  (is "?L \<longleftrightarrow> ?R")
proof
  assume L: ?L
  then have st: "hdr_magic p = PROTOCOL_BINARY_REQ" "hdr_keylen le p \<noteq> 0" "hdr_extlen p = 0"
    "hdr_datatype p = PROTOCOL_BINARY_RAW_BYTES"
    by (auto simp add: subdoc_multi_lookup_validator_def split: if_splits)
  from L obtain path_index body_validated where
    lp: "lookup_specs_loop le traits p (wire_bodylen p) 0 (wire_keylen p)
           = Some (path_index, body_validated)"
    and fin: "path_index > 0" "path_index \<le> 16" "body_validated = wire_bodylen p"
    by (auto simp add: subdoc_multi_lookup_validator_def unat_bodylen unat_keylen
        split: if_splits option.splits prod.splits)
  from lookup_specs_loop_sound [OF lp] obtain n where
    n: "path_index = 0 + n" "specs_valid traits p (wire_keylen p) n"
    "body_validated = specs_end p (wire_keylen p) n" by blast
  have "1 \<le> n \<and> n \<le> 16 \<and> specs_valid traits p (wire_keylen p) n
          \<and> specs_end p (wire_keylen p) n = wire_bodylen p"
    using n fin by simp
  then have "\<exists>n. 1 \<le> n \<and> n \<le> 16 \<and> specs_valid traits p (wire_keylen p) n
          \<and> specs_end p (wire_keylen p) n = wire_bodylen p" ..
  with st show ?R by (simp add: hdr_keylen_zero_iff)
next
  assume R: ?R
  then obtain n where n: "1 \<le> n" "n \<le> 16" "specs_valid traits p (wire_keylen p) n"
    "specs_end p (wire_keylen p) n = wire_bodylen p" by blast
  have lp: "lookup_specs_loop le traits p (wire_bodylen p) 0 (wire_keylen p) = Some (0 + n, wire_bodylen p)"
    by (rule lookup_specs_loop_complete) (use n in simp_all)
  from specs_valid_bounds [OF n(3)] n have
    b: "5 \<le> wire_bodylen p" "wire_bodylen p \<le> wire_keylen p + 16 * 1028" by auto
  have "wire_bodylen p < 16777216" using b(2) wire_keylen_less [of p] by simp
  with b(1) have "5 \<le> unat (hdr_bodylen le p)" by (rule raw_bodylen_not_small)
  then show ?L using R lp n
    by (simp add: subdoc_multi_lookup_validator_def unat_bodylen unat_keylen hdr_keylen_zero_iff
        sizeof_spec_def)
qed

lemma lookup_packet_bytes:
  "lookup_packet 9 [exists_spec] =
     [0x80, 0xd0, 0, 2, 0, 0, 0, 0, 0, 0, 0, 9, 0, 0, 0, 0, 0, 0, 0, 0, 0, 0, 0, 0,
      0x6b, 0x31, 0xc6, 0, 0, 3, 0x5b, 0x30, 0x5d]"
  "lookup_packet 8 [exists_spec] =
     [0x80, 0xd0, 0, 2, 0, 0, 0, 0, 0, 0, 0, 8, 0, 0, 0, 0, 0, 0, 0, 0, 0, 0, 0, 0,
      0x6b, 0x31, 0xc6, 0, 0, 3, 0x5b, 0x30, 0x5d]"
  "lookup_packet 2 [] =
     [0x80, 0xd0, 0, 2, 0, 0, 0, 0, 0, 0, 0, 2, 0, 0, 0, 0, 0, 0, 0, 0, 0, 0, 0, 0, 0x6b, 0x31]"
  by (simp_all add: lookup_packet_def exists_spec_def encode_header_def encode_lookup_spec_def
      be_bytes_2 be_bytes_4 be_bytes_8)

lemma lookup_packet_fields:
  "hdr_magic (mem_of (lookup_packet 9 [exists_spec])) = 0x80"
  "wire_keylen (mem_of (lookup_packet 9 [exists_spec])) = 2"
  "hdr_extlen (mem_of (lookup_packet 9 [exists_spec])) = 0"
  "hdr_datatype (mem_of (lookup_packet 9 [exists_spec])) = 0"
  "wire_bodylen (mem_of (lookup_packet 9 [exists_spec])) = 9"
  "spec_opcode (mem_of (lookup_packet 9 [exists_spec])) 2 = 0xc6"
  "spec_flags (mem_of (lookup_packet 9 [exists_spec])) 2 = 0"
  "wire_spec_pathlen (mem_of (lookup_packet 9 [exists_spec])) 2 = 3"
  by (simp_all add: lookup_packet_bytes hdr_magic_def wire_keylen_def hdr_extlen_def
      hdr_datatype_def wire_bodylen_def spec_opcode_def spec_flags_def wire_spec_pathlen_def
      mem_of_def slice_2 slice_4)

lemma truncated_packet_fields:
  "wire_keylen (mem_of (lookup_packet 8 [exists_spec])) = 2"
  "wire_bodylen (mem_of (lookup_packet 8 [exists_spec])) = 8"
  "wire_spec_pathlen (mem_of (lookup_packet 8 [exists_spec])) 2 = 3"
  by (simp_all add: lookup_packet_bytes wire_keylen_def wire_bodylen_def wire_spec_pathlen_def
      mem_of_def slice_2 slice_4)

lemma mutation_packet_bytes:
  "lookup_packet 9 [dict_add_spec] =
     [0x80, 0xd0, 0, 2, 0, 0, 0, 0, 0, 0, 0, 9, 0, 0, 0, 0, 0, 0, 0, 0, 0, 0, 0, 0,
      0x6b, 0x31, 0xc7, 0, 0, 3, 0x5b, 0x30, 0x5d]"
  by (simp add: lookup_packet_def dict_add_spec_def encode_header_def encode_lookup_spec_def
      be_bytes_2 be_bytes_4 be_bytes_8)

lemma mutation_packet_fields:
  "wire_keylen (mem_of (lookup_packet 9 [dict_add_spec])) = 2"
  "wire_bodylen (mem_of (lookup_packet 9 [dict_add_spec])) = 9"
  "spec_opcode (mem_of (lookup_packet 9 [dict_add_spec])) 2 = 0xc7"
  by (simp_all add: mutation_packet_bytes wire_keylen_def wire_bodylen_def spec_opcode_def
      mem_of_def slice_2 slice_4)

lemma lookup_packet_accepted:
  "subdoc_multi_lookup_validator le sample_traits (mem_of (lookup_packet 9 [exists_spec])) = 0"
proof -
  have v: "specs_valid sample_traits (mem_of (lookup_packet 9 [exists_spec])) 2 (Suc 0)"
    by (simp add: spec_valid_def spec_cmd_allowed_def lookup_packet_fields sample_traits_def)
  have e: "specs_end (mem_of (lookup_packet 9 [exists_spec])) 2 (Suc 0) = 9"
    by (simp add: lookup_packet_fields sizeof_spec_def)
  have "\<exists>n. 1 \<le> n \<and> n \<le> 16
          \<and> specs_valid sample_traits (mem_of (lookup_packet 9 [exists_spec])) 2 n
          \<and> specs_end (mem_of (lookup_packet 9 [exists_spec])) 2 n = 9"
    using v e by (intro exI [of _ "Suc 0"]) simp
  then show ?thesis by (simp add: multi_lookup_accepts_iff lookup_packet_fields)
qed

lemma empty_packet_fields:
  "wire_keylen (mem_of (lookup_packet 2 [])) = 2"
  "wire_bodylen (mem_of (lookup_packet 2 [])) = 2"
  by (simp_all add: lookup_packet_bytes wire_keylen_def wire_bodylen_def mem_of_def slice_2 slice_4)

lemma multi_lookup_accepts_specs:
  assumes "subdoc_multi_lookup_validator le traits p = 0"
  obtains n where "1 \<le> n" and "n \<le> 16" and "specs_valid traits p (wire_keylen p) n"
    and "specs_end p (wire_keylen p) n = wire_bodylen p"
proof -
  from assms have "\<exists>n. 1 \<le> n \<and> n \<le> 16 \<and> specs_valid traits p (wire_keylen p) n
             \<and> specs_end p (wire_keylen p) n = wire_bodylen p"
    by (simp only: multi_lookup_accepts_iff)
  then show thesis using that by (elim exE conjE)
qed

lemma specs_end_less_imp_less:
  "specs_end p off m < specs_end p off n \<Longrightarrow> m < n"
proof (rule ccontr)
  assume a: "specs_end p off m < specs_end p off n" and "\<not> m < n"
  then have "n = m \<or> n < m" by auto
  then have "specs_end p off n \<le> specs_end p off m"
    using specs_end_strict_mono [of n m p off] by auto
  with a show False by simp
qed

text \<open>
  Claim C4. The multi-path lookup validator accepts exactly the packets with magic REQ, a
  non-empty key, no extras and datatype RAW whose body, after the key, is a sequence of 1 to
  16 valid lookup specs that ends exactly at the declared body length. Hence an accepted
  packet has a body of at least \<^verbatim>\<open>sizeof(spec) + 1\<close> bytes; a body that holds no spec, or 17
  specs or more, is rejected; and a declared length that falls inside a spec (a truncated
  packet, or one with bytes left over) is rejected.
\<close>

theorem multi_lookup_validator_bounds:
  "(subdoc_multi_lookup_validator le traits p = 0 \<longleftrightarrow>
      hdr_magic p = PROTOCOL_BINARY_REQ \<and> wire_keylen p \<noteq> 0 \<and> hdr_extlen p = 0
      \<and> hdr_datatype p = PROTOCOL_BINARY_RAW_BYTES
      \<and> (\<exists>n. 1 \<le> n \<and> n \<le> PROTOCOL_BINARY_SUBDOC_MULTI_MAX_PATHS
              \<and> specs_valid traits p (wire_keylen p) n
              \<and> specs_end p (wire_keylen p) n = wire_bodylen p))
   \<and> (subdoc_multi_lookup_validator le traits p = 0 \<longrightarrow> sizeof_spec + 1 \<le> wire_bodylen p)
   \<and> ((k = 0 \<or> 17 \<le> k) \<and> specs_end p (wire_keylen p) k = wire_bodylen p
        \<longrightarrow> subdoc_multi_lookup_validator le traits p = - 1)
   \<and> (specs_end p (wire_keylen p) m < wire_bodylen p
        \<and> wire_bodylen p < specs_end p (wire_keylen p) (Suc m)
        \<longrightarrow> subdoc_multi_lookup_validator le traits p = - 1)"
proof (intro conjI impI)
  show "subdoc_multi_lookup_validator le traits p = 0 \<longleftrightarrow>
      hdr_magic p = PROTOCOL_BINARY_REQ \<and> wire_keylen p \<noteq> 0 \<and> hdr_extlen p = 0
      \<and> hdr_datatype p = PROTOCOL_BINARY_RAW_BYTES
      \<and> (\<exists>n. 1 \<le> n \<and> n \<le> PROTOCOL_BINARY_SUBDOC_MULTI_MAX_PATHS
              \<and> specs_valid traits p (wire_keylen p) n
              \<and> specs_end p (wire_keylen p) n = wire_bodylen p)"
    by (rule multi_lookup_accepts_iff)
next
  assume "subdoc_multi_lookup_validator le traits p = 0"
  then obtain n where n: "1 \<le> n" "specs_valid traits p (wire_keylen p) n"
    "specs_end p (wire_keylen p) n = wire_bodylen p"
    by (rule multi_lookup_accepts_specs)
  from specs_valid_bounds [OF n(2)] n(1) n(3) show "sizeof_spec + 1 \<le> wire_bodylen p"
    by (simp add: sizeof_spec_def)
next
  assume a: "(k = 0 \<or> 17 \<le> k) \<and> specs_end p (wire_keylen p) k = wire_bodylen p"
  have "subdoc_multi_lookup_validator le traits p \<noteq> 0"
  proof
    assume "subdoc_multi_lookup_validator le traits p = 0"
    then obtain n where n: "1 \<le> n" "n \<le> 16" "specs_end p (wire_keylen p) n = wire_bodylen p"
      by (rule multi_lookup_accepts_specs)
    from a n(3) have "specs_end p (wire_keylen p) k = specs_end p (wire_keylen p) n" by simp
    then have "k = n" by (rule specs_end_inj)
    with a n(1) n(2) show False by arith
  qed
  then show "subdoc_multi_lookup_validator le traits p = - 1"
    using multi_lookup_validator_range [of le traits p] by simp
next
  assume a: "specs_end p (wire_keylen p) m < wire_bodylen p
        \<and> wire_bodylen p < specs_end p (wire_keylen p) (Suc m)"
  have "subdoc_multi_lookup_validator le traits p \<noteq> 0"
  proof
    assume "subdoc_multi_lookup_validator le traits p = 0"
    then obtain n where n: "specs_end p (wire_keylen p) n = wire_bodylen p"
      by (rule multi_lookup_accepts_specs)
    from a have lo: "specs_end p (wire_keylen p) m < specs_end p (wire_keylen p) n"
      and hi: "specs_end p (wire_keylen p) n < specs_end p (wire_keylen p) (Suc m)"
      by (simp_all only: n)
    from lo have "m < n" by (rule specs_end_less_imp_less)
    moreover from hi have "n < Suc m" by (rule specs_end_less_imp_less)
    ultimately show False by simp
  qed
  then show "subdoc_multi_lookup_validator le traits p = - 1"
    using multi_lookup_validator_range [of le traits p] by simp
qed

theorem multi_lookup_validator_bounds_witness:
  "subdoc_multi_lookup_validator True sample_traits (mem_of (lookup_packet 9 [exists_spec])) = 0
   \<and> sizeof_spec + 1 \<le> wire_bodylen (mem_of (lookup_packet 9 [exists_spec]))
   \<and> subdoc_multi_lookup_validator True sample_traits (mem_of (lookup_packet 2 [])) = - 1
   \<and> subdoc_multi_lookup_validator True sample_traits (mem_of (lookup_packet 8 [exists_spec])) = - 1"
proof -
  have v: "specs_valid sample_traits (mem_of (lookup_packet 9 [exists_spec])) 2 (Suc 0)"
    by (simp add: spec_valid_def spec_cmd_allowed_def lookup_packet_fields sample_traits_def)
  have e: "specs_end (mem_of (lookup_packet 9 [exists_spec])) 2 (Suc 0) = 9"
    by (simp add: lookup_packet_fields sizeof_spec_def)
  have "\<exists>n. 1 \<le> n \<and> n \<le> 16
          \<and> specs_valid sample_traits (mem_of (lookup_packet 9 [exists_spec])) 2 n
          \<and> specs_end (mem_of (lookup_packet 9 [exists_spec])) 2 n = 9"
    using v e by (intro exI [of _ "Suc 0"]) simp
  then have a: "subdoc_multi_lookup_validator True sample_traits
                  (mem_of (lookup_packet 9 [exists_spec])) = 0"
    using multi_lookup_validator_bounds [of True sample_traits "mem_of (lookup_packet 9 [exists_spec])"]
    by (simp add: lookup_packet_fields)
  have b: "sizeof_spec + 1 \<le> wire_bodylen (mem_of (lookup_packet 9 [exists_spec]))"
    using a multi_lookup_validator_bounds [of True sample_traits
                "mem_of (lookup_packet 9 [exists_spec])"] by blast
  have c: "subdoc_multi_lookup_validator True sample_traits (mem_of (lookup_packet 2 [])) = - 1"
    using multi_lookup_validator_bounds [of True sample_traits "mem_of (lookup_packet 2 [])" 0]
    by (simp add: empty_packet_fields)
  have d: "subdoc_multi_lookup_validator True sample_traits
             (mem_of (lookup_packet 8 [exists_spec])) = - 1"
    using multi_lookup_validator_bounds [of True sample_traits
             "mem_of (lookup_packet 8 [exists_spec])" _ 0]
    by (simp add: truncated_packet_fields sizeof_spec_def)
  from a b c d show ?thesis by simp
qed

text \<open>
  Claim C5. Take any spec of a multi-path lookup packet, that is, the spec number \<open>i\<close> that
  starts before the declared end of the body. If the validator accepts the packet, the spec's
  opcode is \<^verbatim>\<open>SUBDOC_GET\<close> or \<^verbatim>\<open>SUBDOC_EXISTS\<close>, its path length is between 1 and 1024, and
  its flags are among the valid flags in the traits of its opcode. A spec with the opcode of
  any other command (every mutation, and the two multi-path commands) makes the validator
  reject the whole packet.
\<close>

theorem multi_lookup_spec_purity:
  assumes "specs_end p (wire_keylen p) i < wire_bodylen p"
  shows "(subdoc_multi_lookup_validator le traits p = 0 \<longrightarrow>
            (spec_opcode p (specs_end p (wire_keylen p) i) = opcode_of PROTOCOL_BINARY_CMD_SUBDOC_GET
              \<or> spec_opcode p (specs_end p (wire_keylen p) i)
                   = opcode_of PROTOCOL_BINARY_CMD_SUBDOC_EXISTS)
            \<and> 1 \<le> wire_spec_pathlen p (specs_end p (wire_keylen p) i)
            \<and> wire_spec_pathlen p (specs_end p (wire_keylen p) i) \<le> SUBDOC_PATH_MAX_LENGTH
            \<and> (\<forall>CMD. spec_opcode p (specs_end p (wire_keylen p) i) = opcode_of CMD \<longrightarrow>
                  (spec_flags p (specs_end p (wire_keylen p) i) AND NOT (valid_flags (traits CMD))) = 0))
       \<and> (spec_opcode p (specs_end p (wire_keylen p) i) = opcode_of CMD
            \<and> CMD \<noteq> PROTOCOL_BINARY_CMD_SUBDOC_GET \<and> CMD \<noteq> PROTOCOL_BINARY_CMD_SUBDOC_EXISTS
            \<longrightarrow> subdoc_multi_lookup_validator le traits p = - 1)"
proof -
  let ?off = "specs_end p (wire_keylen p) i"
  have valid: "spec_valid traits p ?off" if acc: "subdoc_multi_lookup_validator le traits p = 0"
  proof -
    from acc obtain n where n: "specs_valid traits p (wire_keylen p) n"
      "specs_end p (wire_keylen p) n = wire_bodylen p"
      by (rule multi_lookup_accepts_specs)
    from assms have "?off < specs_end p (wire_keylen p) n" by (simp only: n)
    then have "i < n" by (rule specs_end_less_imp_less)
    then obtain d where d: "n = i + Suc d" by (auto dest: less_imp_Suc_add)
    from n(1) have "specs_valid traits p ?off (Suc d)"
      unfolding d specs_valid_add by simp
    then show ?thesis by simp
  qed
  have inj: "CMD' = PROTOCOL_BINARY_CMD_SUBDOC_GET"
    if "opcode_of CMD' = opcode_of PROTOCOL_BINARY_CMD_SUBDOC_GET" for CMD'
    using that by (cases CMD') simp_all
  have inj': "CMD' = PROTOCOL_BINARY_CMD_SUBDOC_EXISTS"
    if "opcode_of CMD' = opcode_of PROTOCOL_BINARY_CMD_SUBDOC_EXISTS" for CMD'
    using that by (cases CMD') simp_all
  show ?thesis
  proof (intro conjI impI allI)
    assume acc: "subdoc_multi_lookup_validator le traits p = 0"
    from valid [OF acc]
    show "spec_opcode p ?off = opcode_of PROTOCOL_BINARY_CMD_SUBDOC_GET
            \<or> spec_opcode p ?off = opcode_of PROTOCOL_BINARY_CMD_SUBDOC_EXISTS"
      and "1 \<le> wire_spec_pathlen p ?off"
      and "wire_spec_pathlen p ?off \<le> SUBDOC_PATH_MAX_LENGTH"
      by (auto simp add: spec_valid_def spec_cmd_allowed_def)
  next
    fix CMD'
    assume acc: "subdoc_multi_lookup_validator le traits p = 0"
      and op: "spec_opcode p ?off = opcode_of CMD'"
    from valid [OF acc] have "spec_cmd_allowed traits p ?off" by (simp add: spec_valid_def)
    then show "(spec_flags p ?off AND NOT (valid_flags (traits CMD'))) = 0"
      unfolding spec_cmd_allowed_def op using inj [of CMD'] inj' [of CMD'] by auto
  next
    assume a: "spec_opcode p ?off = opcode_of CMD
            \<and> CMD \<noteq> PROTOCOL_BINARY_CMD_SUBDOC_GET \<and> CMD \<noteq> PROTOCOL_BINARY_CMD_SUBDOC_EXISTS"
    have "subdoc_multi_lookup_validator le traits p \<noteq> 0"
    proof
      assume acc: "subdoc_multi_lookup_validator le traits p = 0"
      from valid [OF acc] have "spec_cmd_allowed traits p ?off" by (simp add: spec_valid_def)
      then have "opcode_of CMD = opcode_of PROTOCOL_BINARY_CMD_SUBDOC_GET
                 \<or> opcode_of CMD = opcode_of PROTOCOL_BINARY_CMD_SUBDOC_EXISTS"
        using a unfolding spec_cmd_allowed_def by auto
      with a inj [of CMD] inj' [of CMD] show False by auto
    qed
    then show "subdoc_multi_lookup_validator le traits p = - 1"
      using multi_lookup_validator_range [of le traits p] by simp
  qed
qed

theorem multi_lookup_spec_purity_witness:
  "specs_end (mem_of (lookup_packet 9 [exists_spec]))
       (wire_keylen (mem_of (lookup_packet 9 [exists_spec]))) 0
     < wire_bodylen (mem_of (lookup_packet 9 [exists_spec]))
   \<and> subdoc_multi_lookup_validator True sample_traits (mem_of (lookup_packet 9 [exists_spec])) = 0
   \<and> spec_opcode (mem_of (lookup_packet 9 [exists_spec])) 2
        = opcode_of PROTOCOL_BINARY_CMD_SUBDOC_EXISTS
   \<and> 1 \<le> wire_spec_pathlen (mem_of (lookup_packet 9 [exists_spec])) 2
   \<and> wire_spec_pathlen (mem_of (lookup_packet 9 [exists_spec])) 2 \<le> SUBDOC_PATH_MAX_LENGTH
   \<and> (spec_flags (mem_of (lookup_packet 9 [exists_spec])) 2
         AND NOT (valid_flags (sample_traits PROTOCOL_BINARY_CMD_SUBDOC_EXISTS))) = 0
   \<and> spec_opcode (mem_of (lookup_packet 9 [dict_add_spec])) 2
        = opcode_of PROTOCOL_BINARY_CMD_SUBDOC_DICT_ADD
   \<and> subdoc_multi_lookup_validator True sample_traits (mem_of (lookup_packet 9 [dict_add_spec])) = - 1"
proof -
  have h: "specs_end (mem_of (lookup_packet 9 [exists_spec]))
             (wire_keylen (mem_of (lookup_packet 9 [exists_spec]))) 0
           < wire_bodylen (mem_of (lookup_packet 9 [exists_spec]))"
    by (simp add: lookup_packet_fields)
  have acc: "subdoc_multi_lookup_validator True sample_traits
               (mem_of (lookup_packet 9 [exists_spec])) = 0"
    by (rule lookup_packet_accepted)
  have op: "spec_opcode (mem_of (lookup_packet 9 [exists_spec])) 2
              = opcode_of PROTOCOL_BINARY_CMD_SUBDOC_EXISTS"
    by (simp add: lookup_packet_fields)
  note t = multi_lookup_spec_purity [OF h, where le = True and traits = sample_traits]
  from t acc have
    "1 \<le> wire_spec_pathlen (mem_of (lookup_packet 9 [exists_spec])) 2
     \<and> wire_spec_pathlen (mem_of (lookup_packet 9 [exists_spec])) 2 \<le> SUBDOC_PATH_MAX_LENGTH
     \<and> (\<forall>CMD. spec_opcode (mem_of (lookup_packet 9 [exists_spec])) 2 = opcode_of CMD \<longrightarrow>
           (spec_flags (mem_of (lookup_packet 9 [exists_spec])) 2
              AND NOT (valid_flags (sample_traits CMD))) = 0)"
    by (simp add: lookup_packet_fields)
  with op have a: "1 \<le> wire_spec_pathlen (mem_of (lookup_packet 9 [exists_spec])) 2
     \<and> wire_spec_pathlen (mem_of (lookup_packet 9 [exists_spec])) 2 \<le> SUBDOC_PATH_MAX_LENGTH
     \<and> (spec_flags (mem_of (lookup_packet 9 [exists_spec])) 2
           AND NOT (valid_flags (sample_traits PROTOCOL_BINARY_CMD_SUBDOC_EXISTS))) = 0"
    by blast
  have h': "specs_end (mem_of (lookup_packet 9 [dict_add_spec]))
             (wire_keylen (mem_of (lookup_packet 9 [dict_add_spec]))) 0
           < wire_bodylen (mem_of (lookup_packet 9 [dict_add_spec]))"
    by (simp add: mutation_packet_fields)
  have op': "spec_opcode (mem_of (lookup_packet 9 [dict_add_spec])) 2
              = opcode_of PROTOCOL_BINARY_CMD_SUBDOC_DICT_ADD"
    by (simp add: mutation_packet_fields)
  from multi_lookup_spec_purity [OF h', where CMD = PROTOCOL_BINARY_CMD_SUBDOC_DICT_ADD
      and le = True and traits = sample_traits]
  have b: "subdoc_multi_lookup_validator True sample_traits
             (mem_of (lookup_packet 9 [dict_add_spec])) = - 1"
    by (simp add: mutation_packet_fields)
  from h acc op a op' b show ?thesis by simp
qed

section \<open>The executor\<close>

lemma log_call_simps [simp]:
  "c_item (log_call c x) = c_item c"
  "c_commandContext (log_call c x) = c_commandContext c"
  "c_dynamicBuffer (log_call c x) = c_dynamicBuffer c"
  "c_responses (log_call c x) = c_responses c"
  "c_history (log_call c x) = c_history c @ [x]"
  "c_cas (log_call c x) = c_cas c"
  "c_state (log_call c x) = c_state c"
  by (simp_all add: log_call_def)

lemma write_bin_packet_simps [simp]:
  "c_item (write_bin_packet c s) = c_item c"
  "c_commandContext (write_bin_packet c s) = c_commandContext c"
  "c_dynamicBuffer (write_bin_packet c s) = c_dynamicBuffer c"
  "c_responses (write_bin_packet c s) = c_responses c @ [Status_response s]"
  "c_history (write_bin_packet c s) = c_history c"
  "c_cas (write_bin_packet c s) = c_cas c"
  "c_state (write_bin_packet c s) = c_state c"
  by (simp_all add: write_bin_packet_def)

lemma materialise_no_info:
  "eng_get_item_info env (c_history c) it = None \<Longrightarrow>
     get_document_for_searching env c it document in_cas' cas
       = (PROTOCOL_BINARY_RESPONSE_EINTERNAL, document, cas, log_call c (Call_get_item_info it))"
  by (simp add: get_document_for_searching_def)

lemma materialise_segments:
  "eng_get_item_info env (c_history c) it = Some info \<Longrightarrow> length (info_value info) \<noteq> 1 \<Longrightarrow>
     get_document_for_searching env c it document in_cas' cas
       = (PROTOCOL_BINARY_RESPONSE_EINTERNAL, document, cas, log_call c (Call_get_item_info it))"
  by (simp add: get_document_for_searching_def)

lemma materialise_cas_mismatch:
  "eng_get_item_info env (c_history c) it = Some info \<Longrightarrow> length (info_value info) = 1 \<Longrightarrow>
   in_cas' \<noteq> 0 \<Longrightarrow> in_cas' \<noteq> info_cas info \<Longrightarrow>
     get_document_for_searching env c it document in_cas' cas
       = (PROTOCOL_BINARY_RESPONSE_KEY_EEXISTS, document, cas, log_call c (Call_get_item_info it))"
  by (simp add: get_document_for_searching_def)

lemma materialise_cas_out:
  "eng_get_item_info env (c_history c) it = Some info \<Longrightarrow> length (info_value info) = 1 \<Longrightarrow>
   in_cas' = 0 \<or> in_cas' = info_cas info \<Longrightarrow>
     fst (snd (snd (get_document_for_searching env c it document in_cas' cas))) = info_cas info"
  by (auto simp add: get_document_for_searching_def Let_def split: option.splits)

lemma materialise_by_datatype:
  assumes "eng_get_item_info env (c_history c) it = Some info"
    and "length (info_value info) = 1"
    and "in_cas' = 0 \<or> in_cas' = info_cas info"
  shows "get_document_for_searching env c it document in_cas' cas =
     (if info_datatype info = PROTOCOL_BINARY_DATATYPE_JSON then
        (PROTOCOL_BINARY_RESPONSE_SUCCESS, hd (info_value info), info_cas info,
         log_call c (Call_get_item_info it))
      else if info_datatype info = PROTOCOL_BINARY_DATATYPE_COMPRESSED_JSON then
        (case snappy_uncompressed_length env (hd (info_value info)) of
           None \<Rightarrow> (PROTOCOL_BINARY_RESPONSE_EINTERNAL, document, info_cas info,
                    log_call c (Call_get_item_info it))
         | Some uncompressed_len \<Rightarrow>
            (case growDynamicBuffer env (c_dynamicBuffer c) uncompressed_len of
               None \<Rightarrow> (PROTOCOL_BINARY_RESPONSE_E2BIG, document, info_cas info,
                        log_call c (Call_get_item_info it))
             | Some dbuf \<Rightarrow>
                (case snappy_uncompress env (hd (info_value info)) of
                   None \<Rightarrow> (PROTOCOL_BINARY_RESPONSE_EINTERNAL, document, info_cas info,
                            (log_call c (Call_get_item_info it))\<lparr>c_dynamicBuffer := dbuf\<rparr>)
                 | Some uncompressed \<Rightarrow>
                     (PROTOCOL_BINARY_RESPONSE_SUCCESS, uncompressed, info_cas info,
                      (log_call c (Call_get_item_info it))
                         \<lparr>c_dynamicBuffer := moveOffset dbuf uncompressed\<rparr>))))
      else if info_datatype info = PROTOCOL_BINARY_RAW_BYTES
              \<or> info_datatype info = PROTOCOL_BINARY_DATATYPE_COMPRESSED then
        (PROTOCOL_BINARY_RESPONSE_SUBDOC_DOC_NOTJSON, document, info_cas info,
         log_call c (Call_get_item_info it))
      else (PROTOCOL_BINARY_RESPONSE_EINTERNAL, document, info_cas info,
            log_call c (Call_get_item_info it)))"
  using assms by (auto simp add: get_document_for_searching_def Let_def split: option.splits)

lemma materialise_frame:
  assumes "get_document_for_searching env c it document in_cas' cas = (st, doc, cas', c1)"
  shows "c_item c1 = c_item c \<and> c_commandContext c1 = c_commandContext c
         \<and> c_history c1 = c_history c @ [Call_get_item_info it]
         \<and> c_responses c1 = c_responses c \<and> c_cas c1 = c_cas c \<and> c_state c1 = c_state c"
  using assms
  by (auto simp add: get_document_for_searching_def Let_def split: option.splits if_splits)

lemma materialise_success_cas:
  assumes "get_document_for_searching env c it document in_cas' cas
             = (PROTOCOL_BINARY_RESPONSE_SUCCESS, doc, cas', c1)"
  shows "\<exists>info. eng_get_item_info env (c_history c) it = Some info \<and> cas' = info_cas info
           \<and> length (info_value info) = 1 \<and> (in_cas' = 0 \<or> in_cas' = info_cas info)"
  using assms
  by (auto simp add: get_document_for_searching_def Let_def split: option.splits if_splits)

lemma subdoc_operate_result:
  assumes "c_commandContext c = Some ctx" and "c_item c = Some it"
  shows "\<exists>b c'. subdoc_operate env traits CMD c path val flags in_cas' = Some (b, c')
           \<and> c_item c' = c_item c
           \<and> (\<exists>ctx'. c_commandContext c' = Some ctx' \<and> out_doc ctx' = out_doc ctx
                 \<and> (b \<longrightarrow> in_doc ctx' \<noteq> None)
                 \<and> (in_doc ctx \<noteq> None \<longrightarrow> ctx' = ctx))
           \<and> (c_history c' = c_history c \<or> c_history c' = c_history c @ [Call_get_item_info it])
           \<and> (b \<longrightarrow> c_responses c' = c_responses c)"
proof (cases "in_doc ctx = None")
  case False
  then obtain d where "in_doc ctx = Some d" by auto
  with assms show ?thesis
    by (intro exI [of _ True] exI [of _ c]) (simp add: subdoc_operate_def)
next
  case True
  obtain st doc cas' c1 where
    g: "get_document_for_searching env c it [] in_cas' 0 = (st, doc, cas', c1)"
    by (cases "get_document_for_searching env c it [] in_cas' 0") auto
  note f = materialise_frame [OF g]
  obtain subdoc_res res where
    o: "op_exec env (subdoc_opcode traits CMD flags) doc
          (if request_has_value (traits CMD) then Some val else None) path = (subdoc_res, res)"
    by (cases "op_exec env (subdoc_opcode traits CMD flags) doc
          (if request_has_value (traits CMD) then Some val else None) path") auto
  show ?thesis
  proof (cases "st = PROTOCOL_BINARY_RESPONSE_SUCCESS")
    case False
    with assms True g f show ?thesis by (auto simp add: subdoc_operate_def)
  next
    case st: True
    show ?thesis
    proof (cases "subdoc_error_status subdoc_res")
      case None
      with assms True g f o st show ?thesis by (auto simp add: subdoc_operate_def)
    next
      case (Some status')
      with assms True g f o st show ?thesis by (auto simp add: subdoc_operate_def)
    qed
  qed
qed

lemma subdoc_operate_records_cas:
  assumes "c_commandContext c = Some ctx" and "in_doc ctx = None"
    and "c_item c = Some it"
    and "subdoc_operate env traits CMD c path val flags in_cas' = Some (True, c')"
  shows "\<exists>info ctx'. eng_get_item_info env (c_history c) it = Some info
           \<and> c_commandContext c' = Some ctx' \<and> in_cas ctx' = info_cas info
           \<and> (in_cas' = 0 \<or> in_cas' = info_cas info)"
proof -
  obtain st doc cas' c1 where
    g: "get_document_for_searching env c it [] in_cas' 0 = (st, doc, cas', c1)"
    by (cases "get_document_for_searching env c it [] in_cas' 0") auto
  obtain subdoc_res res where
    o: "op_exec env (subdoc_opcode traits CMD flags) doc
          (if request_has_value (traits CMD) then Some val else None) path = (subdoc_res, res)"
    by (cases "op_exec env (subdoc_opcode traits CMD flags) doc
          (if request_has_value (traits CMD) then Some val else None) path") auto
  from assms g o have st: "st = PROTOCOL_BINARY_RESPONSE_SUCCESS"
    by (auto simp add: subdoc_operate_def split: if_splits)
  from assms g o st have
    "c_commandContext c' = Some (ctx\<lparr>result := res, in_doc := Some doc, in_cas := cas'\<rparr>)"
    by (auto simp add: subdoc_operate_def split: option.splits)
  moreover from materialise_success_cas [OF g [unfolded st]] obtain info where
    "eng_get_item_info env (c_history c) it = Some info" "cas' = info_cas info"
    "in_cas' = 0 \<or> in_cas' = info_cas info" by blast
  ultimately show ?thesis by auto
qed

text \<open>
  Claim C6 as stated fails on an item whose info has two iovec segments: the segment check
  comes before the CAS check, so a client CAS of 5 against an item CAS of 7 is answered with
  \<^verbatim>\<open>EINTERNAL\<close>, not \<^verbatim>\<open>KEY_EEXISTS\<close>.
\<close>

theorem cas_mismatch_two_segments_counterexample:
  "eng_get_item_info (sample_env (sample_info PROTOCOL_BINARY_DATATYPE_JSON 7 [[0x7b], [0x7d]])
       ENGINE_SUCCESS) (c_history fresh_connection) 10
     = Some (sample_info PROTOCOL_BINARY_DATATYPE_JSON 7 [[0x7b], [0x7d]])
   \<and> (5 :: 64 word) \<noteq> 0
   \<and> (5 :: 64 word) \<noteq> info_cas (sample_info PROTOCOL_BINARY_DATATYPE_JSON 7 [[0x7b], [0x7d]])
   \<and> fst (get_document_for_searching
            (sample_env (sample_info PROTOCOL_BINARY_DATATYPE_JSON 7 [[0x7b], [0x7d]]) ENGINE_SUCCESS)
            fresh_connection 10 [] 5 0)
       = PROTOCOL_BINARY_RESPONSE_EINTERNAL"
  by (simp add: get_document_for_searching_def sample_env_def sample_info_def fresh_connection_def)

text \<open>
  Claim C7 as stated fails on a RAW item whose info has two iovec segments: the segment check
  is made for every datatype, before the datatype is looked at, and the result is
  \<^verbatim>\<open>EINTERNAL\<close>, not \<^verbatim>\<open>SUBDOC_DOC_NOTJSON\<close>.
\<close>

theorem raw_two_segments_counterexample:
  "info_datatype (sample_info PROTOCOL_BINARY_RAW_BYTES 7 [[0x61], [0x62]]) = PROTOCOL_BINARY_RAW_BYTES
   \<and> fst (get_document_for_searching
            (sample_env (sample_info PROTOCOL_BINARY_RAW_BYTES 7 [[0x61], [0x62]]) ENGINE_SUCCESS)
            fresh_connection 10 [] 0 0)
       = PROTOCOL_BINARY_RESPONSE_EINTERNAL
   \<and> PROTOCOL_BINARY_RESPONSE_EINTERNAL \<noteq> PROTOCOL_BINARY_RESPONSE_SUBDOC_DOC_NOTJSON"
  by (simp add: get_document_for_searching_def sample_env_def sample_info_def fresh_connection_def)

text \<open>
  Claim C6, amended. For every fetched item whose info is obtained with exactly one iovec
  segment: if the client supplied a non-zero CAS that differs from the item's CAS,
  materialisation fails with \<^verbatim>\<open>KEY_EEXISTS\<close> before any decompression (the document is not
  assigned and the dynamic buffer is as it was); otherwise the item's CAS is passed back in
  the \<^verbatim>\<open>cas\<close> parameter whatever the datatype, and when \<^verbatim>\<open>subdoc_operate\<close> succeeds it has
  recorded that CAS in the command context, from where the rest of the command takes it.
\<close>

theorem cas_check_before_decompression:
  assumes "eng_get_item_info env (c_history c) it = Some info"
    and "length (info_value info) = 1"
  shows "(in_cas' \<noteq> 0 \<and> in_cas' \<noteq> info_cas info \<longrightarrow>
            get_document_for_searching env c it document in_cas' cas
              = (PROTOCOL_BINARY_RESPONSE_KEY_EEXISTS, document, cas,
                 log_call c (Call_get_item_info it))
            \<and> c_dynamicBuffer (snd (snd (snd
                  (get_document_for_searching env c it document in_cas' cas)))) = c_dynamicBuffer c)
       \<and> (in_cas' = 0 \<or> in_cas' = info_cas info \<longrightarrow>
            fst (snd (snd (get_document_for_searching env c it document in_cas' cas)))
              = info_cas info)
       \<and> (c_commandContext c = Some ctx \<and> in_doc ctx = None \<and> c_item c = Some it
            \<and> subdoc_operate env traits CMD c path val flags in_cas' = Some (True, c')
          \<longrightarrow> (\<exists>ctx'. c_commandContext c' = Some ctx' \<and> in_cas ctx' = info_cas info))"
proof (intro conjI impI)
  assume a: "in_cas' \<noteq> 0 \<and> in_cas' \<noteq> info_cas info"
  with assms show g: "get_document_for_searching env c it document in_cas' cas
              = (PROTOCOL_BINARY_RESPONSE_KEY_EEXISTS, document, cas,
                 log_call c (Call_get_item_info it))"
    by (simp add: materialise_cas_mismatch)
  show "c_dynamicBuffer (snd (snd (snd
          (get_document_for_searching env c it document in_cas' cas)))) = c_dynamicBuffer c"
    unfolding g by simp
next
  assume "in_cas' = 0 \<or> in_cas' = info_cas info"
  with assms show "fst (snd (snd (get_document_for_searching env c it document in_cas' cas)))
              = info_cas info"
    by (rule materialise_cas_out)
next
  assume a: "c_commandContext c = Some ctx \<and> in_doc ctx = None \<and> c_item c = Some it
            \<and> subdoc_operate env traits CMD c path val flags in_cas' = Some (True, c')"
  then have a1: "c_commandContext c = Some ctx" and a2: "in_doc ctx = None"
    and a3: "c_item c = Some it"
    and a4: "subdoc_operate env traits CMD c path val flags in_cas' = Some (True, c')"
    by simp_all
  have "\<exists>info ctx'. eng_get_item_info env (c_history c) it = Some info
           \<and> c_commandContext c' = Some ctx' \<and> in_cas ctx' = info_cas info
           \<and> (in_cas' = 0 \<or> in_cas' = info_cas info)"
    by (rule subdoc_operate_records_cas [OF a1 a2 a3 a4])
  with assms(1) show "\<exists>ctx'. c_commandContext c' = Some ctx' \<and> in_cas ctx' = info_cas info"
    by auto
qed

lemma sample_env_simps [simp]:
  "eng_get (sample_env info r) calls key vbucket = (ENGINE_SUCCESS, 10)"
  "eng_allocate (sample_env info r) calls key nbytes datatype = (ENGINE_SUCCESS, 20)"
  "eng_store (sample_env info r) calls it operation vbucket = (r, 99)"
  "eng_get_item_info (sample_env info r) calls 10 = Some info"
  "eng_get_item_info (sample_env info r) calls 20
     = Some \<lparr>info_cas = 0, info_datatype = PROTOCOL_BINARY_DATATYPE_JSON,
             info_value = [replicate (length (concat (info_value info))) 0]\<rparr>"
  "op_exec (sample_env info r) code doc val path
     = (Subdoc_SUCCESS, \<lparr>newdoc = [take 1 doc, drop 1 doc], matchloc = doc\<rparr>)"
  "add_bin_header_ok (sample_env info r) written = True"
  "snappy_uncompressed_length (sample_env info r) compressed = None"
  by (simp_all add: sample_env_def)

lemma json_info_simps [simp]:
  "info_cas json_info = 7"
  "info_datatype json_info = PROTOCOL_BINARY_DATATYPE_JSON"
  "info_value json_info = [[0x7b, 0x7d]]"
  by (simp_all add: json_info_def sample_info_def)

lemma fetched_connection_simps [simp]:
  "c_item fetched_connection = Some 10"
  "c_commandContext fetched_connection = Some new_SubdocCmdContext"
  "c_history fetched_connection = [Call_get [0x6b] 0 ENGINE_SUCCESS 10]"
  "c_responses fetched_connection = []"
  "c_cas fetched_connection = 0"
  by (simp_all add: fetched_connection_def fresh_connection_def)

lemma sample_operate:
  "subdoc_operate (sample_env json_info r) traits CMD fetched_connection path val flags 0
     = Some (True, (log_call fetched_connection (Call_get_item_info 10))
          \<lparr>c_commandContext := Some (new_SubdocCmdContext
               \<lparr>result := \<lparr>newdoc = [[0x7b], [0x7d]], matchloc = [0x7b, 0x7d]\<rparr>,
                in_doc := Some [0x7b, 0x7d], in_cas := 7\<rparr>)\<rparr>)"
  by (simp add: subdoc_operate_def new_SubdocCmdContext_def get_document_for_searching_def)

theorem cas_check_before_decompression_witness:
  "get_document_for_searching (sample_env json_info ENGINE_SUCCESS) fetched_connection 10 [] 5 0
     = (PROTOCOL_BINARY_RESPONSE_KEY_EEXISTS, [], 0,
        log_call fetched_connection (Call_get_item_info 10))
   \<and> c_dynamicBuffer (snd (snd (snd (get_document_for_searching
         (sample_env json_info ENGINE_SUCCESS) fetched_connection 10 [] 5 0))))
       = c_dynamicBuffer fetched_connection
   \<and> fst (snd (snd (get_document_for_searching (sample_env json_info ENGINE_SUCCESS)
         fetched_connection 10 [] 0 0))) = 7
   \<and> (\<exists>ctx'. c_commandContext (snd (the (subdoc_operate (sample_env json_info ENGINE_SUCCESS)
          sample_traits PROTOCOL_BINARY_CMD_SUBDOC_GET fetched_connection [] [] 0 0)))
            = Some ctx' \<and> in_cas ctx' = 7)"
proof -
  have i: "eng_get_item_info (sample_env json_info ENGINE_SUCCESS) (c_history fetched_connection) 10
             = Some json_info" by simp
  have l: "length (info_value json_info) = 1" by simp
  note t = cas_check_before_decompression [OF i l]
  have a: "get_document_for_searching (sample_env json_info ENGINE_SUCCESS) fetched_connection 10 [] 5 0
     = (PROTOCOL_BINARY_RESPONSE_KEY_EEXISTS, [], 0,
        log_call fetched_connection (Call_get_item_info 10))
   \<and> c_dynamicBuffer (snd (snd (snd (get_document_for_searching
         (sample_env json_info ENGINE_SUCCESS) fetched_connection 10 [] 5 0))))
       = c_dynamicBuffer fetched_connection"
    using t [where in_cas' = 5 and document = "[]" and cas = 0] by simp
  have b: "fst (snd (snd (get_document_for_searching (sample_env json_info ENGINE_SUCCESS)
         fetched_connection 10 [] 0 0))) = 7"
    using t [where in_cas' = 0 and document = "[]" and cas = 0] by simp
  have c: "\<exists>ctx'. c_commandContext (snd (the (subdoc_operate (sample_env json_info ENGINE_SUCCESS)
          sample_traits PROTOCOL_BINARY_CMD_SUBDOC_GET fetched_connection [] [] 0 0)))
            = Some ctx' \<and> in_cas ctx' = 7"
    using t [where in_cas' = 0 and ctx = new_SubdocCmdContext and traits = sample_traits
        and CMD = PROTOCOL_BINARY_CMD_SUBDOC_GET and path = "[]" and val = "[]" and flags = 0
        and c' = "snd (the (subdoc_operate (sample_env json_info ENGINE_SUCCESS)
          sample_traits PROTOCOL_BINARY_CMD_SUBDOC_GET fetched_connection [] [] 0 0))"]
    by (simp add: sample_operate new_SubdocCmdContext_def)
  from a b c show ?thesis by blast
qed

lemma snappy_env_simps [simp]:
  "eng_get_item_info (snappy_env info g) calls 10 = Some info"
  "snappy_uncompressed_length (snappy_env info g) compressed = Some 2"
  "snappy_uncompress (snappy_env info g) compressed = Some [0x7b, 0x7d]"
  "growDynamicBuffer (snappy_env info g) dbuf needed
     = (if g then Some (dbuf\<lparr>dyn_size := dyn_size dbuf + needed\<rparr>) else None)"
  by (simp_all add: snappy_env_def sample_env_def)

lemma sample_info_simps [simp]:
  "info_cas (sample_info d cs segs) = cs"
  "info_datatype (sample_info d cs segs) = d"
  "info_value (sample_info d cs segs) = segs"
  by (simp_all add: sample_info_def)

text \<open>
  Claim C7, amended. Once the item info is obtained and the CAS check has passed,
  materialisation fails with \<^verbatim>\<open>EINTERNAL\<close> whenever the number of iovec segments is not
  one, whatever the datatype. With a single segment it returns, by datatype: for JSON the
  segment itself, the connection's dynamic buffer untouched; for COMPRESSED_JSON the
  document inflated into the dynamic buffer, failing \<^verbatim>\<open>EINTERNAL\<close> when the uncompressed
  length is unknown or the decompression fails and \<^verbatim>\<open>E2BIG\<close> when the buffer cannot grow;
  for RAW or COMPRESSED the failure \<^verbatim>\<open>SUBDOC_DOC_NOTJSON\<close>; for any other datatype the
  failure \<^verbatim>\<open>EINTERNAL\<close>.
\<close>

theorem materialise_by_item_datatype:
  assumes "eng_get_item_info env (c_history c) it = Some info"
    and "in_cas' = 0 \<or> in_cas' = info_cas info"
  shows
   "(length (info_value info) \<noteq> 1 \<longrightarrow>
       fst (get_document_for_searching env c it document in_cas' cas)
         = PROTOCOL_BINARY_RESPONSE_EINTERNAL)
    \<and> (length (info_value info) = 1 \<longrightarrow>
         (info_datatype info = PROTOCOL_BINARY_DATATYPE_JSON \<longrightarrow>
            get_document_for_searching env c it document in_cas' cas
              = (PROTOCOL_BINARY_RESPONSE_SUCCESS, hd (info_value info), info_cas info,
                 log_call c (Call_get_item_info it)))
       \<and> (info_datatype info = PROTOCOL_BINARY_DATATYPE_COMPRESSED_JSON \<longrightarrow>
            (snappy_uncompressed_length env (hd (info_value info)) = None \<longrightarrow>
               fst (get_document_for_searching env c it document in_cas' cas)
                 = PROTOCOL_BINARY_RESPONSE_EINTERNAL)
          \<and> (\<forall>n. snappy_uncompressed_length env (hd (info_value info)) = Some n
                  \<and> growDynamicBuffer env (c_dynamicBuffer c) n = None \<longrightarrow>
               fst (get_document_for_searching env c it document in_cas' cas)
                 = PROTOCOL_BINARY_RESPONSE_E2BIG)
          \<and> (\<forall>n dbuf. snappy_uncompressed_length env (hd (info_value info)) = Some n
                  \<and> growDynamicBuffer env (c_dynamicBuffer c) n = Some dbuf
                  \<and> snappy_uncompress env (hd (info_value info)) = None \<longrightarrow>
               fst (get_document_for_searching env c it document in_cas' cas)
                 = PROTOCOL_BINARY_RESPONSE_EINTERNAL)
          \<and> (\<forall>n dbuf uncompressed. snappy_uncompressed_length env (hd (info_value info)) = Some n
                  \<and> growDynamicBuffer env (c_dynamicBuffer c) n = Some dbuf
                  \<and> snappy_uncompress env (hd (info_value info)) = Some uncompressed \<longrightarrow>
               get_document_for_searching env c it document in_cas' cas
                 = (PROTOCOL_BINARY_RESPONSE_SUCCESS, uncompressed, info_cas info,
                    (log_call c (Call_get_item_info it))
                       \<lparr>c_dynamicBuffer := moveOffset dbuf uncompressed\<rparr>)))
       \<and> (info_datatype info = PROTOCOL_BINARY_RAW_BYTES
            \<or> info_datatype info = PROTOCOL_BINARY_DATATYPE_COMPRESSED \<longrightarrow>
            fst (get_document_for_searching env c it document in_cas' cas)
              = PROTOCOL_BINARY_RESPONSE_SUBDOC_DOC_NOTJSON)
       \<and> (info_datatype info \<noteq> PROTOCOL_BINARY_RAW_BYTES
            \<and> info_datatype info \<noteq> PROTOCOL_BINARY_DATATYPE_JSON
            \<and> info_datatype info \<noteq> PROTOCOL_BINARY_DATATYPE_COMPRESSED
            \<and> info_datatype info \<noteq> PROTOCOL_BINARY_DATATYPE_COMPRESSED_JSON \<longrightarrow>
            fst (get_document_for_searching env c it document in_cas' cas)
              = PROTOCOL_BINARY_RESPONSE_EINTERNAL))"
proof (intro conjI impI allI)
  assume "length (info_value info) \<noteq> 1"
  with assms(1) show "fst (get_document_for_searching env c it document in_cas' cas)
         = PROTOCOL_BINARY_RESPONSE_EINTERNAL"
    by (simp add: materialise_segments)
next
  assume l: "length (info_value info) = 1"
  note m = materialise_by_datatype [OF assms(1) l assms(2), of document cas]
  {
    assume "info_datatype info = PROTOCOL_BINARY_DATATYPE_JSON"
    then show "get_document_for_searching env c it document in_cas' cas
              = (PROTOCOL_BINARY_RESPONSE_SUCCESS, hd (info_value info), info_cas info,
                 log_call c (Call_get_item_info it))"
      by (simp add: m)
  next
    assume "info_datatype info = PROTOCOL_BINARY_DATATYPE_COMPRESSED_JSON"
      and "snappy_uncompressed_length env (hd (info_value info)) = None"
    then show "fst (get_document_for_searching env c it document in_cas' cas)
                 = PROTOCOL_BINARY_RESPONSE_EINTERNAL"
      by (simp add: m)
  next
    fix n
    assume "info_datatype info = PROTOCOL_BINARY_DATATYPE_COMPRESSED_JSON"
      and "snappy_uncompressed_length env (hd (info_value info)) = Some n
                  \<and> growDynamicBuffer env (c_dynamicBuffer c) n = None"
    then show "fst (get_document_for_searching env c it document in_cas' cas)
                 = PROTOCOL_BINARY_RESPONSE_E2BIG"
      by (simp add: m)
  next
    fix n dbuf
    assume "info_datatype info = PROTOCOL_BINARY_DATATYPE_COMPRESSED_JSON"
      and "snappy_uncompressed_length env (hd (info_value info)) = Some n
                  \<and> growDynamicBuffer env (c_dynamicBuffer c) n = Some dbuf
                  \<and> snappy_uncompress env (hd (info_value info)) = None"
    then show "fst (get_document_for_searching env c it document in_cas' cas)
                 = PROTOCOL_BINARY_RESPONSE_EINTERNAL"
      by (simp add: m)
  next
    fix n dbuf uncompressed
    assume "info_datatype info = PROTOCOL_BINARY_DATATYPE_COMPRESSED_JSON"
      and "snappy_uncompressed_length env (hd (info_value info)) = Some n
                  \<and> growDynamicBuffer env (c_dynamicBuffer c) n = Some dbuf
                  \<and> snappy_uncompress env (hd (info_value info)) = Some uncompressed"
    then show "get_document_for_searching env c it document in_cas' cas
                 = (PROTOCOL_BINARY_RESPONSE_SUCCESS, uncompressed, info_cas info,
                    (log_call c (Call_get_item_info it))
                       \<lparr>c_dynamicBuffer := moveOffset dbuf uncompressed\<rparr>)"
      by (simp add: m)
  next
    assume "info_datatype info = PROTOCOL_BINARY_RAW_BYTES
            \<or> info_datatype info = PROTOCOL_BINARY_DATATYPE_COMPRESSED"
    then show "fst (get_document_for_searching env c it document in_cas' cas)
              = PROTOCOL_BINARY_RESPONSE_SUBDOC_DOC_NOTJSON"
      by (auto simp add: m)
  next
    assume "info_datatype info \<noteq> PROTOCOL_BINARY_RAW_BYTES
            \<and> info_datatype info \<noteq> PROTOCOL_BINARY_DATATYPE_JSON
            \<and> info_datatype info \<noteq> PROTOCOL_BINARY_DATATYPE_COMPRESSED
            \<and> info_datatype info \<noteq> PROTOCOL_BINARY_DATATYPE_COMPRESSED_JSON"
    then show "fst (get_document_for_searching env c it document in_cas' cas)
              = PROTOCOL_BINARY_RESPONSE_EINTERNAL"
      by (simp add: m)
  }
qed

theorem materialise_by_item_datatype_witness:
  "get_document_for_searching (sample_env json_info ENGINE_SUCCESS) fetched_connection 10 [] 0 0
     = (PROTOCOL_BINARY_RESPONSE_SUCCESS, [0x7b, 0x7d], 7,
        log_call fetched_connection (Call_get_item_info 10))
   \<and> fst (get_document_for_searching
            (sample_env (sample_info PROTOCOL_BINARY_DATATYPE_JSON 7 [[0x7b], [0x7d]]) ENGINE_SUCCESS)
            fetched_connection 10 [] 0 0) = PROTOCOL_BINARY_RESPONSE_EINTERNAL
   \<and> fst (get_document_for_searching
            (sample_env (sample_info PROTOCOL_BINARY_RAW_BYTES 7 [[0x61]]) ENGINE_SUCCESS)
            fetched_connection 10 [] 0 0) = PROTOCOL_BINARY_RESPONSE_SUBDOC_DOC_NOTJSON
   \<and> fst (get_document_for_searching
            (sample_env (sample_info 9 7 [[0x61]]) ENGINE_SUCCESS)
            fetched_connection 10 [] 0 0) = PROTOCOL_BINARY_RESPONSE_EINTERNAL
   \<and> fst (get_document_for_searching
            (sample_env (sample_info PROTOCOL_BINARY_DATATYPE_COMPRESSED_JSON 7 [[0x02, 0x04]])
               ENGINE_SUCCESS)
            fetched_connection 10 [] 0 0) = PROTOCOL_BINARY_RESPONSE_EINTERNAL
   \<and> fst (get_document_for_searching
            (snappy_env (sample_info PROTOCOL_BINARY_DATATYPE_COMPRESSED_JSON 7 [[0x02, 0x04]]) False)
            fetched_connection 10 [] 0 0) = PROTOCOL_BINARY_RESPONSE_E2BIG
   \<and> get_document_for_searching
         (snappy_env (sample_info PROTOCOL_BINARY_DATATYPE_COMPRESSED_JSON 7 [[0x02, 0x04]]) True)
         fetched_connection 10 [] 0 0
       = (PROTOCOL_BINARY_RESPONSE_SUCCESS, [0x7b, 0x7d], 7,
          (log_call fetched_connection (Call_get_item_info 10))
            \<lparr>c_dynamicBuffer := moveOffset
               ((c_dynamicBuffer fetched_connection)
                  \<lparr>dyn_size := dyn_size (c_dynamicBuffer fetched_connection) + 2\<rparr>)
               [0x7b, 0x7d]\<rparr>)"
proof -
  have a: "get_document_for_searching (sample_env json_info ENGINE_SUCCESS) fetched_connection 10 [] 0 0
     = (PROTOCOL_BINARY_RESPONSE_SUCCESS, [0x7b, 0x7d], 7,
        log_call fetched_connection (Call_get_item_info 10))"
    using materialise_by_item_datatype [of "sample_env json_info ENGINE_SUCCESS"
        fetched_connection 10 json_info 0 "[]" 0]
    by simp
  have b: "fst (get_document_for_searching
            (sample_env (sample_info PROTOCOL_BINARY_DATATYPE_JSON 7 [[0x7b], [0x7d]]) ENGINE_SUCCESS)
            fetched_connection 10 [] 0 0) = PROTOCOL_BINARY_RESPONSE_EINTERNAL"
    using materialise_by_item_datatype [of
        "sample_env (sample_info PROTOCOL_BINARY_DATATYPE_JSON 7 [[0x7b], [0x7d]]) ENGINE_SUCCESS"
        fetched_connection 10 "sample_info PROTOCOL_BINARY_DATATYPE_JSON 7 [[0x7b], [0x7d]]" 0 "[]" 0]
    by simp
  have c: "fst (get_document_for_searching
            (sample_env (sample_info PROTOCOL_BINARY_RAW_BYTES 7 [[0x61]]) ENGINE_SUCCESS)
            fetched_connection 10 [] 0 0) = PROTOCOL_BINARY_RESPONSE_SUBDOC_DOC_NOTJSON"
    using materialise_by_item_datatype [of
        "sample_env (sample_info PROTOCOL_BINARY_RAW_BYTES 7 [[0x61]]) ENGINE_SUCCESS"
        fetched_connection 10 "sample_info PROTOCOL_BINARY_RAW_BYTES 7 [[0x61]]" 0 "[]" 0]
    by simp
  have d: "fst (get_document_for_searching
            (sample_env (sample_info 9 7 [[0x61]]) ENGINE_SUCCESS)
            fetched_connection 10 [] 0 0) = PROTOCOL_BINARY_RESPONSE_EINTERNAL"
    using materialise_by_item_datatype [of
        "sample_env (sample_info 9 7 [[0x61]]) ENGINE_SUCCESS"
        fetched_connection 10 "sample_info 9 7 [[0x61]]" 0 "[]" 0]
    by simp
  have e: "fst (get_document_for_searching
            (sample_env (sample_info PROTOCOL_BINARY_DATATYPE_COMPRESSED_JSON 7 [[0x02, 0x04]])
               ENGINE_SUCCESS)
            fetched_connection 10 [] 0 0) = PROTOCOL_BINARY_RESPONSE_EINTERNAL"
    using materialise_by_item_datatype [of
        "sample_env (sample_info PROTOCOL_BINARY_DATATYPE_COMPRESSED_JSON 7 [[0x02, 0x04]])
               ENGINE_SUCCESS"
        fetched_connection 10 "sample_info PROTOCOL_BINARY_DATATYPE_COMPRESSED_JSON 7 [[0x02, 0x04]]"
        0 "[]" 0]
    by simp
  have f: "fst (get_document_for_searching
            (snappy_env (sample_info PROTOCOL_BINARY_DATATYPE_COMPRESSED_JSON 7 [[0x02, 0x04]]) False)
            fetched_connection 10 [] 0 0) = PROTOCOL_BINARY_RESPONSE_E2BIG"
    using materialise_by_item_datatype [of
        "snappy_env (sample_info PROTOCOL_BINARY_DATATYPE_COMPRESSED_JSON 7 [[0x02, 0x04]]) False"
        fetched_connection 10 "sample_info PROTOCOL_BINARY_DATATYPE_COMPRESSED_JSON 7 [[0x02, 0x04]]"
        0 "[]" 0]
    by simp
  have g: "get_document_for_searching
         (snappy_env (sample_info PROTOCOL_BINARY_DATATYPE_COMPRESSED_JSON 7 [[0x02, 0x04]]) True)
         fetched_connection 10 [] 0 0
       = (PROTOCOL_BINARY_RESPONSE_SUCCESS, [0x7b, 0x7d], 7,
          (log_call fetched_connection (Call_get_item_info 10))
            \<lparr>c_dynamicBuffer := moveOffset
               ((c_dynamicBuffer fetched_connection)
                  \<lparr>dyn_size := dyn_size (c_dynamicBuffer fetched_connection) + 2\<rparr>)
               [0x7b, 0x7d]\<rparr>)"
    using materialise_by_item_datatype [of
        "snappy_env (sample_info PROTOCOL_BINARY_DATATYPE_COMPRESSED_JSON 7 [[0x02, 0x04]]) True"
        fetched_connection 10 "sample_info PROTOCOL_BINARY_DATATYPE_COMPRESSED_JSON 7 [[0x02, 0x04]]"
        0 "[]" 0]
    by simp
  from a b c d e f g show ?thesis by blast
qed

lemma htonll_stored_bytes: "host_bytes le 8 (unat (htonll le w)) = be_bytes 8 (unat w)"
proof (cases le)
  case False
  then show ?thesis by (simp add: host_bytes_def htonll_def ntohll_def)
next
  case True
  let ?v = "be_val (rev (be_bytes 8 (unat w)))"
  have "?v < 256 ^ 8" using be_val_bound [of "rev (be_bytes 8 (unat w))"] by simp
  then have u: "unat (of_nat ?v :: 64 word) = ?v" by (simp add: unat_of_nat)
  have "be_bytes 8 ?v = rev (be_bytes 8 (unat w))"
    by (rule be_bytes_be_val) simp
  with u True show ?thesis
    by (simp add: host_bytes_def htonll_def ntohll_def bswap_def)
qed

lemma be_val_cas_bytes: "be_val (be_bytes 8 (unat (w :: 64 word))) = unat w"
proof -
  have "unat w < 2 ^ 64" using unsigned_less [of w, where 'a = nat] by simp
  then have "unat w < 256 ^ 8" by simp
  then show ?thesis by (rule be_val_be_bytes)
qed

text \<open>
  Claim C10. When the response header can be added, \<^verbatim>\<open>subdoc_response\<close> emits one response
  with status success, extras length 0, key length 0 and datatype RAW_BYTES (not JSON); its
  CAS field holds the eight bytes of the connection's current CAS in network byte order, on
  either host; and the match location is appended as the value exactly when the traits say
  \<^verbatim>\<open>response_has_value\<close>, the body length being its length (0 otherwise). When the header
  cannot be added nothing is emitted and the connection is closed.
\<close>

theorem subdoc_response_format:
  assumes "c_commandContext c = Some ctx"
  shows "(add_bin_header_ok env (c_responses c) \<longrightarrow>
           (\<exists>hdr iov.
              subdoc_response env le traits CMD c
                = Some (c\<lparr>c_responses := c_responses c @ [Subdoc_response hdr iov],
                          c_state := conn_mwrite\<rparr>)
              \<and> rsp_status hdr = PROTOCOL_BINARY_RESPONSE_SUCCESS
              \<and> rsp_extlen hdr = 0 \<and> rsp_keylen hdr = 0
              \<and> rsp_datatype hdr = PROTOCOL_BINARY_RAW_BYTES
              \<and> rsp_datatype hdr \<noteq> PROTOCOL_BINARY_DATATYPE_JSON
              \<and> rsp_cas hdr = be_bytes 8 (unat (c_cas c))
              \<and> be_val (rsp_cas hdr) = unat (c_cas c)
              \<and> (response_has_value (traits CMD) \<longrightarrow>
                    iov = [matchloc (result ctx)]
                    \<and> rsp_bodylen hdr = of_nat (length (matchloc (result ctx))))
              \<and> (\<not> response_has_value (traits CMD) \<longrightarrow> iov = [] \<and> rsp_bodylen hdr = 0)))
       \<and> (\<not> add_bin_header_ok env (c_responses c) \<longrightarrow>
            subdoc_response env le traits CMD c = Some (c\<lparr>c_state := conn_closing\<rparr>))"
proof (intro conjI impI)
  let ?hdr = "\<lparr>rsp_status = PROTOCOL_BINARY_RESPONSE_SUCCESS, rsp_extlen = 0, rsp_keylen = 0,
               rsp_bodylen = of_nat (if response_has_value (traits CMD)
                                     then length (matchloc (result ctx)) else 0),
               rsp_datatype = PROTOCOL_BINARY_RAW_BYTES,
               rsp_cas = be_bytes 8 (unat (c_cas c))\<rparr>"
  let ?iov = "if response_has_value (traits CMD) then [matchloc (result ctx)] else []"
  assume ok: "add_bin_header_ok env (c_responses c)"
  have r: "subdoc_response env le traits CMD c
             = Some (c\<lparr>c_responses := c_responses c @ [Subdoc_response ?hdr ?iov],
                       c_state := conn_mwrite\<rparr>)"
    using assms ok by (simp add: subdoc_response_def htonll_stored_bytes)
  show "\<exists>hdr iov.
              subdoc_response env le traits CMD c
                = Some (c\<lparr>c_responses := c_responses c @ [Subdoc_response hdr iov],
                          c_state := conn_mwrite\<rparr>)
              \<and> rsp_status hdr = PROTOCOL_BINARY_RESPONSE_SUCCESS
              \<and> rsp_extlen hdr = 0 \<and> rsp_keylen hdr = 0
              \<and> rsp_datatype hdr = PROTOCOL_BINARY_RAW_BYTES
              \<and> rsp_datatype hdr \<noteq> PROTOCOL_BINARY_DATATYPE_JSON
              \<and> rsp_cas hdr = be_bytes 8 (unat (c_cas c))
              \<and> be_val (rsp_cas hdr) = unat (c_cas c)
              \<and> (response_has_value (traits CMD) \<longrightarrow>
                    iov = [matchloc (result ctx)]
                    \<and> rsp_bodylen hdr = of_nat (length (matchloc (result ctx))))
              \<and> (\<not> response_has_value (traits CMD) \<longrightarrow> iov = [] \<and> rsp_bodylen hdr = 0)"
    by (intro exI [of _ ?hdr] exI [of _ ?iov]) (simp add: r be_val_cas_bytes)
next
  assume "\<not> add_bin_header_ok env (c_responses c)"
  with assms show "subdoc_response env le traits CMD c = Some (c\<lparr>c_state := conn_closing\<rparr>)"
    by (simp add: subdoc_response_def)
qed

lemma operated_connection_simps [simp]:
  "c_item operated_connection = Some 10"
  "c_commandContext operated_connection = Some (new_SubdocCmdContext
           \<lparr>result := \<lparr>newdoc = [[0x7b], [0x7d]], matchloc = [0x7b, 0x7d]\<rparr>,
            in_doc := Some [0x7b, 0x7d], in_cas := 7\<rparr>)"
  "c_history operated_connection = [Call_get [0x6b] 0 ENGINE_SUCCESS 10, Call_get_item_info 10]"
  "c_responses operated_connection = []"
  "c_cas operated_connection = 0"
  by (simp_all add: operated_connection_def fetched_connection_def fresh_connection_def)

lemma new_context_simps [simp]:
  "in_doc new_SubdocCmdContext = None"
  "in_cas new_SubdocCmdContext = 0"
  "out_doc new_SubdocCmdContext = None"
  "result new_SubdocCmdContext = \<lparr>newdoc = [], matchloc = []\<rparr>"
  by (simp_all add: new_SubdocCmdContext_def)

theorem subdoc_response_format_witness:
  "(\<exists>hdr iov.
      subdoc_response (sample_env json_info ENGINE_SUCCESS) True sample_traits
          PROTOCOL_BINARY_CMD_SUBDOC_GET (operated_connection\<lparr>c_cas := 7\<rparr>)
        = Some ((operated_connection\<lparr>c_cas := 7\<rparr>)
                  \<lparr>c_responses := c_responses (operated_connection\<lparr>c_cas := 7\<rparr>) @ [Subdoc_response hdr iov],
                    c_state := conn_mwrite\<rparr>)
      \<and> rsp_extlen hdr = 0 \<and> rsp_keylen hdr = 0 \<and> rsp_datatype hdr = PROTOCOL_BINARY_RAW_BYTES
      \<and> rsp_cas hdr = [0, 0, 0, 0, 0, 0, 0, 7] \<and> rsp_bodylen hdr = 2 \<and> iov = [[0x7b, 0x7d]])
   \<and> (\<exists>hdr iov.
      subdoc_response (sample_env json_info ENGINE_SUCCESS) True sample_traits
          PROTOCOL_BINARY_CMD_SUBDOC_EXISTS (operated_connection\<lparr>c_cas := 7\<rparr>)
        = Some ((operated_connection\<lparr>c_cas := 7\<rparr>)
                  \<lparr>c_responses := c_responses (operated_connection\<lparr>c_cas := 7\<rparr>) @ [Subdoc_response hdr iov],
                    c_state := conn_mwrite\<rparr>)
      \<and> rsp_extlen hdr = 0 \<and> rsp_keylen hdr = 0 \<and> rsp_datatype hdr = PROTOCOL_BINARY_RAW_BYTES
      \<and> rsp_cas hdr = [0, 0, 0, 0, 0, 0, 0, 7] \<and> rsp_bodylen hdr = 0 \<and> iov = [])
   \<and> subdoc_response full_buffer_env True sample_traits
       PROTOCOL_BINARY_CMD_SUBDOC_GET (operated_connection\<lparr>c_cas := 7\<rparr>)
     = Some ((operated_connection\<lparr>c_cas := 7\<rparr>)\<lparr>c_state := conn_closing\<rparr>)"
proof -
  have ctx: "c_commandContext (operated_connection\<lparr>c_cas := 7\<rparr>) = Some (new_SubdocCmdContext
           \<lparr>result := \<lparr>newdoc = [[0x7b], [0x7d]], matchloc = [0x7b, 0x7d]\<rparr>,
            in_doc := Some [0x7b, 0x7d], in_cas := 7\<rparr>)" by simp
  note t = subdoc_response_format [OF ctx]
  have cas: "be_bytes 8 7 = [0, 0, 0, 0, 0, 0, 0, 7]"
    by (simp add: be_bytes_8)
  obtain hdr where ha:
      "subdoc_response (sample_env json_info ENGINE_SUCCESS) True sample_traits
          PROTOCOL_BINARY_CMD_SUBDOC_GET (operated_connection\<lparr>c_cas := 7\<rparr>)
        = Some ((operated_connection\<lparr>c_cas := 7\<rparr>)
                  \<lparr>c_responses := c_responses (operated_connection\<lparr>c_cas := 7\<rparr>)
                       @ [Subdoc_response hdr [[0x7b, 0x7d]]],
                    c_state := conn_mwrite\<rparr>)"
      "rsp_extlen hdr = 0" "rsp_keylen hdr = 0" "rsp_datatype hdr = PROTOCOL_BINARY_RAW_BYTES"
      "rsp_cas hdr = [0, 0, 0, 0, 0, 0, 0, 7]" "rsp_bodylen hdr = 2"
    using t [of "sample_env json_info ENGINE_SUCCESS" True sample_traits PROTOCOL_BINARY_CMD_SUBDOC_GET]
    by (auto simp add: sample_traits_def cas)
  have a: "\<exists>hdr iov.
      subdoc_response (sample_env json_info ENGINE_SUCCESS) True sample_traits
          PROTOCOL_BINARY_CMD_SUBDOC_GET (operated_connection\<lparr>c_cas := 7\<rparr>)
        = Some ((operated_connection\<lparr>c_cas := 7\<rparr>)
                  \<lparr>c_responses := c_responses (operated_connection\<lparr>c_cas := 7\<rparr>) @ [Subdoc_response hdr iov],
                    c_state := conn_mwrite\<rparr>)
      \<and> rsp_extlen hdr = 0 \<and> rsp_keylen hdr = 0 \<and> rsp_datatype hdr = PROTOCOL_BINARY_RAW_BYTES
      \<and> rsp_cas hdr = [0, 0, 0, 0, 0, 0, 0, 7] \<and> rsp_bodylen hdr = 2 \<and> iov = [[0x7b, 0x7d]]"
    by (intro exI [of _ hdr] exI [of _ "[[0x7b, 0x7d]]"]) (simp only: ha simp_thms)
  obtain hdr' where hb:
      "subdoc_response (sample_env json_info ENGINE_SUCCESS) True sample_traits
          PROTOCOL_BINARY_CMD_SUBDOC_EXISTS (operated_connection\<lparr>c_cas := 7\<rparr>)
        = Some ((operated_connection\<lparr>c_cas := 7\<rparr>)
                  \<lparr>c_responses := c_responses (operated_connection\<lparr>c_cas := 7\<rparr>) @ [Subdoc_response hdr' []],
                    c_state := conn_mwrite\<rparr>)"
      "rsp_extlen hdr' = 0" "rsp_keylen hdr' = 0" "rsp_datatype hdr' = PROTOCOL_BINARY_RAW_BYTES"
      "rsp_cas hdr' = [0, 0, 0, 0, 0, 0, 0, 7]" "rsp_bodylen hdr' = 0"
    using t [of "sample_env json_info ENGINE_SUCCESS" True sample_traits
        PROTOCOL_BINARY_CMD_SUBDOC_EXISTS]
    by (auto simp add: sample_traits_def cas)
  have b: "\<exists>hdr iov.
      subdoc_response (sample_env json_info ENGINE_SUCCESS) True sample_traits
          PROTOCOL_BINARY_CMD_SUBDOC_EXISTS (operated_connection\<lparr>c_cas := 7\<rparr>)
        = Some ((operated_connection\<lparr>c_cas := 7\<rparr>)
                  \<lparr>c_responses := c_responses (operated_connection\<lparr>c_cas := 7\<rparr>) @ [Subdoc_response hdr iov],
                    c_state := conn_mwrite\<rparr>)
      \<and> rsp_extlen hdr = 0 \<and> rsp_keylen hdr = 0 \<and> rsp_datatype hdr = PROTOCOL_BINARY_RAW_BYTES
      \<and> rsp_cas hdr = [0, 0, 0, 0, 0, 0, 0, 7] \<and> rsp_bodylen hdr = 0 \<and> iov = []"
    by (intro exI [of _ hdr'] exI [of _ "[]"]) (simp only: hb simp_thms)
  have c: "subdoc_response full_buffer_env True sample_traits
       PROTOCOL_BINARY_CMD_SUBDOC_GET (operated_connection\<lparr>c_cas := 7\<rparr>)
     = Some ((operated_connection\<lparr>c_cas := 7\<rparr>)\<lparr>c_state := conn_closing\<rparr>)"
    using t [of full_buffer_env True sample_traits PROTOCOL_BINARY_CMD_SUBDOC_GET]
    by (simp add: full_buffer_env_def)
  from a b c show ?thesis by blast
qed

lemma new_doc_len_concat: "new_doc_len frags = length (concat frags)"
  by (induction frags) simp_all

lemma new_doc_len_sum: "new_doc_len frags = sum_list (map length frags)"
  by (induction frags) simp_all

lemma length_memcpy: "at + length src \<le> length buf \<Longrightarrow> length (memcpy buf at src) = length buf"
  by (simp add: memcpy_def)

lemma take_memcpy:
  "at + length src \<le> length buf \<Longrightarrow> take (at + length src) (memcpy buf at src) = take at buf @ src"
  by (simp add: memcpy_def)

lemma copy_newdoc_concat:
  "at + new_doc_len frags \<le> length buf \<Longrightarrow>
     copy_newdoc buf at frags = take at buf @ concat frags @ drop (at + new_doc_len frags) buf"
proof (induction frags arbitrary: buf at)
  case Nil
  then show ?case by simp
next
  case (Cons loc locs)
  have le: "at + length loc \<le> length buf" using Cons.prems by simp
  have "(at + length loc) + new_doc_len locs \<le> length (memcpy buf at loc)"
    using Cons.prems le by (simp add: length_memcpy)
  from Cons.IH [OF this] have
    "copy_newdoc (memcpy buf at loc) (at + length loc) locs
       = take (at + length loc) (memcpy buf at loc) @ concat locs
           @ drop (at + length loc + new_doc_len locs) (memcpy buf at loc)" .
  moreover have "drop (at + length loc + new_doc_len locs) (memcpy buf at loc)
                   = drop (at + length loc + new_doc_len locs) buf"
    using le by (simp add: memcpy_def ac_simps)
  ultimately show ?case using le by (simp add: take_memcpy add.assoc)
qed

lemma copy_newdoc_exact:
  "length buf = new_doc_len frags \<Longrightarrow> copy_newdoc buf 0 frags = concat frags"
  using copy_newdoc_concat [of 0 frags buf] by simp

lemma subdoc_store_result:
  "eng_store env (c_history c) doc OPERATION_REPLACE vbucket = (ret, new_cas) \<Longrightarrow>
   \<exists>c'. subdoc_store env c doc vbucket = (ret, c')
        \<and> c_history c' = c_history c @ [Call_store doc OPERATION_REPLACE vbucket ret new_cas]
        \<and> c_item c' = c_item c \<and> c_commandContext c' = c_commandContext c
        \<and> (ret = ENGINE_SUCCESS \<longrightarrow> c_cas c' = new_cas \<and> c_responses c' = c_responses c)
        \<and> (ret = ENGINE_KEY_EEXISTS \<longrightarrow> c_responses c' = c_responses c)"
  by (simp add: subdoc_store_def Let_def)

lemma subdoc_allocate_success:
  assumes "eng_allocate env (c_history c) key (new_doc_len (newdoc (result ctx)))
             PROTOCOL_BINARY_DATATYPE_JSON = (ENGINE_SUCCESS, new_doc)"
    and "eng_get_item_info env
           (c_history c @ [Call_allocate key (new_doc_len (newdoc (result ctx)))
                             PROTOCOL_BINARY_DATATYPE_JSON ENGINE_SUCCESS new_doc,
                           Call_item_set_cas new_doc (in_cas ctx)]) new_doc = Some new_doc_info"
    and "info_value new_doc_info = buf # segs"
    and "length buf = new_doc_len (newdoc (result ctx))"
  shows "\<exists>c1. subdoc_allocate env c ctx ENGINE_SUCCESS key = Inr (new_doc, c1)
           \<and> c_history c1 = c_history c @
                [Call_allocate key (new_doc_len (newdoc (result ctx)))
                   PROTOCOL_BINARY_DATATYPE_JSON ENGINE_SUCCESS new_doc,
                 Call_item_set_cas new_doc (in_cas ctx),
                 Call_get_item_info new_doc,
                 Write_value new_doc (concat (newdoc (result ctx)))]
           \<and> c_commandContext c1 = Some (ctx\<lparr>out_doc := Some new_doc\<rparr>)
           \<and> c_item c1 = c_item c \<and> c_responses c1 = c_responses c"
  using assms by (simp add: subdoc_allocate_def Let_def copy_newdoc_exact)

text \<open>
  Claim C2. For a mutator that reaches the update step with no output item yet, when the
  engine allocates the item and gives its info, \<^verbatim>\<open>subdoc_update\<close> makes exactly these calls,
  in this order: allocate with the sum of the fragment lengths and datatype JSON; set the new
  item's CAS to the context's input CAS; get the item info; copy the fragments, so that the
  value buffer holds their concatenation in order; store the item with \<^verbatim>\<open>OPERATION_REPLACE\<close>
  under the vbucket. The input CAS in the context is the CAS of the item info seen when the
  document was fetched. On a successful store the connection's CAS is the one the engine
  returned.
\<close>

theorem subdoc_update_stores_new_document:
  assumes "c_commandContext c = Some ctx" and "is_mutator (traits CMD)" and "out_doc ctx = None"
    and "eng_allocate env (c_history c) key (new_doc_len (newdoc (result ctx)))
             PROTOCOL_BINARY_DATATYPE_JSON = (ENGINE_SUCCESS, new_doc)"
    and "eng_get_item_info env
           (c_history c @ [Call_allocate key (new_doc_len (newdoc (result ctx)))
                             PROTOCOL_BINARY_DATATYPE_JSON ENGINE_SUCCESS new_doc,
                           Call_item_set_cas new_doc (in_cas ctx)]) new_doc = Some new_doc_info"
    and "info_value new_doc_info = buf # segs"
    and "length buf = new_doc_len (newdoc (result ctx))"
  shows "(\<exists>ret new_cas c'.
            subdoc_update env traits CMD c ENGINE_SUCCESS key vbucket = Some (ret, c')
            \<and> c_history c' = c_history c @
                 [Call_allocate key (sum_list (map length (newdoc (result ctx))))
                    PROTOCOL_BINARY_DATATYPE_JSON ENGINE_SUCCESS new_doc,
                  Call_item_set_cas new_doc (in_cas ctx),
                  Call_get_item_info new_doc,
                  Write_value new_doc (concat (newdoc (result ctx))),
                  Call_store new_doc OPERATION_REPLACE vbucket ret new_cas]
            \<and> c_commandContext c' = Some (ctx\<lparr>out_doc := Some new_doc\<rparr>)
            \<and> (ret = ENGINE_SUCCESS \<longrightarrow> c_cas c' = new_cas))
       \<and> (c_commandContext c0 = Some ctx0 \<and> in_doc ctx0 = None \<and> c_item c0 = Some it
            \<and> eng_get_item_info env (c_history c0) it = Some info
            \<and> subdoc_operate env traits CMD c0 path val flags in_cas' = Some (True, c)
          \<longrightarrow> in_cas ctx = info_cas info)"
proof (intro conjI impI)
  from subdoc_allocate_success [OF assms(4-7)] obtain c1 where
    a: "subdoc_allocate env c ctx ENGINE_SUCCESS key = Inr (new_doc, c1)"
    and h1: "c_history c1 = c_history c @
                [Call_allocate key (new_doc_len (newdoc (result ctx)))
                   PROTOCOL_BINARY_DATATYPE_JSON ENGINE_SUCCESS new_doc,
                 Call_item_set_cas new_doc (in_cas ctx),
                 Call_get_item_info new_doc,
                 Write_value new_doc (concat (newdoc (result ctx)))]"
    and x1: "c_commandContext c1 = Some (ctx\<lparr>out_doc := Some new_doc\<rparr>)"
    by blast
  obtain ret new_cas where
    s: "eng_store env (c_history c1) new_doc OPERATION_REPLACE vbucket = (ret, new_cas)"
    by (cases "eng_store env (c_history c1) new_doc OPERATION_REPLACE vbucket") auto
  from subdoc_store_result [OF s] obtain c' where
    st: "subdoc_store env c1 new_doc vbucket = (ret, c')"
    and h2: "c_history c' = c_history c1 @ [Call_store new_doc OPERATION_REPLACE vbucket ret new_cas]"
    and x2: "c_commandContext c' = c_commandContext c1"
    and cs: "ret = ENGINE_SUCCESS \<longrightarrow> c_cas c' = new_cas"
    by blast
  have u: "subdoc_update env traits CMD c ENGINE_SUCCESS key vbucket = Some (ret, c')"
    using assms(1-3) a st by (simp add: subdoc_update_def)
  show "\<exists>ret new_cas c'.
            subdoc_update env traits CMD c ENGINE_SUCCESS key vbucket = Some (ret, c')
            \<and> c_history c' = c_history c @
                 [Call_allocate key (sum_list (map length (newdoc (result ctx))))
                    PROTOCOL_BINARY_DATATYPE_JSON ENGINE_SUCCESS new_doc,
                  Call_item_set_cas new_doc (in_cas ctx),
                  Call_get_item_info new_doc,
                  Write_value new_doc (concat (newdoc (result ctx))),
                  Call_store new_doc OPERATION_REPLACE vbucket ret new_cas]
            \<and> c_commandContext c' = Some (ctx\<lparr>out_doc := Some new_doc\<rparr>)
            \<and> (ret = ENGINE_SUCCESS \<longrightarrow> c_cas c' = new_cas)"
    using u h1 h2 x1 x2 cs
    by (intro exI [of _ ret] exI [of _ new_cas] exI [of _ c']) (simp add: new_doc_len_sum)
next
  assume a: "c_commandContext c0 = Some ctx0 \<and> in_doc ctx0 = None \<and> c_item c0 = Some it
            \<and> eng_get_item_info env (c_history c0) it = Some info
            \<and> subdoc_operate env traits CMD c0 path val flags in_cas' = Some (True, c)"
  then have a1: "c_commandContext c0 = Some ctx0" and a2: "in_doc ctx0 = None"
    and a3: "c_item c0 = Some it" and a4: "eng_get_item_info env (c_history c0) it = Some info"
    and a5: "subdoc_operate env traits CMD c0 path val flags in_cas' = Some (True, c)"
    by simp_all
  from subdoc_operate_records_cas [OF a1 a2 a3 a5] a4 assms(1)
  show "in_cas ctx = info_cas info" by auto
qed

lemma sample_operate_connection:
  "subdoc_operate (sample_env json_info r) traits CMD fetched_connection path val flags 0
     = Some (True, operated_connection)"
  unfolding sample_operate
  by (simp add: operated_connection_def fetched_connection_def log_call_def)

theorem subdoc_update_stores_new_document_witness:
  "(\<exists>ret new_cas c'.
      subdoc_update (sample_env json_info ENGINE_SUCCESS) sample_traits
          PROTOCOL_BINARY_CMD_SUBDOC_DICT_ADD operated_connection ENGINE_SUCCESS [0x6b] 0
        = Some (ret, c')
      \<and> c_history c' =
           [Call_get [0x6b] 0 ENGINE_SUCCESS 10, Call_get_item_info 10,
            Call_allocate [0x6b] 2 PROTOCOL_BINARY_DATATYPE_JSON ENGINE_SUCCESS 20,
            Call_item_set_cas 20 7, Call_get_item_info 20, Write_value 20 [0x7b, 0x7d],
            Call_store 20 OPERATION_REPLACE 0 ret new_cas])
   \<and> in_cas (new_SubdocCmdContext
         \<lparr>result := \<lparr>newdoc = [[0x7b], [0x7d]], matchloc = [0x7b, 0x7d]\<rparr>,
          in_doc := Some [0x7b, 0x7d], in_cas := 7\<rparr>) = info_cas json_info"
proof -
  let ?env = "sample_env json_info ENGINE_SUCCESS"
  let ?ctx = "new_SubdocCmdContext
         \<lparr>result := \<lparr>newdoc = [[0x7b], [0x7d]], matchloc = [0x7b, 0x7d]\<rparr>,
          in_doc := Some [0x7b, 0x7d], in_cas := 7\<rparr>"
  let ?info = "\<lparr>info_cas = 0, info_datatype = PROTOCOL_BINARY_DATATYPE_JSON,
                 info_value = [replicate (length (concat (info_value json_info))) 0]\<rparr>"
  have 1: "c_commandContext operated_connection = Some ?ctx" by simp
  have 2: "is_mutator (sample_traits PROTOCOL_BINARY_CMD_SUBDOC_DICT_ADD)"
    by (simp add: sample_traits_def)
  have 3: "out_doc ?ctx = None" by simp
  have 4: "eng_allocate ?env (c_history operated_connection) [0x6b]
             (new_doc_len (newdoc (result ?ctx))) PROTOCOL_BINARY_DATATYPE_JSON = (ENGINE_SUCCESS, 20)"
    by simp
  have 5: "eng_get_item_info ?env
             (c_history operated_connection
                @ [Call_allocate [0x6b] (new_doc_len (newdoc (result ?ctx)))
                     PROTOCOL_BINARY_DATATYPE_JSON ENGINE_SUCCESS 20,
                   Call_item_set_cas 20 (in_cas ?ctx)]) 20 = Some ?info"
    by simp
  have 6: "info_value ?info = [0, 0] # []" by (simp add: numeral_2_eq_2)
  have 7: "length [0 :: byte, 0] = new_doc_len (newdoc (result ?ctx))" by simp
  have 8: "c_commandContext fetched_connection = Some new_SubdocCmdContext
            \<and> in_doc new_SubdocCmdContext = None \<and> c_item fetched_connection = Some 10
            \<and> eng_get_item_info ?env (c_history fetched_connection) 10 = Some json_info
            \<and> subdoc_operate ?env sample_traits PROTOCOL_BINARY_CMD_SUBDOC_DICT_ADD
                 fetched_connection [] [] 0 0 = Some (True, operated_connection)"
    by (simp add: sample_operate_connection)
  note t = subdoc_update_stores_new_document [where c = operated_connection and ctx = ?ctx
        and traits = sample_traits and CMD = PROTOCOL_BINARY_CMD_SUBDOC_DICT_ADD and env = ?env
        and key = "[0x6b]" and new_doc = 20 and new_doc_info = ?info and buf = "[0, 0]"
        and segs = "[]" and vbucket = 0 and ?c0.0 = fetched_connection
        and ?ctx0.0 = new_SubdocCmdContext and it = 10 and info = json_info and path = "[]"
        and val = "[]" and flags = 0 and in_cas' = 0, OF 1 2 3 4 5 6 7]
  from t 8 have b: "in_cas ?ctx = info_cas json_info" by blast
  from t obtain ret new_cas c' where
    "subdoc_update ?env sample_traits PROTOCOL_BINARY_CMD_SUBDOC_DICT_ADD operated_connection
        ENGINE_SUCCESS [0x6b] 0 = Some (ret, c')"
    "c_history c' = c_history operated_connection @
                 [Call_allocate [0x6b] (sum_list (map length (newdoc (result ?ctx))))
                    PROTOCOL_BINARY_DATATYPE_JSON ENGINE_SUCCESS 20,
                  Call_item_set_cas 20 (in_cas ?ctx),
                  Call_get_item_info 20,
                  Write_value 20 (concat (newdoc (result ?ctx))),
                  Call_store 20 OPERATION_REPLACE 0 ret new_cas]"
    by blast
  then have a: "\<exists>ret new_cas c'.
      subdoc_update ?env sample_traits
          PROTOCOL_BINARY_CMD_SUBDOC_DICT_ADD operated_connection ENGINE_SUCCESS [0x6b] 0
        = Some (ret, c')
      \<and> c_history c' =
           [Call_get [0x6b] 0 ENGINE_SUCCESS 10, Call_get_item_info 10,
            Call_allocate [0x6b] 2 PROTOCOL_BINARY_DATATYPE_JSON ENGINE_SUCCESS 20,
            Call_item_set_cas 20 7, Call_get_item_info 20, Write_value 20 [0x7b, 0x7d],
            Call_store 20 OPERATION_REPLACE 0 ret new_cas]"
    by (intro exI [of _ ret] exI [of _ new_cas] exI [of _ c']) simp
  from a b show ?thesis by blast
qed

lemma subdoc_fetch_fresh:
  assumes "c_item c = None" and "c_commandContext c = None"
    and "eng_get env (c_history c) key vbucket = (r, it)"
  shows "\<exists>b c1. subdoc_fetch env c ENGINE_SUCCESS key vbucket = Some (b, c1)
           \<and> c_history c1 = c_history c @ [Call_get key vbucket r it]
           \<and> (b \<longrightarrow> r = ENGINE_SUCCESS \<and> c_item c1 = Some it
                    \<and> c_commandContext c1 = Some new_SubdocCmdContext
                    \<and> c_responses c1 = c_responses c)
           \<and> (\<not> b \<longrightarrow> c_item c1 = None \<and> c_commandContext c1 = None
                    \<and> (c_responses c1 = c_responses c
                         \<or> (\<exists>s. c_responses c1 = c_responses c @ [Status_response s])))"
  using assms by (auto simp add: subdoc_fetch_def Let_def log_call_def write_bin_packet_def)

lemma subdoc_operate_fresh:
  assumes "c_commandContext c = Some ctx" and "in_doc ctx = None" and "c_item c = Some it"
  shows "\<exists>b c2. subdoc_operate env traits CMD c path val flags in_cas' = Some (b, c2)
           \<and> c_history c2 = c_history c @ [Call_get_item_info it]
           \<and> c_item c2 = Some it
           \<and> (b \<longrightarrow> c_responses c2 = c_responses c
                 \<and> (\<exists>info ctx'. eng_get_item_info env (c_history c) it = Some info
                        \<and> c_commandContext c2 = Some ctx' \<and> in_cas ctx' = info_cas info
                        \<and> out_doc ctx' = out_doc ctx))
           \<and> (\<not> b \<longrightarrow> (\<exists>s. c_responses c2 = c_responses c @ [Status_response s]))"
proof -
  obtain st doc cas' c1 where
    g: "get_document_for_searching env c it [] in_cas' 0 = (st, doc, cas', c1)"
    by (cases "get_document_for_searching env c it [] in_cas' 0") auto
  note f = materialise_frame [OF g]
  obtain subdoc_res res where
    o: "op_exec env (subdoc_opcode traits CMD flags) doc
          (if request_has_value (traits CMD) then Some val else None) path = (subdoc_res, res)"
    by (cases "op_exec env (subdoc_opcode traits CMD flags) doc
          (if request_has_value (traits CMD) then Some val else None) path") auto
  show ?thesis
  proof (cases "st = PROTOCOL_BINARY_RESPONSE_SUCCESS")
    case False
    with assms g f show ?thesis by (auto simp add: subdoc_operate_def)
  next
    case st: True
    from materialise_success_cas [OF g [unfolded st]] obtain info where
      i: "eng_get_item_info env (c_history c) it = Some info" "cas' = info_cas info" by blast
    show ?thesis
    proof (cases "subdoc_error_status subdoc_res")
      case None
      with assms g f o st i show ?thesis by (auto simp add: subdoc_operate_def)
    next
      case (Some status')
      with assms g f o st show ?thesis by (auto simp add: subdoc_operate_def)
    qed
  qed
qed

lemma subdoc_update_lookup:
  "\<not> is_mutator (traits CMD) \<Longrightarrow> c_commandContext c = Some ctx \<Longrightarrow>
     subdoc_update env traits CMD c ret key vbucket = Some (ENGINE_SUCCESS, c\<lparr>c_cas := in_cas ctx\<rparr>)"
  by (simp add: subdoc_update_def)

lemma subdoc_response_result:
  assumes "c_commandContext c = Some ctx"
  shows "\<exists>c'. subdoc_response env le traits CMD c = Some c'
           \<and> c_history c' = c_history c \<and> c_item c' = c_item c
           \<and> c_commandContext c' = c_commandContext c
           \<and> (c_responses c' = c_responses c
               \<or> (\<exists>hdr iov. c_responses c' = c_responses c @ [Subdoc_response hdr iov]
                      \<and> rsp_cas hdr = be_bytes 8 (unat (c_cas c))))"
  using assms by (auto simp add: subdoc_response_def htonll_stored_bytes)

lemma update_stats_simps [simp]:
  "c_item (update_stats traits CMD key c) = c_item c"
  "c_commandContext (update_stats traits CMD key c) = c_commandContext c"
  "c_history (update_stats traits CMD key c) = c_history c"
  "c_responses (update_stats traits CMD key c) = c_responses c"
  "c_cas (update_stats traits CMD key c) = c_cas c"
  by (simp_all add: update_stats_def)

lemma subdoc_attempt_lookup:
  assumes "\<not> is_mutator (traits CMD)" and "c_item c = None" and "c_commandContext c = None"
    and "eng_get env (c_history c) (req_key req) (req_vbucket req) = (r, it)"
  shows "(\<exists>c1. subdoc_attempt env traits CMD req ENGINE_SUCCESS c = Some (Returned c1)
            \<and> (c_history c1 = c_history c @ [Call_get (req_key req) (req_vbucket req) r it]
                \<or> c_history c1 = c_history c @ [Call_get (req_key req) (req_vbucket req) r it,
                                                   Call_get_item_info it])
            \<and> (c_responses c1 = c_responses c
                \<or> (\<exists>s. c_responses c1 = c_responses c @ [Status_response s])))
       \<or> (\<exists>c3 info ctx. subdoc_attempt env traits CMD req ENGINE_SUCCESS c
                           = Some (Updated ENGINE_SUCCESS c3)
            \<and> c_history c3 = c_history c @ [Call_get (req_key req) (req_vbucket req) r it,
                                               Call_get_item_info it]
            \<and> c_responses c3 = c_responses c
            \<and> eng_get_item_info env
                 (c_history c @ [Call_get (req_key req) (req_vbucket req) r it]) it = Some info
            \<and> c_commandContext c3 = Some ctx
            \<and> c_cas c3 = info_cas info)"
proof -
  from subdoc_fetch_fresh [OF assms(2,3,4)] obtain b c1 where
    f: "subdoc_fetch env c ENGINE_SUCCESS (req_key req) (req_vbucket req) = Some (b, c1)"
    and fh: "c_history c1 = c_history c @ [Call_get (req_key req) (req_vbucket req) r it]"
    and ft: "b \<longrightarrow> r = ENGINE_SUCCESS \<and> c_item c1 = Some it
                    \<and> c_commandContext c1 = Some new_SubdocCmdContext
                    \<and> c_responses c1 = c_responses c"
    and ff: "\<not> b \<longrightarrow> (c_responses c1 = c_responses c
                         \<or> (\<exists>s. c_responses c1 = c_responses c @ [Status_response s]))"
    by blast
  show ?thesis
  proof (cases b)
    case False
    with f fh ff show ?thesis by (auto simp add: subdoc_attempt_def)
  next
    case True
    with ft have c1: "c_item c1 = Some it" "c_commandContext c1 = Some new_SubdocCmdContext"
      "c_responses c1 = c_responses c" by simp_all
    have n: "in_doc new_SubdocCmdContext = None" by simp
    from subdoc_operate_fresh [OF c1(2) n c1(1)] obtain b' c2 where
      o: "subdoc_operate env traits CMD c1 (req_path req) (req_value req) (req_flags req)
            (req_cas req) = Some (b', c2)"
      and oh: "c_history c2 = c_history c1 @ [Call_get_item_info it]"
      and ot: "b' \<longrightarrow> c_responses c2 = c_responses c1
                 \<and> (\<exists>info ctx'. eng_get_item_info env (c_history c1) it = Some info
                        \<and> c_commandContext c2 = Some ctx' \<and> in_cas ctx' = info_cas info
                        \<and> out_doc ctx' = out_doc new_SubdocCmdContext)"
      and of': "\<not> b' \<longrightarrow> (\<exists>s. c_responses c2 = c_responses c1 @ [Status_response s])"
      by blast
    show ?thesis
    proof (cases b')
      case False
      with True f o oh fh of' c1 show ?thesis by (auto simp add: subdoc_attempt_def)
    next
      case b': True
      with ot obtain info ctx' where
        i: "eng_get_item_info env (c_history c1) it = Some info"
           "c_commandContext c2 = Some ctx'" "in_cas ctx' = info_cas info"
        and r2: "c_responses c2 = c_responses c1" by blast
      have u: "subdoc_update env traits CMD c2 ENGINE_SUCCESS (req_key req) (req_vbucket req)
                 = Some (ENGINE_SUCCESS, c2\<lparr>c_cas := in_cas ctx'\<rparr>)"
        using assms(1) i(2) by (rule subdoc_update_lookup)
      have "subdoc_attempt env traits CMD req ENGINE_SUCCESS c
              = Some (Updated ENGINE_SUCCESS (c2\<lparr>c_cas := in_cas ctx'\<rparr>))"
        using True b' f o u by (simp add: subdoc_attempt_def)
      then show ?thesis
        using oh fh r2 c1(3) i
        by (intro disjI2 exI [of _ "c2\<lparr>c_cas := in_cas ctx'\<rparr>"] exI [of _ info] exI [of _ ctx'])
           simp
    qed
  qed
qed

lemma aiostat_update_simps [simp]:
  "c_item (c\<lparr>c_aiostat := a\<rparr>) = c_item c"
  "c_commandContext (c\<lparr>c_aiostat := a\<rparr>) = c_commandContext c"
  "c_history (c\<lparr>c_aiostat := a\<rparr>) = c_history c"
  "c_responses (c\<lparr>c_aiostat := a\<rparr>) = c_responses c"
  by simp_all

lemma append_singleton_eq: "xs @ [x] = xs @ [y] \<longleftrightarrow> x = y"
  by simp

text \<open>
  Claim C8. For a command that is not a mutator, \<^verbatim>\<open>subdoc_update\<close> makes no engine call at
  all (the record of calls is unchanged, so nothing is allocated or stored) and only copies
  the context's input CAS to the connection. A whole run of the executor on a new command
  makes one attempt and calls the engine for \<^verbatim>\<open>get\<close> and \<^verbatim>\<open>get_item_info\<close> only; when it
  answers with a sub-document response, the CAS of that response is the CAS of the item info
  seen when the document was fetched.
\<close>

theorem lookup_update_is_frame:
  assumes "\<not> is_mutator (traits CMD)"
  shows "(c_commandContext c = Some ctx \<longrightarrow>
            subdoc_update env traits CMD c ret key vbucket
              = Some (ENGINE_SUCCESS, c\<lparr>c_cas := in_cas ctx\<rparr>))
       \<and> (c_item c = None \<and> c_commandContext c = None \<and> c_aiostat c = ENGINE_SUCCESS
            \<and> eng_get env (c_history c) (req_key (parse_request le packet))
                  (req_vbucket (parse_request le packet)) = (r, it)
          \<longrightarrow> (\<exists>c'. subdoc_executor env le traits CMD c packet = Some (c', 1)
                 \<and> (c_history c' = c_history c @
                        [Call_get (req_key (parse_request le packet))
                           (req_vbucket (parse_request le packet)) r it]
                     \<or> c_history c' = c_history c @
                        [Call_get (req_key (parse_request le packet))
                           (req_vbucket (parse_request le packet)) r it,
                         Call_get_item_info it])
                 \<and> (\<forall>hdr iov. c_responses c' = c_responses c @ [Subdoc_response hdr iov] \<longrightarrow>
                       (\<exists>info. eng_get_item_info env
                                  (c_history c @
                                     [Call_get (req_key (parse_request le packet))
                                        (req_vbucket (parse_request le packet)) r it]) it
                                = Some info
                              \<and> rsp_cas hdr = be_bytes 8 (unat (info_cas info))))))"
proof (intro conjI impI)
  assume "c_commandContext c = Some ctx"
  with assms show "subdoc_update env traits CMD c ret key vbucket
              = Some (ENGINE_SUCCESS, c\<lparr>c_cas := in_cas ctx\<rparr>)"
    by (rule subdoc_update_lookup)
next
  let ?req = "parse_request le packet"
  let ?c0 = "c\<lparr>c_aiostat := ENGINE_SUCCESS\<rparr>"
  let ?get = "Call_get (req_key ?req) (req_vbucket ?req) r it"
  assume a: "c_item c = None \<and> c_commandContext c = None \<and> c_aiostat c = ENGINE_SUCCESS
            \<and> eng_get env (c_history c) (req_key ?req) (req_vbucket ?req) = (r, it)"
  then have f: "c_item ?c0 = None" "c_commandContext ?c0 = None"
    "eng_get env (c_history ?c0) (req_key ?req) (req_vbucket ?req) = (r, it)"
    and ai: "c_aiostat c = ENGINE_SUCCESS" by simp_all
  have e: "subdoc_executor env le traits CMD c packet
             = subdoc_executor_loop env le traits CMD ?req 0 ENGINE_SUCCESS ?c0"
    by (simp add: subdoc_executor_def ai)
  from subdoc_attempt_lookup [where traits = traits and CMD = CMD, OF assms f] consider
    (returned) c1 where
      "subdoc_attempt env traits CMD ?req ENGINE_SUCCESS ?c0 = Some (Returned c1)"
      "c_history c1 = c_history c @ [?get] \<or> c_history c1 = c_history c @ [?get, Call_get_item_info it]"
      "c_responses c1 = c_responses c \<or> (\<exists>s. c_responses c1 = c_responses c @ [Status_response s])"
    | (updated) c3 info ctx' where
      "subdoc_attempt env traits CMD ?req ENGINE_SUCCESS ?c0 = Some (Updated ENGINE_SUCCESS c3)"
      "c_history c3 = c_history c @ [?get, Call_get_item_info it]"
      "c_responses c3 = c_responses c"
      "eng_get_item_info env (c_history c @ [?get]) it = Some info"
      "c_commandContext c3 = Some ctx'" "c_cas c3 = info_cas info"
    by (simp only: aiostat_update_simps) blast
  then show "\<exists>c'. subdoc_executor env le traits CMD c packet = Some (c', 1)
                 \<and> (c_history c' = c_history c @ [?get]
                     \<or> c_history c' = c_history c @ [?get, Call_get_item_info it])
                 \<and> (\<forall>hdr iov. c_responses c' = c_responses c @ [Subdoc_response hdr iov] \<longrightarrow>
                       (\<exists>info. eng_get_item_info env (c_history c @ [?get]) it = Some info
                              \<and> rsp_cas hdr = be_bytes 8 (unat (info_cas info))))"
  proof cases
    case returned
    have "subdoc_executor env le traits CMD c packet = Some (c1, 1)"
      unfolding e by (subst subdoc_executor_loop.simps) (simp add: returned(1))
    moreover have "\<forall>hdr iov. c_responses c1 \<noteq> c_responses c @ [Subdoc_response hdr iov]"
      using returned(3) by auto
    ultimately show ?thesis using returned(2) by (intro exI [of _ c1]) simp
  next
    case updated
    have x: "c_commandContext (update_stats traits CMD (req_key ?req) c3) = Some ctx'"
      using updated(5) by simp
    from subdoc_response_result [OF x, of env le traits CMD] obtain c4 where
      r: "subdoc_response env le traits CMD (update_stats traits CMD (req_key ?req) c3) = Some c4"
      and h4: "c_history c4 = c_history c3"
      and r4: "c_responses c4 = c_responses c3
               \<or> (\<exists>hdr iov. c_responses c4 = c_responses c3 @ [Subdoc_response hdr iov]
                      \<and> rsp_cas hdr = be_bytes 8 (unat (c_cas c3)))"
      by auto
    have "subdoc_executor env le traits CMD c packet = Some (c4, 1)"
      unfolding e by (subst subdoc_executor_loop.simps) (simp add: updated(1) r)
    moreover have "\<forall>hdr iov. c_responses c4 = c_responses c @ [Subdoc_response hdr iov] \<longrightarrow>
                       (\<exists>info. eng_get_item_info env (c_history c @ [?get]) it = Some info
                              \<and> rsp_cas hdr = be_bytes 8 (unat (info_cas info)))"
      using r4 updated(3,4,6) by auto
    ultimately show ?thesis using h4 updated(2) by (intro exI [of _ c4]) simp
  qed
qed

lemma slice_small:
  "slice m a 0 = []"
  "slice m a (Suc 0) = [m a]"
  "slice m a 1 = [m a]"
  by (simp_all add: slice_def)

lemma slice_8:
  "slice m a 8 = [m a, m (Suc a), m (Suc (Suc a)), m (Suc (Suc (Suc a))),
                  m (Suc (Suc (Suc (Suc a)))), m (Suc (Suc (Suc (Suc (Suc a))))),
                  m (Suc (Suc (Suc (Suc (Suc (Suc a)))))),
                  m (Suc (Suc (Suc (Suc (Suc (Suc (Suc a)))))))]"
  by (simp add: slice_def upt_rec)

lemma ntohs_vbucket: "ntohs le (hdr_vbucket le p) = of_nat (be_val (slice p 6 2))"
  by (simp add: hdr_vbucket_def ntohs_load16)

lemma ntohll_cas: "ntohll le (hdr_cas le p) = of_nat (wire_cas p)"
  by (simp add: hdr_cas_def ntohll_load64 wire_cas_def)

lemma get_packet_bytes:
  "get_packet 0 = [0x80, 0xc5, 0, 1, 3, 0, 0, 0, 0, 0, 0, 5, 0, 0, 0, 0, 0, 0, 0, 0, 0, 0, 0, 0,
                   0, 1, 0, 0x6b, 0x61]"
  by (simp add: get_packet_def encode_header_def be_bytes_2 be_bytes_4 be_bytes_8)

lemma get_packet_fields:
  "wire_keylen (mem_of (get_packet 0)) = 1"
  "hdr_extlen (mem_of (get_packet 0)) = 3"
  "wire_pathlen (mem_of (get_packet 0)) = 1"
  "wire_bodylen (mem_of (get_packet 0)) = 5"
  "wire_cas (mem_of (get_packet 0)) = 0"
  "extras_subdoc_flags (mem_of (get_packet 0)) = 0"
  "be_val (slice (mem_of (get_packet 0)) 6 2) = 0"
  "mem_of (get_packet 0) 27 = 0x6b"
  "mem_of (get_packet 0) 28 = 0x61"
  by (simp_all add: get_packet_bytes wire_keylen_def hdr_extlen_def wire_pathlen_def
      wire_bodylen_def wire_cas_def extras_subdoc_flags_def mem_of_def slice_2 slice_4 slice_8)

lemma parse_get_packet:
  "parse_request le (mem_of (get_packet 0))
     = \<lparr>req_key = [0x6b], req_path = [0x61], req_value = [], req_flags = 0, req_vbucket = 0,
        req_cas = 0\<rparr>"
proof -
  have v: "subdoc_valuelen le (mem_of (get_packet 0)) = 0"
    by (simp add: subdoc_valuelen_zero_iff get_packet_fields)
  show ?thesis
    by (simp add: parse_request_def Let_def unat_keylen unat_pathlen v ntohs_vbucket ntohll_cas
        get_packet_fields slice_small)
qed

lemma sample_get_run:
  "\<exists>c' hdr. subdoc_executor (sample_env json_info ENGINE_SUCCESS) le sample_traits
       PROTOCOL_BINARY_CMD_SUBDOC_GET fresh_connection (mem_of (get_packet 0)) = Some (c', 1)
     \<and> c_responses c' = c_responses fresh_connection @ [Subdoc_response hdr [[0x7b, 0x7d]]]
     \<and> c_history c' = [Call_get [0x6b] 0 ENGINE_SUCCESS 10, Call_get_item_info 10]"
  apply (simp add: subdoc_executor_def parse_get_packet)
  apply (subst subdoc_executor_loop.simps)
  apply (simp add: subdoc_attempt_def subdoc_fetch_def subdoc_operate_def subdoc_update_def
      subdoc_response_def get_document_for_searching_def fresh_connection_def sample_traits_def
      update_stats_def log_call_def Let_def)
  done

theorem lookup_update_is_frame_witness:
  "subdoc_update (sample_env json_info ENGINE_SUCCESS) sample_traits PROTOCOL_BINARY_CMD_SUBDOC_GET
       operated_connection ENGINE_SUCCESS [0x6b] 0
     = Some (ENGINE_SUCCESS, operated_connection\<lparr>c_cas := 7\<rparr>)
   \<and> (\<exists>c' hdr. subdoc_executor (sample_env json_info ENGINE_SUCCESS) True sample_traits
          PROTOCOL_BINARY_CMD_SUBDOC_GET fresh_connection (mem_of (get_packet 0)) = Some (c', 1)
        \<and> c_history c' = [Call_get [0x6b] 0 ENGINE_SUCCESS 10, Call_get_item_info 10]
        \<and> c_responses c' = [Subdoc_response hdr [[0x7b, 0x7d]]]
        \<and> rsp_cas hdr = [0, 0, 0, 0, 0, 0, 0, 7])"
proof -
  let ?env = "sample_env json_info ENGINE_SUCCESS"
  have m: "\<not> is_mutator (sample_traits PROTOCOL_BINARY_CMD_SUBDOC_GET)"
    by (simp add: sample_traits_def)
  note t = lookup_update_is_frame [where traits = sample_traits
      and CMD = PROTOCOL_BINARY_CMD_SUBDOC_GET and env = ?env, OF m]
  have a: "subdoc_update ?env sample_traits PROTOCOL_BINARY_CMD_SUBDOC_GET
       operated_connection ENGINE_SUCCESS [0x6b] 0
     = Some (ENGINE_SUCCESS, operated_connection\<lparr>c_cas := 7\<rparr>)"
    using t [where c = operated_connection and ret = ENGINE_SUCCESS and key = "[0x6b]"
        and vbucket = 0] by simp
  have f: "c_item fresh_connection = None \<and> c_commandContext fresh_connection = None
           \<and> c_aiostat fresh_connection = ENGINE_SUCCESS
           \<and> eng_get ?env (c_history fresh_connection)
                (req_key (parse_request True (mem_of (get_packet 0))))
                (req_vbucket (parse_request True (mem_of (get_packet 0)))) = (ENGINE_SUCCESS, 10)"
    by (simp add: fresh_connection_def)
  from t [where c = fresh_connection and le = True and packet = "mem_of (get_packet 0)"
      and r = ENGINE_SUCCESS and it = 10] f
  obtain c' where
    e: "subdoc_executor ?env True sample_traits PROTOCOL_BINARY_CMD_SUBDOC_GET fresh_connection
          (mem_of (get_packet 0)) = Some (c', 1)"
    and r: "\<forall>hdr iov. c_responses c' = c_responses fresh_connection @ [Subdoc_response hdr iov] \<longrightarrow>
              (\<exists>info. eng_get_item_info ?env
                  (c_history fresh_connection @
                     [Call_get (req_key (parse_request True (mem_of (get_packet 0))))
                        (req_vbucket (parse_request True (mem_of (get_packet 0))))
                        ENGINE_SUCCESS 10]) 10 = Some info
                 \<and> rsp_cas hdr = be_bytes 8 (unat (info_cas info)))"
    by blast
  from sample_get_run [of True] obtain c'' hdr where
    e': "subdoc_executor ?env True sample_traits PROTOCOL_BINARY_CMD_SUBDOC_GET fresh_connection
          (mem_of (get_packet 0)) = Some (c'', 1)"
    and r': "c_responses c'' = c_responses fresh_connection @ [Subdoc_response hdr [[0x7b, 0x7d]]]"
    and h': "c_history c'' = [Call_get [0x6b] 0 ENGINE_SUCCESS 10, Call_get_item_info 10]"
    by blast
  from e e' have eq: "c'' = c'" by simp
  from r r' eq have "rsp_cas hdr = be_bytes 8 (unat (info_cas json_info))" by auto
  then have cas: "rsp_cas hdr = [0, 0, 0, 0, 0, 0, 0, 7]" by (simp add: be_bytes_8)
  have "c_responses c' = [Subdoc_response hdr [[0x7b, 0x7d]]]"
    using r' eq by (simp add: fresh_connection_def)
  with e h' eq cas have "\<exists>c' hdr. subdoc_executor ?env True sample_traits
          PROTOCOL_BINARY_CMD_SUBDOC_GET fresh_connection (mem_of (get_packet 0)) = Some (c', 1)
        \<and> c_history c' = [Call_get [0x6b] 0 ENGINE_SUCCESS 10, Call_get_item_info 10]
        \<and> c_responses c' = [Subdoc_response hdr [[0x7b, 0x7d]]]
        \<and> rsp_cas hdr = [0, 0, 0, 0, 0, 0, 0, 7]"
    by (intro exI [of _ c'] exI [of _ hdr]) simp
  with a show ?thesis by blast
qed

lemma checked_out_append: "checked_out (calls @ xs) = foldl checked_out_step (checked_out calls) xs"
  by (simp add: checked_out_def)

lemma conn_wf_frame:
  "c_item c' = c_item c \<Longrightarrow> c_commandContext c' = c_commandContext c
   \<Longrightarrow> c_history c' = c_history c \<Longrightarrow> conn_wf c' = conn_wf c"
  by (simp add: conn_wf_def owned_def)

lemma write_bin_packet_wf [simp]: "conn_wf (write_bin_packet c s) = conn_wf c"
  by (rule conn_wf_frame) simp_all

lemma update_stats_wf [simp]: "conn_wf (update_stats traits CMD key c) = conn_wf c"
  by (rule conn_wf_frame) simp_all

lemma subdoc_fetch_wf:
  assumes "conn_wf c"
  shows "\<exists>b c1. subdoc_fetch env c ret key vbucket = Some (b, c1) \<and> conn_wf c1
           \<and> (b \<longrightarrow> c_item c1 \<noteq> None)"
proof (cases "c_item c")
  case (Some it)
  with assms show ?thesis by (auto simp add: subdoc_fetch_def)
next
  case None
  with assms have x: "c_commandContext c = None" and o: "checked_out (c_history c) = {#}"
    by (simp_all add: conn_wf_def owned_def)
  obtain r it where g: "eng_get env (c_history c) key vbucket = (r, it)"
    by (cases "eng_get env (c_history c) key vbucket") auto
  show ?thesis
    using None x o g
    by (auto simp add: subdoc_fetch_def Let_def conn_wf_def owned_def checked_out_append
        log_call_def write_bin_packet_def new_SubdocCmdContext_def)
qed

lemma subdoc_operate_wf:
  assumes "conn_wf c" and "c_item c = Some it"
  shows "\<exists>b c2. subdoc_operate env traits CMD c path val flags in_cas' = Some (b, c2)
           \<and> conn_wf c2 \<and> c_item c2 = Some it"
proof -
  from assms obtain ctx where x: "c_commandContext c = Some ctx"
    by (auto simp add: conn_wf_def)
  from subdoc_operate_result [OF x assms(2), of env traits CMD path val flags in_cas']
  obtain b c2 ctx' where
    o: "subdoc_operate env traits CMD c path val flags in_cas' = Some (b, c2)"
    and i: "c_item c2 = c_item c"
    and x': "c_commandContext c2 = Some ctx'" "out_doc ctx' = out_doc ctx"
    and h: "c_history c2 = c_history c \<or> c_history c2 = c_history c @ [Call_get_item_info it]"
    by blast
  from h have "checked_out (c_history c2) = checked_out (c_history c)"
    by (auto simp add: checked_out_append)
  with assms x i x' have "conn_wf c2" by (simp add: conn_wf_def owned_def)
  with o i assms(2) show ?thesis by simp
qed

lemma subdoc_store_wf:
  assumes "conn_wf c" and "c_item c = Some it"
  shows "\<exists>r c'. subdoc_store env c doc vbucket = (r, c') \<and> conn_wf c' \<and> c_item c' = Some it
           \<and> c_commandContext c' = c_commandContext c"
proof -
  obtain ret new_cas where
    s: "eng_store env (c_history c) doc OPERATION_REPLACE vbucket = (ret, new_cas)"
    by (cases "eng_store env (c_history c) doc OPERATION_REPLACE vbucket") auto
  from subdoc_store_result [OF s] obtain c' where
    r: "subdoc_store env c doc vbucket = (ret, c')"
    and h: "c_history c' = c_history c @ [Call_store doc OPERATION_REPLACE vbucket ret new_cas]"
    and i: "c_item c' = c_item c" and x: "c_commandContext c' = c_commandContext c"
    by blast
  from assms h i x have "conn_wf c'" by (simp add: conn_wf_def owned_def checked_out_append)
  with r i x assms(2) show ?thesis by simp
qed

lemma subdoc_allocate_wf:
  assumes "conn_wf c" and "c_item c = Some it" and "c_commandContext c = Some ctx"
    and "out_doc ctx = None"
  shows "(\<exists>r c1. subdoc_allocate env c ctx ret key = Inl (r, c1) \<and> conn_wf c1
            \<and> c_item c1 = Some it \<and> c_commandContext c1 \<noteq> None)
       \<or> (\<exists>new_doc c1. subdoc_allocate env c ctx ret key = Inr (new_doc, c1) \<and> conn_wf c1
            \<and> c_item c1 = Some it \<and> c_commandContext c1 \<noteq> None)"
proof -
  obtain r new_doc where
    a: "eng_allocate env (c_history c) key (new_doc_len (newdoc (result ctx)))
          PROTOCOL_BINARY_DATATYPE_JSON = (r, new_doc)"
    by (cases "eng_allocate env (c_history c) key (new_doc_len (newdoc (result ctx)))
          PROTOCOL_BINARY_DATATYPE_JSON") auto
  from assms have o: "checked_out (c_history c) = {#it#}"
    by (simp add: conn_wf_def owned_def)
  show ?thesis
    using assms(2-4) o a
    by (auto simp add: subdoc_allocate_def Let_def conn_wf_def owned_def checked_out_append
        log_call_def write_bin_packet_def split: option.splits)
qed

lemma subdoc_update_wf:
  assumes "conn_wf c" and "c_item c = Some it"
  shows "\<exists>r c3. subdoc_update env traits CMD c ret key vbucket = Some (r, c3) \<and> conn_wf c3
           \<and> c_item c3 = Some it \<and> c_commandContext c3 \<noteq> None"
proof -
  from assms obtain ctx where x: "c_commandContext c = Some ctx"
    by (auto simp add: conn_wf_def)
  show ?thesis
  proof (cases "is_mutator (traits CMD)")
    case False
    have "conn_wf (c\<lparr>c_cas := in_cas ctx\<rparr>) = conn_wf c" by (rule conn_wf_frame) simp_all
    with False x assms show ?thesis by (simp add: subdoc_update_def)
  next
    case True
    show ?thesis
    proof (cases "out_doc ctx")
      case (Some doc)
      from subdoc_store_wf [OF assms, of env doc vbucket] True x Some
      show ?thesis by (auto simp add: subdoc_update_def)
    next
      case None
      from subdoc_allocate_wf [OF assms x None, of env ret key]
      show ?thesis
      proof (elim disjE exE conjE)
        fix r c1
        assume "subdoc_allocate env c ctx ret key = Inl (r, c1)" "conn_wf c1"
          "c_item c1 = Some it" "c_commandContext c1 \<noteq> None"
        with True x None show ?thesis by (simp add: subdoc_update_def)
      next
        fix new_doc c1
        assume a: "subdoc_allocate env c ctx ret key = Inr (new_doc, c1)" and w: "conn_wf c1"
          and i: "c_item c1 = Some it" and n: "c_commandContext c1 \<noteq> None"
        from subdoc_store_wf [OF w i, of env new_doc vbucket] a n True x None
        show ?thesis by (auto simp add: subdoc_update_def)
      qed
    qed
  qed
qed

lemma subdoc_response_wf:
  assumes "conn_wf c" and "c_commandContext c \<noteq> None"
  shows "\<exists>c4. subdoc_response env le traits CMD c = Some c4 \<and> conn_wf c4"
proof -
  from assms(2) obtain ctx where x: "c_commandContext c = Some ctx" by auto
  from subdoc_response_result [OF x, of env le traits CMD] obtain c4 where
    r: "subdoc_response env le traits CMD c = Some c4" and "c_history c4 = c_history c"
    "c_item c4 = c_item c" "c_commandContext c4 = c_commandContext c" by blast
  then have "conn_wf c4 = conn_wf c" by (intro conn_wf_frame)
  with assms(1) r show ?thesis by simp
qed

lemma retry_reset_clean:
  "c_item (retry_reset c) = None \<and> c_commandContext (retry_reset c) = None"
  by (simp add: retry_reset_def resetCommandContext_def destroy_SubdocCmdContext_def log_call_def
      split: option.splits)

lemma retry_reset_wf:
  assumes "conn_wf c"
  shows "conn_wf (retry_reset c) \<and> checked_out (c_history (retry_reset c)) = {#}"
  using assms
  by (auto simp add: retry_reset_def resetCommandContext_def destroy_SubdocCmdContext_def
      log_call_def conn_wf_def owned_def checked_out_append split: option.splits)


lemma subdoc_attempt_wf:
  assumes "conn_wf c"
  shows "(\<exists>c1. subdoc_attempt env traits CMD req ret c = Some (Returned c1) \<and> conn_wf c1)
       \<or> (\<exists>r c3. subdoc_attempt env traits CMD req ret c = Some (Updated r c3) \<and> conn_wf c3
              \<and> c_commandContext c3 \<noteq> None)"
proof -
  from subdoc_fetch_wf [OF assms, of env ret "req_key req" "req_vbucket req"] obtain b c1 where
    f: "subdoc_fetch env c ret (req_key req) (req_vbucket req) = Some (b, c1)"
    and w1: "conn_wf c1" and i1: "b \<longrightarrow> c_item c1 \<noteq> None" by blast
  show ?thesis
  proof (cases b)
    case False
    with f w1 show ?thesis by (simp add: subdoc_attempt_def)
  next
    case True
    with i1 obtain it where it: "c_item c1 = Some it" by auto
    from subdoc_operate_wf [OF w1 it, of env traits CMD "req_path req" "req_value req"
        "req_flags req" "req_cas req"] obtain b' c2 where
      o: "subdoc_operate env traits CMD c1 (req_path req) (req_value req) (req_flags req)
            (req_cas req) = Some (b', c2)"
      and w2: "conn_wf c2" and i2: "c_item c2 = Some it" by blast
    show ?thesis
    proof (cases b')
      case False
      with True f o w2 show ?thesis by (simp add: subdoc_attempt_def)
    next
      case b': True
      from subdoc_update_wf [OF w2 i2, of env traits CMD ret "req_key req" "req_vbucket req"]
      obtain r c3 where
        u: "subdoc_update env traits CMD c2 ret (req_key req) (req_vbucket req) = Some (r, c3)"
        and w3: "conn_wf c3" and x3: "c_commandContext c3 \<noteq> None" by blast
      from True b' f o u have
        "subdoc_attempt env traits CMD req ret c = Some (Updated r c3)"
        by (simp add: subdoc_attempt_def)
      with w3 x3 show ?thesis by blast
    qed
  qed
qed

lemma subdoc_executor_loop_wf:
  "conn_wf c \<Longrightarrow>
     \<exists>c' n. subdoc_executor_loop env le traits CMD req attempts ret c = Some (c', n)
        \<and> conn_wf c' \<and> attempts < n \<and> (n \<le> MAXIMUM_ATTEMPTS \<or> n = Suc attempts)
        \<and> (req_cas req \<noteq> 0 \<longrightarrow> n = Suc attempts)"
proof (induction env le traits CMD req attempts ret c rule: subdoc_executor_loop.induct)
  case (1 env le traits CMD req attempts ret c)
  from subdoc_attempt_wf [OF "1.prems", of env traits CMD req ret] show ?case
  proof (elim disjE exE conjE)
    fix c1
    assume "subdoc_attempt env traits CMD req ret c = Some (Returned c1)" "conn_wf c1"
    then show ?thesis by (subst subdoc_executor_loop.simps) simp
  next
    fix r c3
    assume a: "subdoc_attempt env traits CMD req ret c = Some (Updated r c3)"
      and w: "conn_wf c3" and x: "c_commandContext c3 \<noteq> None"
    show ?thesis
    proof (cases "r = ENGINE_KEY_EEXISTS")
      case True
      show ?thesis
      proof (cases "req_cas req = 0")
        case False
        with a True w show ?thesis by (subst subdoc_executor_loop.simps) simp
      next
        case cas: True
        from retry_reset_wf [OF w] have wr: "conn_wf (retry_reset c3)" by simp
        show ?thesis
        proof (cases "Suc attempts < MAXIMUM_ATTEMPTS")
          case False
          with a True cas wr show ?thesis
            by (subst subdoc_executor_loop.simps) (simp add: MAXIMUM_ATTEMPTS_def)
        next
          case lt: True
          have c: "req_cas req = 0 \<and> Suc attempts < MAXIMUM_ATTEMPTS" using cas lt by simp
          from "1.IH" [OF a refl True cas c wr] obtain c' n where
            "subdoc_executor_loop env le traits CMD req (Suc attempts) ENGINE_SUCCESS
               (retry_reset c3) = Some (c', n)"
            "conn_wf c'" "Suc attempts < n" "n \<le> MAXIMUM_ATTEMPTS \<or> n = Suc (Suc attempts)"
            by blast
          with a True cas lt show ?thesis
            by (subst subdoc_executor_loop.simps) auto
        qed
      qed
    next
      case False
      show ?thesis
      proof (cases "r = ENGINE_SUCCESS")
        case ne: False
        with a False w show ?thesis by (subst subdoc_executor_loop.simps) simp
      next
        case True
        have "conn_wf (update_stats traits CMD (req_key req) c3)" using w by simp
        moreover have "c_commandContext (update_stats traits CMD (req_key req) c3) \<noteq> None"
          using x by simp
        ultimately obtain c4 where
          "subdoc_response env le traits CMD (update_stats traits CMD (req_key req) c3) = Some c4"
          "conn_wf c4"
          using subdoc_response_wf by blast
        with a True show ?thesis by (subst subdoc_executor_loop.simps) simp
      qed
    qed
  qed
qed

lemma subdoc_executor_wf:
  assumes "conn_wf c"
  shows "\<exists>c' n. subdoc_executor env le traits CMD c packet = Some (c', n) \<and> conn_wf c'
           \<and> 1 \<le> n \<and> n \<le> MAXIMUM_ATTEMPTS
           \<and> (req_cas (parse_request le packet) \<noteq> 0 \<longrightarrow> n = 1)"
proof -
  have "conn_wf (c\<lparr>c_aiostat := ENGINE_SUCCESS\<rparr>) = conn_wf c" by (rule conn_wf_frame) simp_all
  with assms have "conn_wf (c\<lparr>c_aiostat := ENGINE_SUCCESS\<rparr>)" by simp
  from subdoc_executor_loop_wf [OF this, of env le traits CMD "parse_request le packet" 0
      "c_aiostat c"]
  show ?thesis by (auto simp add: subdoc_executor_def MAXIMUM_ATTEMPTS_def)
qed


lemma req_cas_zero_iff: "req_cas (parse_request le packet) = 0 \<longleftrightarrow> wire_cas packet = 0"
proof -
  have "wire_cas packet < 256 ^ 8"
    using be_val_bound [of "slice packet 16 8"] by (simp add: wire_cas_def)
  then have "unat (of_nat (wire_cas packet) :: 64 word) = wire_cas packet"
    by (simp add: unat_of_nat)
  then have "(of_nat (wire_cas packet) :: 64 word) = 0 \<longleftrightarrow> wire_cas packet = 0"
    by (simp add: unat_eq_0 [symmetric] del: unat_eq_0)
  then show ?thesis by (simp add: parse_request_def Let_def ntohll_cas)
qed

lemma loop_all_eexists:
  assumes "\<forall>c0. c_item c0 = None \<and> c_commandContext c0 = None \<longrightarrow>
             (\<exists>c3. subdoc_attempt env traits CMD req ENGINE_SUCCESS c0
                      = Some (Updated ENGINE_KEY_EEXISTS c3))"
    and "req_cas req = 0"
  shows "c_item c = None \<Longrightarrow> c_commandContext c = None \<Longrightarrow> attempts < MAXIMUM_ATTEMPTS \<Longrightarrow>
     \<exists>c4. subdoc_executor_loop env le traits CMD req attempts ENGINE_SUCCESS c
             = Some (write_bin_packet c4 PROTOCOL_BINARY_RESPONSE_ETMPFAIL, MAXIMUM_ATTEMPTS)"
proof (induction "MAXIMUM_ATTEMPTS - attempts" arbitrary: attempts c)
  case 0
  then show ?case by simp
next
  case (Suc k)
  from assms(1) Suc.prems(1,2) obtain c3 where
    a: "subdoc_attempt env traits CMD req ENGINE_SUCCESS c = Some (Updated ENGINE_KEY_EEXISTS c3)"
    by blast
  show ?case
  proof (cases "Suc attempts < MAXIMUM_ATTEMPTS")
    case False
    with Suc.prems(3) have "Suc attempts = MAXIMUM_ATTEMPTS" by simp
    with a assms(2) False show ?thesis
      by (subst subdoc_executor_loop.simps) auto
  next
    case True
    have k: "k = MAXIMUM_ATTEMPTS - Suc attempts" using Suc.hyps(2) by simp
    have r: "c_item (retry_reset c3) = None" "c_commandContext (retry_reset c3) = None"
      using retry_reset_clean [of c3] by simp_all
    from Suc.hyps(1) [OF k r True]
    obtain c4 where
      "subdoc_executor_loop env le traits CMD req (Suc attempts) ENGINE_SUCCESS (retry_reset c3)
         = Some (write_bin_packet c4 PROTOCOL_BINARY_RESPONSE_ETMPFAIL, MAXIMUM_ATTEMPTS)"
      by blast
    with a assms(2) True show ?thesis
      by (subst subdoc_executor_loop.simps) auto
  qed
qed

text \<open>
  Claim C1. The executor returns after at least one and at most 100 attempts, and after
  exactly one when the client supplied a CAS. With client CAS 0, if every attempt from a
  connection without item and context ends with the update returning \<^verbatim>\<open>KEY_EEXISTS\<close>, the
  executor makes 100 attempts and its last act is the response \<^verbatim>\<open>ETMPFAIL\<close>. With a non-zero
  client CAS, an attempt whose update returns \<^verbatim>\<open>KEY_EEXISTS\<close> is followed at once by the
  response \<^verbatim>\<open>KEY_EEXISTS\<close>, with no release, reset or further engine call.
\<close>

theorem auto_retry_is_bounded:
  "MAXIMUM_ATTEMPTS = 100
   \<and> (conn_wf c \<longrightarrow>
        (\<exists>c' n. subdoc_executor env le traits CMD c packet = Some (c', n)
           \<and> 1 \<le> n \<and> n \<le> 100 \<and> (wire_cas packet \<noteq> 0 \<longrightarrow> n = 1)))
   \<and> ((\<forall>c0. c_item c0 = None \<and> c_commandContext c0 = None \<longrightarrow>
           (\<exists>c3. subdoc_attempt env traits CMD (parse_request le packet) ENGINE_SUCCESS c0
                    = Some (Updated ENGINE_KEY_EEXISTS c3)))
        \<and> wire_cas packet = 0
        \<and> c_item c = None \<and> c_commandContext c = None \<and> c_aiostat c = ENGINE_SUCCESS
      \<longrightarrow> (\<exists>c4. subdoc_executor env le traits CMD c packet
                   = Some (write_bin_packet c4 PROTOCOL_BINARY_RESPONSE_ETMPFAIL, 100)))
   \<and> (wire_cas packet \<noteq> 0
        \<and> subdoc_attempt env traits CMD (parse_request le packet) (c_aiostat c)
             (c\<lparr>c_aiostat := ENGINE_SUCCESS\<rparr>) = Some (Updated ENGINE_KEY_EEXISTS c3)
      \<longrightarrow> subdoc_executor env le traits CMD c packet
            = Some (write_bin_packet c3 PROTOCOL_BINARY_RESPONSE_KEY_EEXISTS, 1))"
proof (intro conjI impI)
  show "MAXIMUM_ATTEMPTS = 100" by (simp add: MAXIMUM_ATTEMPTS_def)
next
  assume "conn_wf c"
  from subdoc_executor_wf [OF this, of env le traits CMD packet]
  show "\<exists>c' n. subdoc_executor env le traits CMD c packet = Some (c', n)
           \<and> 1 \<le> n \<and> n \<le> 100 \<and> (wire_cas packet \<noteq> 0 \<longrightarrow> n = 1)"
    by (auto simp add: MAXIMUM_ATTEMPTS_def req_cas_zero_iff)
next
  let ?req = "parse_request le packet"
  assume a: "(\<forall>c0. c_item c0 = None \<and> c_commandContext c0 = None \<longrightarrow>
           (\<exists>c3. subdoc_attempt env traits CMD ?req ENGINE_SUCCESS c0
                    = Some (Updated ENGINE_KEY_EEXISTS c3)))
        \<and> wire_cas packet = 0
        \<and> c_item c = None \<and> c_commandContext c = None \<and> c_aiostat c = ENGINE_SUCCESS"
  then have h: "\<forall>c0. c_item c0 = None \<and> c_commandContext c0 = None \<longrightarrow>
           (\<exists>c3. subdoc_attempt env traits CMD ?req ENGINE_SUCCESS c0
                    = Some (Updated ENGINE_KEY_EEXISTS c3))"
    and z: "req_cas ?req = 0"
    and f: "c_item (c\<lparr>c_aiostat := ENGINE_SUCCESS\<rparr>) = None"
           "c_commandContext (c\<lparr>c_aiostat := ENGINE_SUCCESS\<rparr>) = None"
    and ai: "c_aiostat c = ENGINE_SUCCESS"
    by (simp_all add: req_cas_zero_iff)
  have "(0::nat) < MAXIMUM_ATTEMPTS" by (simp add: MAXIMUM_ATTEMPTS_def)
  from loop_all_eexists [OF h z f this, of le]
  show "\<exists>c4. subdoc_executor env le traits CMD c packet
                   = Some (write_bin_packet c4 PROTOCOL_BINARY_RESPONSE_ETMPFAIL, 100)"
    by (simp add: subdoc_executor_def ai MAXIMUM_ATTEMPTS_def)
next
  let ?req = "parse_request le packet"
  assume a: "wire_cas packet \<noteq> 0
        \<and> subdoc_attempt env traits CMD ?req (c_aiostat c)
             (c\<lparr>c_aiostat := ENGINE_SUCCESS\<rparr>) = Some (Updated ENGINE_KEY_EEXISTS c3)"
  then have nz: "req_cas ?req \<noteq> 0" by (simp add: req_cas_zero_iff)
  show "subdoc_executor env le traits CMD c packet
            = Some (write_bin_packet c3 PROTOCOL_BINARY_RESPONSE_KEY_EEXISTS, 1)"
    unfolding subdoc_executor_def
    by (subst subdoc_executor_loop.simps) (use a nz in simp)
qed

lemma fresh_connection_wf: "conn_wf fresh_connection"
  by (simp add: conn_wf_def owned_def fresh_connection_def checked_out_def)

lemma fresh_connection_simps [simp]:
  "c_item fresh_connection = None"
  "c_commandContext fresh_connection = None"
  "c_aiostat fresh_connection = ENGINE_SUCCESS"
  "c_history fresh_connection = []"
  "c_responses fresh_connection = []"
  by (simp_all add: fresh_connection_def)

lemma dict_add_packet_cas:
  "wire_cas (mem_of (dict_add_packet 0)) = 0"
  "wire_cas (mem_of (dict_add_packet 7)) = 7"
  by (simp_all add: dict_add_packet_def encode_header_def be_bytes_2 be_bytes_4 be_bytes_8
      wire_cas_def mem_of_def slice_8)

lemma req_cas_wire: "req_cas (parse_request le packet) = of_nat (wire_cas packet)"
  by (simp add: parse_request_def Let_def ntohll_cas)

lemma sample_attempt_eexists:
  assumes "c_item c0 = None" and "c_commandContext c0 = None"
    and "req_cas req = 0 \<or> req_cas req = 7"
  shows "\<exists>c3. subdoc_attempt (sample_env json_info ENGINE_KEY_EEXISTS) sample_traits
                 PROTOCOL_BINARY_CMD_SUBDOC_DICT_ADD req ENGINE_SUCCESS c0
               = Some (Updated ENGINE_KEY_EEXISTS c3)
           \<and> c_history c3 = c_history c0 @
                [Call_get (req_key req) (req_vbucket req) ENGINE_SUCCESS 10,
                 Call_get_item_info 10,
                 Call_allocate (req_key req) 2 PROTOCOL_BINARY_DATATYPE_JSON ENGINE_SUCCESS 20,
                 Call_item_set_cas 20 7, Call_get_item_info 20, Write_value 20 [0x7b, 0x7d],
                 Call_store 20 OPERATION_REPLACE (req_vbucket req) ENGINE_KEY_EEXISTS 99]
           \<and> c_responses c3 = c_responses c0"
  using assms
  by (auto simp add: subdoc_attempt_def subdoc_fetch_def subdoc_operate_def subdoc_update_def
      subdoc_allocate_def subdoc_store_def get_document_for_searching_def sample_traits_def
      log_call_def Let_def memcpy_def numeral_2_eq_2)


theorem auto_retry_is_bounded_witness:
  "conn_wf fresh_connection
   \<and> (\<exists>c' n. subdoc_executor (sample_env json_info ENGINE_KEY_EEXISTS) True sample_traits
          PROTOCOL_BINARY_CMD_SUBDOC_DICT_ADD fresh_connection (mem_of (dict_add_packet 0))
            = Some (c', n) \<and> 1 \<le> n \<and> n \<le> 100)
   \<and> wire_cas (mem_of (dict_add_packet 0)) = 0
   \<and> (\<exists>c4. subdoc_executor (sample_env json_info ENGINE_KEY_EEXISTS) True sample_traits
          PROTOCOL_BINARY_CMD_SUBDOC_DICT_ADD fresh_connection (mem_of (dict_add_packet 0))
            = Some (write_bin_packet c4 PROTOCOL_BINARY_RESPONSE_ETMPFAIL, 100))
   \<and> wire_cas (mem_of (dict_add_packet 7)) \<noteq> 0
   \<and> (\<exists>c3. subdoc_executor (sample_env json_info ENGINE_KEY_EEXISTS) True sample_traits
          PROTOCOL_BINARY_CMD_SUBDOC_DICT_ADD fresh_connection (mem_of (dict_add_packet 7))
            = Some (write_bin_packet c3 PROTOCOL_BINARY_RESPONSE_KEY_EEXISTS, 1)
        \<and> c_responses c3 = []
        \<and> c_history c3 =
            [Call_get (req_key (parse_request True (mem_of (dict_add_packet 7))))
               (req_vbucket (parse_request True (mem_of (dict_add_packet 7)))) ENGINE_SUCCESS 10,
             Call_get_item_info 10,
             Call_allocate (req_key (parse_request True (mem_of (dict_add_packet 7)))) 2
               PROTOCOL_BINARY_DATATYPE_JSON ENGINE_SUCCESS 20,
             Call_item_set_cas 20 7, Call_get_item_info 20, Write_value 20 [0x7b, 0x7d],
             Call_store 20 OPERATION_REPLACE
               (req_vbucket (parse_request True (mem_of (dict_add_packet 7))))
               ENGINE_KEY_EEXISTS 99])"
proof -
  let ?env = "sample_env json_info ENGINE_KEY_EEXISTS"
  let ?add = "PROTOCOL_BINARY_CMD_SUBDOC_DICT_ADD"
  note t = auto_retry_is_bounded [where env = ?env and le = True and traits = sample_traits
      and CMD = ?add and c = fresh_connection]
  have a: "\<exists>c' n. subdoc_executor ?env True sample_traits ?add fresh_connection
             (mem_of (dict_add_packet 0)) = Some (c', n) \<and> 1 \<le> n \<and> n \<le> 100"
    using t [where packet = "mem_of (dict_add_packet 0)"] fresh_connection_wf by blast
  have z: "req_cas (parse_request True (mem_of (dict_add_packet 0))) = 0"
    by (simp add: req_cas_wire dict_add_packet_cas)
  have h: "\<forall>c0. c_item c0 = None \<and> c_commandContext c0 = None \<longrightarrow>
           (\<exists>c3. subdoc_attempt ?env sample_traits ?add
                    (parse_request True (mem_of (dict_add_packet 0))) ENGINE_SUCCESS c0
                    = Some (Updated ENGINE_KEY_EEXISTS c3))"
    using sample_attempt_eexists [where req = "parse_request True (mem_of (dict_add_packet 0))"] z
    by blast
  have b: "\<exists>c4. subdoc_executor ?env True sample_traits ?add fresh_connection
             (mem_of (dict_add_packet 0))
            = Some (write_bin_packet c4 PROTOCOL_BINARY_RESPONSE_ETMPFAIL, 100)"
    using t [where packet = "mem_of (dict_add_packet 0)"] h
    by (simp add: dict_add_packet_cas MAXIMUM_ATTEMPTS_def)
  have s: "req_cas (parse_request True (mem_of (dict_add_packet 7))) = 7"
    by (simp add: req_cas_wire dict_add_packet_cas)
  have f: "c_item (fresh_connection\<lparr>c_aiostat := ENGINE_SUCCESS\<rparr>) = None"
    "c_commandContext (fresh_connection\<lparr>c_aiostat := ENGINE_SUCCESS\<rparr>) = None" by simp_all
  from sample_attempt_eexists [OF f, of "parse_request True (mem_of (dict_add_packet 7))"] s
  obtain c3 where
    at: "subdoc_attempt ?env sample_traits ?add (parse_request True (mem_of (dict_add_packet 7)))
           (c_aiostat fresh_connection) (fresh_connection\<lparr>c_aiostat := ENGINE_SUCCESS\<rparr>)
         = Some (Updated ENGINE_KEY_EEXISTS c3)"
    and hi: "c_history c3 =
            [Call_get (req_key (parse_request True (mem_of (dict_add_packet 7))))
               (req_vbucket (parse_request True (mem_of (dict_add_packet 7)))) ENGINE_SUCCESS 10,
             Call_get_item_info 10,
             Call_allocate (req_key (parse_request True (mem_of (dict_add_packet 7)))) 2
               PROTOCOL_BINARY_DATATYPE_JSON ENGINE_SUCCESS 20,
             Call_item_set_cas 20 7, Call_get_item_info 20, Write_value 20 [0x7b, 0x7d],
             Call_store 20 OPERATION_REPLACE
               (req_vbucket (parse_request True (mem_of (dict_add_packet 7))))
               ENGINE_KEY_EEXISTS 99]"
    and re: "c_responses c3 = []"
    by auto
  have "subdoc_executor ?env True sample_traits ?add fresh_connection (mem_of (dict_add_packet 7))
          = Some (write_bin_packet c3 PROTOCOL_BINARY_RESPONSE_KEY_EEXISTS, 1)"
    using t [where packet = "mem_of (dict_add_packet 7)" and ?c3.0 = c3] at
    by (simp add: dict_add_packet_cas MAXIMUM_ATTEMPTS_def)
  with hi re have c: "\<exists>c3. subdoc_executor ?env True sample_traits ?add fresh_connection
            (mem_of (dict_add_packet 7))
            = Some (write_bin_packet c3 PROTOCOL_BINARY_RESPONSE_KEY_EEXISTS, 1)
        \<and> c_responses c3 = []
        \<and> c_history c3 =
            [Call_get (req_key (parse_request True (mem_of (dict_add_packet 7))))
               (req_vbucket (parse_request True (mem_of (dict_add_packet 7)))) ENGINE_SUCCESS 10,
             Call_get_item_info 10,
             Call_allocate (req_key (parse_request True (mem_of (dict_add_packet 7)))) 2
               PROTOCOL_BINARY_DATATYPE_JSON ENGINE_SUCCESS 20,
             Call_item_set_cas 20 7, Call_get_item_info 20, Write_value 20 [0x7b, 0x7d],
             Call_store 20 OPERATION_REPLACE
               (req_vbucket (parse_request True (mem_of (dict_add_packet 7))))
               ENGINE_KEY_EEXISTS 99]"
    by (intro exI [of _ c3]) simp
  from fresh_connection_wf a b c show ?thesis by (simp add: dict_add_packet_cas)
qed

end
